theory Spec2Isabelle
  imports Main "HOL-Library.Word"
begin

unbundle bit_operations_syntax

section \<open>The TWI (two-wire interface) master driver of the ATmega16\<close>

text \<open>
  The driver in \<^verbatim>\<open>i2c/i2c.c\<close> talks to the TWI peripheral through four memory-mapped
  registers and busy-waits on the completion flag. The embedding keeps the registers as
  fields of a record, threads that record through every function, and adds two things
  the C text leaves to the silicon:
  \<^item> the behaviour of the peripheral, as a script \<open>hw\<close> giving, for the \<open>n\<close>-th
    operation the driver triggers and waits for, what the registers read afterwards;
  \<^item> a log of the calls of the private functions, in the order they are made.
  Neither is read by the driver itself.
\<close>

type_synonym u8 = "8 word"

subsection \<open>Constants of the header\<close>

text \<open>Status codes in TWSR7:3 for master mode (\<^verbatim>\<open>i2c.h\<close>, lines 17 to 40).\<close>

definition MT_START :: u8 where "MT_START = 0x08"
definition MT_REP_START :: u8 where "MT_REP_START = 0x10"
definition MT_SLA_WRITE_ACK :: u8 where "MT_SLA_WRITE_ACK = 0x18"
definition MT_SLA_WRITE_NACK :: u8 where "MT_SLA_WRITE_NACK = 0x20"
definition MT_DATA_TRANSMITTED_ACK :: u8 where "MT_DATA_TRANSMITTED_ACK = 0x28"
definition MT_DATA_TRANSMITTED_NACK :: u8 where "MT_DATA_TRANSMITTED_NACK = 0x30"
definition MT_ARB_LOST :: u8 where "MT_ARB_LOST = 0x38"
definition MT_SLA_READ_ACK :: u8 where "MT_SLA_READ_ACK = 0x40"
definition MT_SLA_READ_NACK :: u8 where "MT_SLA_READ_NACK = 0x48"
definition MT_DATA_RECEIVED_ACK :: u8 where "MT_DATA_RECEIVED_ACK = 0x50"
definition MT_DATA_RECEIVED_NACK :: u8 where "MT_DATA_RECEIVED_NACK = 0x58"

definition status_codes :: "u8 list" where
  "status_codes = [MT_START, MT_REP_START, MT_SLA_WRITE_ACK, MT_SLA_WRITE_NACK,
     MT_DATA_TRANSMITTED_ACK, MT_DATA_TRANSMITTED_NACK, MT_ARB_LOST, MT_SLA_READ_ACK,
     MT_SLA_READ_NACK, MT_DATA_RECEIVED_ACK, MT_DATA_RECEIVED_NACK]"

text \<open>Direction bit of the address byte and the result codes (\<^verbatim>\<open>i2c.h\<close>, lines 42 to 49).\<close>

definition I2C_WRITE :: u8 where "I2C_WRITE = 0"
definition I2C_READ :: u8 where "I2C_READ = 1"

definition SUCCESS :: u8 where "SUCCESS = 0"
definition ERROR :: u8 where "ERROR = 1"

text \<open>
  Bit numbers of the control register TWCR. The driver takes them from
  \<^verbatim>\<open><avr/io.h>\<close> of avr-libc, which is not part of the repository; the values are
  those of the ATmega16 data sheet.
\<close>

definition TWINT :: nat where "TWINT = 7"
definition TWEA :: nat where "TWEA = 6"
definition TWSTA :: nat where "TWSTA = 5"
definition TWSTO :: nat where "TWSTO = 4"
definition TWEN :: nat where "TWEN = 2"

subsection \<open>State\<close>

text \<open>
  What the peripheral leaves behind when one triggered operation has run: the values
  that successive reads of TWCR return while the driver polls (\<open>cr_polls k\<close> is the
  value of the \<open>k\<close>-th read), and the contents of TWSR and TWDR once the flag is up.
\<close>

record response =
  cr_polls :: "nat \<Rightarrow> u8"
  sr_after :: u8
  dr_after :: u8

text \<open>The private functions of \<^verbatim>\<open>i2c.c\<close> that drive the bus, and the log entries.\<close>

datatype prim = Start | Transmit u8 | ReceiveAck | ReceiveNack

datatype event =
    Prim prim      \<comment> \<open>a call of \<open>i2c_start\<close>, \<open>i2c_transmit\<close>, \<open>i2c_receive_ack\<close>, \<open>i2c_receive_nack\<close>\<close>
  | Check u8 u8    \<comment> \<open>a call of \<open>i2c_check_status\<close>: the expected code, the value returned\<close>
  | Stop           \<comment> \<open>a call of \<open>i2c_stop\<close>\<close>

record twi =
  TWBR :: u8
  TWSR :: u8
  TWDR :: u8
  TWCR :: u8
  hw :: "nat \<Rightarrow> response"
  ops :: nat
  log :: "event list"

subsection \<open>Private functions\<close>

text \<open>
  \<^verbatim>\<open>while (!(TWCR & (1 << TWINT)));\<close> The loop has no bound: where no read of TWCR
  ever shows the flag, it does not return, which is the value \<open>None\<close>.
\<close>

partial_function (option) poll_twint :: "(nat \<Rightarrow> u8) \<Rightarrow> nat \<Rightarrow> nat option" where
  "poll_twint rd k =
     (if (rd k AND push_bit TWINT 1) = 0 then poll_twint rd (Suc k) else Some k)"

definition i2c_wait_until_finish :: "twi \<Rightarrow> twi option" where
  "i2c_wait_until_finish s =
     (let r = hw s (ops s) in
      case poll_twint (cr_polls r) 0 of
        None \<Rightarrow> None
      | Some k \<Rightarrow> Some (s\<lparr>TWCR := cr_polls r k, TWSR := sr_after r, TWDR := dr_after r,
                           ops := Suc (ops s)\<rparr>))"

definition i2c_start :: "twi \<Rightarrow> twi option" where
  "i2c_start s =
     i2c_wait_until_finish
       (s\<lparr>TWCR := push_bit TWINT 1 OR push_bit TWSTA 1 OR push_bit TWEN 1,
          log := log s @ [Prim Start]\<rparr>)"

definition i2c_transmit :: "u8 \<Rightarrow> twi \<Rightarrow> twi option" where
  "i2c_transmit byte s =
     i2c_wait_until_finish
       (s\<lparr>TWDR := byte, TWCR := push_bit TWINT 1 OR push_bit TWEN 1,
          log := log s @ [Prim (Transmit byte)]\<rparr>)"

definition i2c_receive_ack :: "twi \<Rightarrow> (u8 \<times> twi) option" where
  "i2c_receive_ack s =
     (case i2c_wait_until_finish
             (s\<lparr>TWCR := push_bit TWINT 1 OR push_bit TWEA 1 OR push_bit TWEN 1,
                log := log s @ [Prim ReceiveAck]\<rparr>) of
        None \<Rightarrow> None
      | Some s1 \<Rightarrow> Some (TWDR s1, s1))"

definition i2c_receive_nack :: "twi \<Rightarrow> (u8 \<times> twi) option" where
  "i2c_receive_nack s =
     (case i2c_wait_until_finish
             (s\<lparr>TWCR := push_bit TWINT 1 OR push_bit TWEN 1,
                log := log s @ [Prim ReceiveNack]\<rparr>) of
        None \<Rightarrow> None
      | Some s1 \<Rightarrow> Some (TWDR s1, s1))"

definition i2c_stop :: "twi \<Rightarrow> twi" where
  "i2c_stop s =
     s\<lparr>TWCR := push_bit TWINT 1 OR push_bit TWSTO 1 OR push_bit TWEN 1,
       log := log s @ [Stop]\<rparr>"

definition i2c_check_status :: "u8 \<Rightarrow> twi \<Rightarrow> u8 \<times> twi" where
  "i2c_check_status status_code s =
     (if (TWSR s AND 0xF8) = status_code
      then (SUCCESS, s\<lparr>log := log s @ [Check status_code SUCCESS]\<rparr>)
      else (ERROR, s\<lparr>log := log s @ [Check status_code ERROR]\<rparr>))"

subsection \<open>Public functions\<close>

definition i2c_init :: "twi \<Rightarrow> twi" where
  "i2c_init s = (let s1 = s\<lparr>TWBR := 18\<rparr>; s2 = s1\<lparr>TWSR := 0\<rparr>
                 in s2\<lparr>TWCR := TWCR s2 OR push_bit TWEN 1\<rparr>)"

definition i2c_is_device_connected :: "u8 \<Rightarrow> twi \<Rightarrow> (u8 \<times> twi) option" where
  "i2c_is_device_connected address s =
     (case i2c_start s of None \<Rightarrow> None | Some s1 \<Rightarrow>
      (case i2c_check_status MT_START s1 of (r1, s2) \<Rightarrow>
       if r1 = ERROR then Some (ERROR, s2) else
      (case i2c_transmit (push_bit 1 address OR I2C_WRITE) s2 of None \<Rightarrow> None | Some s3 \<Rightarrow>
      (case i2c_check_status MT_SLA_WRITE_ACK s3 of (r2, s4) \<Rightarrow>
       if r2 = ERROR then Some (ERROR, i2c_stop s4) else
       Some (SUCCESS, i2c_stop s4)))))"

definition i2c_write_no_reg :: "u8 \<Rightarrow> u8 \<Rightarrow> twi \<Rightarrow> (u8 \<times> twi) option" where
  "i2c_write_no_reg address data s =
     (case i2c_start s of None \<Rightarrow> None | Some s1 \<Rightarrow>
      (case i2c_check_status MT_START s1 of (r1, s2) \<Rightarrow>
       if r1 = ERROR then Some (ERROR, s2) else
      (case i2c_transmit (push_bit 1 address OR I2C_WRITE) s2 of None \<Rightarrow> None | Some s3 \<Rightarrow>
      (case i2c_check_status MT_SLA_WRITE_ACK s3 of (r2, s4) \<Rightarrow>
       if r2 = ERROR then Some (ERROR, i2c_stop s4) else
      (case i2c_transmit data s4 of None \<Rightarrow> None | Some s5 \<Rightarrow>
      (case i2c_check_status MT_DATA_TRANSMITTED_ACK s5 of (r3, s6) \<Rightarrow>
       if r3 = ERROR then Some (ERROR, i2c_stop s6) else
       Some (SUCCESS, i2c_stop s6)))))))"

definition i2c_write_with_reg :: "u8 \<Rightarrow> u8 \<Rightarrow> u8 \<Rightarrow> twi \<Rightarrow> (u8 \<times> twi) option" where
  "i2c_write_with_reg address reg data s =
     (case i2c_start s of None \<Rightarrow> None | Some s1 \<Rightarrow>
      (case i2c_check_status MT_START s1 of (r1, s2) \<Rightarrow>
       if r1 = ERROR then Some (ERROR, s2) else
      (case i2c_transmit (push_bit 1 address OR I2C_WRITE) s2 of None \<Rightarrow> None | Some s3 \<Rightarrow>
      (case i2c_check_status MT_SLA_WRITE_ACK s3 of (r2, s4) \<Rightarrow>
       if r2 = ERROR then Some (ERROR, i2c_stop s4) else
      (case i2c_transmit reg s4 of None \<Rightarrow> None | Some s5 \<Rightarrow>
      (case i2c_check_status MT_DATA_TRANSMITTED_ACK s5 of (r3, s6) \<Rightarrow>
       if r3 = ERROR then Some (ERROR, i2c_stop s6) else
      (case i2c_transmit data s6 of None \<Rightarrow> None | Some s7 \<Rightarrow>
      (case i2c_check_status MT_DATA_TRANSMITTED_ACK s7 of (r4, s8) \<Rightarrow>
       if r4 = ERROR then Some (ERROR, i2c_stop s8) else
       Some (SUCCESS, i2c_stop s8)))))))))"

text \<open>
  The caller's array is a list. The C text indexes it without knowing its size; an index
  outside the list is a read or write outside the caller's object, which the model
  reports as \<open>OutOfBounds\<close> instead of inventing a value.
\<close>

datatype fault = OutOfBounds

text \<open>
  The loop of \<^verbatim>\<open>i2c_write_multi_no_reg\<close> (lines 170 to 178) and, with the same text,
  of \<^verbatim>\<open>i2c_write_multi_with_reg\<close> (lines 216 to 224), together with the two
  statements that follow it: \<open>i\<close> is the loop counter (an \<^verbatim>\<open>int\<close>, never above 255
  here), and leaving the loop runs \<^verbatim>\<open>i2c_stop(); return SUCCESS;\<close>.
\<close>

function write_loop :: "nat \<Rightarrow> u8 \<Rightarrow> u8 list \<Rightarrow> twi \<Rightarrow> (fault + u8 \<times> twi) option" where
  "write_loop i len data s =
     (if i < unat len then
        (if i < length data then
           (case i2c_transmit (data ! i) s of None \<Rightarrow> None | Some s1 \<Rightarrow>
            (case i2c_check_status MT_DATA_TRANSMITTED_ACK s1 of (r, s2) \<Rightarrow>
             if r = ERROR then Some (Inr (ERROR, i2c_stop s2))
             else write_loop (i + 1) len data s2))
         else Some (Inl OutOfBounds))
      else Some (Inr (SUCCESS, i2c_stop s)))"
  by pat_completeness auto
termination
  by (relation "measure (\<lambda>(i, len, data, s). unat len - i)") auto

declare write_loop.simps [simp del]

definition i2c_write_multi_no_reg ::
    "u8 \<Rightarrow> u8 list \<Rightarrow> u8 \<Rightarrow> twi \<Rightarrow> (fault + u8 \<times> twi) option" where
  "i2c_write_multi_no_reg address data len s =
     (case i2c_start s of None \<Rightarrow> None | Some s1 \<Rightarrow>
      (case i2c_check_status MT_START s1 of (r1, s2) \<Rightarrow>
       if r1 = ERROR then Some (Inr (ERROR, s2)) else
      (case i2c_transmit (push_bit 1 address OR I2C_WRITE) s2 of None \<Rightarrow> None | Some s3 \<Rightarrow>
      (case i2c_check_status MT_SLA_WRITE_ACK s3 of (r2, s4) \<Rightarrow>
       if r2 = ERROR then Some (Inr (ERROR, i2c_stop s4)) else
       write_loop 0 len data s4))))"

definition i2c_write_multi_with_reg ::
    "u8 \<Rightarrow> u8 \<Rightarrow> u8 list \<Rightarrow> u8 \<Rightarrow> twi \<Rightarrow> (fault + u8 \<times> twi) option" where
  "i2c_write_multi_with_reg address reg data len s =
     (case i2c_start s of None \<Rightarrow> None | Some s1 \<Rightarrow>
      (case i2c_check_status MT_START s1 of (r1, s2) \<Rightarrow>
       if r1 = ERROR then Some (Inr (ERROR, s2)) else
      (case i2c_transmit (push_bit 1 address OR I2C_WRITE) s2 of None \<Rightarrow> None | Some s3 \<Rightarrow>
      (case i2c_check_status MT_SLA_WRITE_ACK s3 of (r2, s4) \<Rightarrow>
       if r2 = ERROR then Some (Inr (ERROR, i2c_stop s4)) else
      (case i2c_transmit reg s4 of None \<Rightarrow> None | Some s5 \<Rightarrow>
      (case i2c_check_status MT_DATA_TRANSMITTED_ACK s5 of (r3, s6) \<Rightarrow>
       if r3 = ERROR then Some (Inr (ERROR, i2c_stop s6)) else
       write_loop 0 len data s6))))))"

text \<open>
  The single-byte reads store through the pointer \<^verbatim>\<open>data\<close>. The model takes the byte
  the pointer refers to on entry and returns the byte it refers to on exit.
\<close>

definition i2c_read_no_reg :: "u8 \<Rightarrow> u8 \<Rightarrow> twi \<Rightarrow> (u8 \<times> u8 \<times> twi) option" where
  "i2c_read_no_reg address data s =
     (case i2c_start s of None \<Rightarrow> None | Some s1 \<Rightarrow>
      (case i2c_check_status MT_START s1 of (r1, s2) \<Rightarrow>
       if r1 = ERROR then Some (ERROR, data, s2) else
      (case i2c_transmit (push_bit 1 address OR I2C_READ) s2 of None \<Rightarrow> None | Some s3 \<Rightarrow>
      (case i2c_check_status MT_SLA_READ_ACK s3 of (r2, s4) \<Rightarrow>
       if r2 = ERROR then Some (ERROR, data, i2c_stop s4) else
      (case i2c_receive_nack s4 of None \<Rightarrow> None | Some (b, s5) \<Rightarrow>
      (case i2c_check_status MT_DATA_RECEIVED_NACK s5 of (r3, s6) \<Rightarrow>
       if r3 = ERROR then Some (ERROR, b, i2c_stop s6) else
       Some (SUCCESS, b, i2c_stop s6)))))))"

definition i2c_read_with_reg :: "u8 \<Rightarrow> u8 \<Rightarrow> u8 \<Rightarrow> twi \<Rightarrow> (u8 \<times> u8 \<times> twi) option" where
  "i2c_read_with_reg address reg data s =
     (case i2c_start s of None \<Rightarrow> None | Some s1 \<Rightarrow>
      (case i2c_check_status MT_START s1 of (r1, s2) \<Rightarrow>
       if r1 = ERROR then Some (ERROR, data, s2) else
      (case i2c_transmit (push_bit 1 address OR I2C_WRITE) s2 of None \<Rightarrow> None | Some s3 \<Rightarrow>
      (case i2c_check_status MT_SLA_WRITE_ACK s3 of (r2, s4) \<Rightarrow>
       if r2 = ERROR then Some (ERROR, data, i2c_stop s4) else
      (case i2c_transmit reg s4 of None \<Rightarrow> None | Some s5 \<Rightarrow>
      (case i2c_check_status MT_DATA_TRANSMITTED_ACK s5 of (r3, s6) \<Rightarrow>
       if r3 = ERROR then Some (ERROR, data, i2c_stop s6) else
      (case i2c_start s6 of None \<Rightarrow> None | Some s7 \<Rightarrow>
      (case i2c_check_status MT_REP_START s7 of (r4, s8) \<Rightarrow>
       if r4 = ERROR then Some (ERROR, data, s8) else
      (case i2c_transmit (push_bit 1 address OR I2C_READ) s8 of None \<Rightarrow> None | Some s9 \<Rightarrow>
      (case i2c_check_status MT_SLA_READ_ACK s9 of (r5, s10) \<Rightarrow>
       if r5 = ERROR then Some (ERROR, data, i2c_stop s10) else
      (case i2c_receive_nack s10 of None \<Rightarrow> None | Some (b, s11) \<Rightarrow>
      (case i2c_check_status MT_DATA_RECEIVED_NACK s11 of (r6, s12) \<Rightarrow>
       if r6 = ERROR then Some (ERROR, b, i2c_stop s12) else
       Some (SUCCESS, b, i2c_stop s12)))))))))))))"

text \<open>
  The loop of \<^verbatim>\<open>i2c_read_multi_no_reg\<close> (lines 338 to 358) and of
  \<^verbatim>\<open>i2c_read_multi_with_reg\<close> (lines 406 to 426), with the two statements after it.
  \<^verbatim>\<open>len - 1\<close> is computed in \<^verbatim>\<open>int\<close>, so it is \<open>-1\<close> for \<open>len = 0\<close>. The byte is
  received first and stored second, as in \<^verbatim>\<open>data[i] = i2c_receive_nack();\<close>.
\<close>

function read_loop ::
    "nat \<Rightarrow> u8 \<Rightarrow> u8 list \<Rightarrow> twi \<Rightarrow> (fault + u8 \<times> u8 list \<times> twi) option" where
  "read_loop i len data s =
     (if i < unat len then
        (if int i = int (unat len) - 1 then
           (case i2c_receive_nack s of None \<Rightarrow> None | Some (b, s1) \<Rightarrow>
            if i < length data then
              (case i2c_check_status MT_DATA_RECEIVED_NACK s1 of (r, s2) \<Rightarrow>
               if r = ERROR then Some (Inr (ERROR, data[i := b], i2c_stop s2))
               else read_loop (i + 1) len (data[i := b]) s2)
            else Some (Inl OutOfBounds))
         else
           (case i2c_receive_ack s of None \<Rightarrow> None | Some (b, s1) \<Rightarrow>
            if i < length data then
              (case i2c_check_status MT_DATA_RECEIVED_ACK s1 of (r, s2) \<Rightarrow>
               if r = ERROR then Some (Inr (ERROR, data[i := b], i2c_stop s2))
               else read_loop (i + 1) len (data[i := b]) s2)
            else Some (Inl OutOfBounds)))
      else Some (Inr (SUCCESS, data, i2c_stop s)))"
  by pat_completeness auto
termination
  by (relation "measure (\<lambda>(i, len, data, s). unat len - i)") (simp_all del: of_nat_unat)

declare read_loop.simps [simp del]

definition i2c_read_multi_no_reg ::
    "u8 \<Rightarrow> u8 \<Rightarrow> u8 list \<Rightarrow> twi \<Rightarrow> (fault + u8 \<times> u8 list \<times> twi) option" where
  "i2c_read_multi_no_reg address len data s =
     (case i2c_start s of None \<Rightarrow> None | Some s1 \<Rightarrow>
      (case i2c_check_status MT_START s1 of (r1, s2) \<Rightarrow>
       if r1 = ERROR then Some (Inr (ERROR, data, s2)) else
      (case i2c_transmit (push_bit 1 address OR I2C_READ) s2 of None \<Rightarrow> None | Some s3 \<Rightarrow>
      (case i2c_check_status MT_SLA_READ_ACK s3 of (r2, s4) \<Rightarrow>
       if r2 = ERROR then Some (Inr (ERROR, data, i2c_stop s4)) else
       read_loop 0 len data s4))))"

definition i2c_read_multi_with_reg ::
    "u8 \<Rightarrow> u8 \<Rightarrow> u8 \<Rightarrow> u8 list \<Rightarrow> twi \<Rightarrow> (fault + u8 \<times> u8 list \<times> twi) option" where
  "i2c_read_multi_with_reg address reg len data s =
     (case i2c_start s of None \<Rightarrow> None | Some s1 \<Rightarrow>
      (case i2c_check_status MT_START s1 of (r1, s2) \<Rightarrow>
       if r1 = ERROR then Some (Inr (ERROR, data, s2)) else
      (case i2c_transmit (push_bit 1 address OR I2C_WRITE) s2 of None \<Rightarrow> None | Some s3 \<Rightarrow>
      (case i2c_check_status MT_SLA_WRITE_ACK s3 of (r2, s4) \<Rightarrow>
       if r2 = ERROR then Some (Inr (ERROR, data, i2c_stop s4)) else
      (case i2c_transmit reg s4 of None \<Rightarrow> None | Some s5 \<Rightarrow>
      (case i2c_check_status MT_DATA_TRANSMITTED_ACK s5 of (r3, s6) \<Rightarrow>
       if r3 = ERROR then Some (Inr (ERROR, data, i2c_stop s6)) else
      (case i2c_start s6 of None \<Rightarrow> None | Some s7 \<Rightarrow>
      (case i2c_check_status MT_REP_START s7 of (r4, s8) \<Rightarrow>
       if r4 = ERROR then Some (Inr (ERROR, data, s8)) else
      (case i2c_transmit (push_bit 1 address OR I2C_READ) s8 of None \<Rightarrow> None | Some s9 \<Rightarrow>
      (case i2c_check_status MT_SLA_READ_ACK s9 of (r5, s10) \<Rightarrow>
       if r5 = ERROR then Some (Inr (ERROR, data, i2c_stop s10)) else
       read_loop 0 len data s10))))))))))"

section \<open>Reading a run\<close>

text \<open>
  The definitions of this section are not part of the driver. They name what the
  statements below talk about: a peripheral that finishes an operation, the codes it
  reports, and the table of phases of section 4.4 of the specification, against which
  the functions above are compared.
\<close>

text \<open>The peripheral finishes the operation: some read of TWCR shows TWINT.\<close>

definition completes :: "response \<Rightarrow> bool" where
  "completes r = (\<exists>k. (cr_polls r k AND push_bit TWINT 1) \<noteq> 0)"

text \<open>
  The peripheral finishes the next operations the driver triggers and reports the codes
  \<open>cs\<close> for them, in this order, in TWSR7:3.
\<close>

definition answers :: "twi \<Rightarrow> u8 list \<Rightarrow> bool" where
  "answers s cs =
     (\<forall>j<length cs. completes (hw s (ops s + j)) \<and> (sr_after (hw s (ops s + j)) AND 0xF8) = cs ! j)"

text \<open>
  A phase is a bus primitive together with the status code that is checked after it.
  \<open>run_phases\<close> is the orchestrator as the specification words it: the primitives in a
  fixed order, a check after each, the first failed check ends the run with \<open>ERROR\<close>,
  after a stop unless the primitive was a start; all checks passed, stop and \<open>SUCCESS\<close>.
\<close>

type_synonym phase = "prim \<times> u8"

fun do_prim :: "prim \<Rightarrow> twi \<Rightarrow> twi option" where
  "do_prim Start s = i2c_start s"
| "do_prim (Transmit b) s = i2c_transmit b s"
| "do_prim ReceiveAck s = map_option snd (i2c_receive_ack s)"
| "do_prim ReceiveNack s = map_option snd (i2c_receive_nack s)"

fun run_phases :: "phase list \<Rightarrow> twi \<Rightarrow> (u8 \<times> twi) option" where
  "run_phases [] s = Some (SUCCESS, i2c_stop s)"
| "run_phases ((a, c) # ps) s =
     (case do_prim a s of None \<Rightarrow> None | Some s1 \<Rightarrow>
      (case i2c_check_status c s1 of (r, s2) \<Rightarrow>
       if r = ERROR then Some (ERROR, if a = Start then s2 else i2c_stop s2)
       else run_phases ps s2))"

text \<open>The phase tables of the public functions.\<close>

definition sla_w :: "u8 \<Rightarrow> phase list" where
  "sla_w address = [(Start, MT_START), (Transmit (push_bit 1 address OR I2C_WRITE), MT_SLA_WRITE_ACK)]"

definition sla_r :: "u8 \<Rightarrow> phase list" where
  "sla_r address = [(Start, MT_START), (Transmit (push_bit 1 address OR I2C_READ), MT_SLA_READ_ACK)]"

definition reg_then_sla_r :: "u8 \<Rightarrow> u8 \<Rightarrow> phase list" where
  "reg_then_sla_r address reg =
     sla_w address @ [(Transmit reg, MT_DATA_TRANSMITTED_ACK), (Start, MT_REP_START),
       (Transmit (push_bit 1 address OR I2C_READ), MT_SLA_READ_ACK)]"

definition write_plan :: "u8 list \<Rightarrow> nat \<Rightarrow> u8 \<Rightarrow> phase list" where
  "write_plan data i len = map (\<lambda>j. (Transmit (data ! j), MT_DATA_TRANSMITTED_ACK)) [i..<unat len]"

definition read_plan :: "nat \<Rightarrow> u8 \<Rightarrow> phase list" where
  "read_plan i len =
     map (\<lambda>j. if int j = int (unat len) - 1 then (ReceiveNack, MT_DATA_RECEIVED_NACK)
              else (ReceiveAck, MT_DATA_RECEIVED_ACK)) [i..<unat len]"

text \<open>
  The log of a run in which every phase of \<open>ps\<close> passes, and of a run in which the
  check of phase \<open>k\<close> is the first to fail.
\<close>

definition passes :: "phase list \<Rightarrow> event list" where
  "passes ps = concat (map (\<lambda>(a, c). [Prim a, Check c SUCCESS]) ps)"

definition aborted :: "phase list \<Rightarrow> nat \<Rightarrow> event list" where
  "aborted ps k =
     passes (take k ps) @ [Prim (fst (ps ! k)), Check (snd (ps ! k)) ERROR] @
     (if fst (ps ! k) = Start then [] else [Stop])"

text \<open>Forgetting the array in the result of a multi-byte read.\<close>

definition strip :: "(fault + u8 \<times> u8 list \<times> twi) \<Rightarrow> (fault + u8 \<times> twi)" where
  "strip x = (case x of Inl f \<Rightarrow> Inl f | Inr (r, d', s') \<Rightarrow> Inr (r, s'))"

text \<open>
  Peripherals to run the driver against: \<open>ready st d\<close> raises the flag at the third
  poll and leaves \<open>st\<close> in TWSR and \<open>d\<close> in TWDR; \<open>stuck\<close> never raises it. \<open>bus rs r\<close>
  is an enabled, idle interface whose peripheral answers with \<open>rs\<close>, then with \<open>r\<close> for ever.
\<close>

definition ready :: "u8 \<Rightarrow> u8 \<Rightarrow> response" where
  "ready st d = \<lparr>cr_polls = (\<lambda>k. if k < 2 then 0x04 else 0x84), sr_after = st, dr_after = d\<rparr>"

definition stuck :: response where
  "stuck = \<lparr>cr_polls = (\<lambda>k. 0x04), sr_after = 0xF8, dr_after = 0xFF\<rparr>"

definition bus :: "response list \<Rightarrow> response \<Rightarrow> twi" where
  "bus rs r = \<lparr>TWBR = 18, TWSR = 0xF8, TWDR = 0xFF, TWCR = 0x04,
               hw = (\<lambda>n. if n < length rs then rs ! n else r), ops = 0, log = []\<rparr>"



text \<open>
  In a phase table the codes \<open>MT_START\<close> and \<open>MT_REP_START\<close> are checked after a start
  and after nothing else. \<open>outcome ps r tr\<close>: the log \<open>tr\<close> and the result \<open>r\<close> are those
  of \<open>ps\<close> run to its end or to the first failed check.
\<close>

definition start_coded :: "phase list \<Rightarrow> bool" where
  "start_coded ps = (\<forall>p\<in>set ps. (fst p = Start) = (snd p = MT_START \<or> snd p = MT_REP_START))"

definition outcome :: "phase list \<Rightarrow> u8 \<Rightarrow> event list \<Rightarrow> bool" where
  "outcome ps r tr =
     ((r = SUCCESS \<and> tr = passes ps @ [Stop]) \<or> (r = ERROR \<and> (\<exists>k<length ps. tr = aborted ps k)))"

text \<open>No phase of the table is a start.\<close>

definition start_free :: "phase list \<Rightarrow> bool" where
  "start_free ps = (\<forall>p\<in>set ps. fst p \<noteq> Start)"

text \<open>
  The address bytes of a log: the bytes transmitted as the first primitive after a start.
  The flag says that the last primitive so far was a start.
\<close>

fun addr_bytes :: "bool \<Rightarrow> event list \<Rightarrow> u8 list" where
  "addr_bytes f [] = []"
| "addr_bytes f (Prim Start # es) = addr_bytes True es"
| "addr_bytes f (Prim (Transmit b) # es) =
     (if f then b # addr_bytes False es else addr_bytes False es)"
| "addr_bytes f (Prim ReceiveAck # es) = addr_bytes False es"
| "addr_bytes f (Prim ReceiveNack # es) = addr_bytes False es"
| "addr_bytes f (Check c r # es) = addr_bytes f es"
| "addr_bytes f (Stop # es) = addr_bytes False es"

text \<open>
  The phase runner for the single-byte reads, which also carries the byte behind the
  pointer \<open>data\<close>: a receive stores TWDR there before its check is made.
\<close>

fun run_read :: "phase list \<Rightarrow> u8 \<Rightarrow> twi \<Rightarrow> (u8 \<times> u8 \<times> twi) option" where
  "run_read [] d s = Some (SUCCESS, d, i2c_stop s)"
| "run_read ((a, c) # ps) d s =
     (case do_prim a s of None \<Rightarrow> None | Some s1 \<Rightarrow>
      (let d1 = (if a = ReceiveNack \<or> a = ReceiveAck then TWDR s1 else d) in
       case i2c_check_status c s1 of (x, s2) \<Rightarrow>
         if x = ERROR then Some (ERROR, d1, if a = Start then s2 else i2c_stop s2)
         else run_read ps d1 s2))"

text \<open>No phase of the table is a receive.\<close>

definition receive_free :: "phase list \<Rightarrow> bool" where
  "receive_free ps = (\<forall>p\<in>set ps. fst p \<noteq> ReceiveAck \<and> fst p \<noteq> ReceiveNack)"

section \<open>Lemmas\<close>

subsection \<open>The completion wait\<close>

lemma poll_twint_Some:
  assumes "poll_twint rd k = Some n"
  shows "k \<le> n \<and> (rd n AND push_bit TWINT 1) \<noteq> 0"
proof (rule poll_twint.raw_induct
    [where P = "\<lambda>rd k n. k \<le> n \<and> (rd n AND push_bit TWINT 1) \<noteq> 0", OF _ assms])
  fix poll :: "(nat \<Rightarrow> u8) \<Rightarrow> nat \<Rightarrow> nat option" and rd :: "nat \<Rightarrow> u8" and k n :: nat
  assume IH: "\<And>rd k n. poll rd k = Some n \<Longrightarrow> k \<le> n \<and> (rd n AND push_bit TWINT 1) \<noteq> 0"
    and eq: "(if (rd k AND push_bit TWINT 1) = 0 then poll rd (Suc k) else Some k) = Some n"
  show "k \<le> n \<and> (rd n AND push_bit TWINT 1) \<noteq> 0"
  proof (cases "(rd k AND push_bit TWINT 1) = 0")
    case True
    with eq have "poll rd (Suc k) = Some n" by simp
    from IH[OF this] show ?thesis by simp
  next
    case False
    with eq show ?thesis by auto
  qed
qed

lemma poll_twint_reaches:
  "(rd (k + d) AND push_bit TWINT 1) \<noteq> 0 \<Longrightarrow> poll_twint rd k \<noteq> None"
proof (induction d arbitrary: k)
  case 0
  then show ?case by (subst poll_twint.simps) simp
next
  case (Suc d)
  from Suc.prems have "(rd (Suc k + d) AND push_bit TWINT 1) \<noteq> 0" by simp
  from Suc.IH[OF this] show ?case by (subst poll_twint.simps) simp
qed

lemma poll_twint_None_iff:
  "poll_twint rd 0 = None \<longleftrightarrow> (\<forall>k. (rd k AND push_bit TWINT 1) = 0)"
proof
  assume n: "poll_twint rd 0 = None"
  show "\<forall>k. (rd k AND push_bit TWINT 1) = 0"
  proof (rule ccontr)
    assume "\<not> (\<forall>k. (rd k AND push_bit TWINT 1) = 0)"
    then obtain k where "(rd (0 + k) AND push_bit TWINT 1) \<noteq> 0" by auto
    from poll_twint_reaches[of rd 0 k, OF this] n show False by simp
  qed
next
  assume a: "\<forall>k. (rd k AND push_bit TWINT 1) = 0"
  show "poll_twint rd 0 = None"
  proof (cases "poll_twint rd 0")
    case None then show ?thesis .
  next
    case (Some n)
    from poll_twint_Some[OF this] a show ?thesis by simp
  qed
qed

lemma wait_None_iff: "i2c_wait_until_finish s = None \<longleftrightarrow> \<not> completes (hw s (ops s))"
proof (cases "poll_twint (cr_polls (hw s (ops s))) 0")
  case None
  then show ?thesis
    using poll_twint_None_iff[of "cr_polls (hw s (ops s))"]
    by (simp add: i2c_wait_until_finish_def Let_def completes_def)
next
  case (Some n)
  then show ?thesis
    using poll_twint_None_iff[of "cr_polls (hw s (ops s))"]
    by (simp add: i2c_wait_until_finish_def Let_def completes_def)
qed

lemma wait_Some:
  assumes "i2c_wait_until_finish s = Some s'"
  shows "hw s' = hw s" "ops s' = Suc (ops s)" "log s' = log s" "TWBR s' = TWBR s"
    "TWSR s' = sr_after (hw s (ops s))" "TWDR s' = dr_after (hw s (ops s))"
  using assms by (auto simp: i2c_wait_until_finish_def Let_def split: option.splits)

subsection \<open>The straight-line functions as phase sequences\<close>

lemmas plan_defs = sla_w_def sla_r_def reg_then_sla_r_def

lemma probe_run: "i2c_is_device_connected a s = run_phases (sla_w a) s"
  by (simp add: i2c_is_device_connected_def plan_defs split: option.splits prod.splits)

lemma write_no_reg_run:
  "i2c_write_no_reg a d s = run_phases (sla_w a @ [(Transmit d, MT_DATA_TRANSMITTED_ACK)]) s"
  by (simp add: i2c_write_no_reg_def plan_defs split: option.splits prod.splits)

lemma write_with_reg_run:
  "i2c_write_with_reg a reg d s =
     run_phases (sla_w a @ [(Transmit reg, MT_DATA_TRANSMITTED_ACK), (Transmit d, MT_DATA_TRANSMITTED_ACK)]) s"
  by (simp add: i2c_write_with_reg_def plan_defs split: option.splits prod.splits)

lemma read_no_reg_run:
  "map_option (\<lambda>(r, d', s'). (r, s')) (i2c_read_no_reg a d s) =
     run_phases (sla_r a @ [(ReceiveNack, MT_DATA_RECEIVED_NACK)]) s"
  by (simp add: i2c_read_no_reg_def plan_defs split: option.splits prod.splits)

lemma read_with_reg_run:
  "map_option (\<lambda>(r, d', s'). (r, s')) (i2c_read_with_reg a reg d s) =
     run_phases (reg_then_sla_r a reg @ [(ReceiveNack, MT_DATA_RECEIVED_NACK)]) s"
  by (simp add: i2c_read_with_reg_def plan_defs split: option.splits prod.splits)

subsection \<open>The loops as phase sequences\<close>

lemma write_plan_step:
  "i < unat len \<Longrightarrow> write_plan data i len = (Transmit (data ! i), MT_DATA_TRANSMITTED_ACK) # write_plan data (Suc i) len"
  by (simp add: write_plan_def upt_conv_Cons)

lemma write_plan_done: "\<not> i < unat len \<Longrightarrow> write_plan data i len = []"
  by (simp add: write_plan_def)

lemma read_plan_step:
  "i < unat len \<Longrightarrow> read_plan i len =
     (if int i = int (unat len) - 1 then (ReceiveNack, MT_DATA_RECEIVED_NACK)
      else (ReceiveAck, MT_DATA_RECEIVED_ACK)) # read_plan (Suc i) len"
  by (simp add: read_plan_def upt_conv_Cons del: of_nat_unat)

lemma read_plan_done: "\<not> i < unat len \<Longrightarrow> read_plan i len = []"
  by (simp add: read_plan_def)

text \<open>Whatever the loop returns, the phase runner returns too.\<close>

lemma write_loop_Inr:
  "write_loop i len data s = Some (Inr (r, s')) \<Longrightarrow> run_phases (write_plan data i len) s = Some (r, s')"
proof (induction i len data s rule: write_loop.induct)
  case (1 i len data s)
  show ?case
  proof (cases "i < unat len")
    case False
    with "1.prems" show ?thesis
      by (simp add: write_loop.simps[of i] write_plan_done)
  next
    case True
    with "1.prems" have b: "i < length data"
      by (simp add: write_loop.simps[of i] split: if_splits)
    from "1.prems" True b obtain s1 where t: "i2c_transmit (data ! i) s = Some s1"
      by (simp add: write_loop.simps[of i] split: option.splits)
    obtain c s2 where k: "i2c_check_status MT_DATA_TRANSMITTED_ACK s1 = (c, s2)"
      by (cases "i2c_check_status MT_DATA_TRANSMITTED_ACK s1")
    show ?thesis
    proof (cases "c = ERROR")
      case True
      with "1.prems" \<open>i < unat len\<close> b t k show ?thesis
        by (simp add: write_loop.simps[of i] write_plan_step)
    next
      case False
      with "1.prems" \<open>i < unat len\<close> b t k have "write_loop (i + 1) len data s2 = Some (Inr (r, s'))"
        by (simp add: write_loop.simps[of i])
      from "1.IH"[OF \<open>i < unat len\<close> b t k[symmetric] False this]
      show ?thesis using \<open>i < unat len\<close> t k False
        by (simp add: write_plan_step)
    qed
  qed
qed

text \<open>Inside the caller's array the loop returns whatever the phase runner returns.\<close>

lemma write_loop_run:
  "unat len \<le> length data \<Longrightarrow>
     write_loop i len data s = map_option Inr (run_phases (write_plan data i len) s)"
proof (induction i len data s rule: write_loop.induct)
  case (1 i len data s)
  show ?case
  proof (cases "i < unat len")
    case False
    then show ?thesis by (simp add: write_loop.simps[of i] write_plan_done)
  next
    case True
    with "1.prems" have b: "i < length data" by simp
    show ?thesis
    proof (cases "i2c_transmit (data ! i) s")
      case None
      with True b show ?thesis by (simp add: write_loop.simps[of i] write_plan_step)
    next
      case (Some s1)
      obtain c s2 where k: "i2c_check_status MT_DATA_TRANSMITTED_ACK s1 = (c, s2)"
        by (cases "i2c_check_status MT_DATA_TRANSMITTED_ACK s1")
      show ?thesis
      proof (cases "c = ERROR")
        case True
        with \<open>i < unat len\<close> b Some k show ?thesis
          by (simp add: write_loop.simps[of i] write_plan_step)
      next
        case False
        from "1.IH"[OF \<open>i < unat len\<close> b Some k[symmetric] False "1.prems"]
        show ?thesis using \<open>i < unat len\<close> b Some k False
          by (simp add: write_loop.simps[of i] write_plan_step)
      qed
    qed
  qed
qed

lemma read_loop_Inr:
  "read_loop i len data s = Some (Inr (r, d', s')) \<Longrightarrow> run_phases (read_plan i len) s = Some (r, s')"
proof (induction i len data s rule: read_loop.induct)
  case (1 i len data s)
  show ?case
  proof (cases "i < unat len")
    case False
    with "1.prems" show ?thesis
      by (simp add: read_loop.simps[of i] read_plan_done)
  next
    case True
    note lt = True
    show ?thesis
    proof (cases "int i = int (unat len) - 1")
      case True
      note last = True
      from "1.prems" lt last obtain b s1 where rc: "i2c_receive_nack s = Some (b, s1)"
        by (auto simp add: read_loop.simps[of i] split: option.splits simp del: of_nat_unat)
      with "1.prems" lt last have bd: "i < length data"
        by (simp add: read_loop.simps[of i] split: if_splits del: of_nat_unat)
      obtain c s2 where k: "i2c_check_status MT_DATA_RECEIVED_NACK s1 = (c, s2)"
        by (cases "i2c_check_status MT_DATA_RECEIVED_NACK s1")
      show ?thesis
      proof (cases "c = ERROR")
        case True
        with "1.prems" lt last rc bd k show ?thesis
          by (simp add: read_loop.simps[of i] read_plan_step del: of_nat_unat)
      next
        case False
        with "1.prems" lt last rc bd k
        have "read_loop (i + 1) len (data[i := b]) s2 = Some (Inr (r, d', s'))"
          by (simp add: read_loop.simps[of i] del: of_nat_unat)
        from "1.IH"(1)[OF lt last rc refl bd k[symmetric] False this]
        show ?thesis using lt last rc k False
          by (simp add: read_plan_step del: of_nat_unat)
      qed
    next
      case False
      note nlast = False
      from "1.prems" lt nlast obtain b s1 where rc: "i2c_receive_ack s = Some (b, s1)"
        by (auto simp add: read_loop.simps[of i] split: option.splits simp del: of_nat_unat)
      with "1.prems" lt nlast have bd: "i < length data"
        by (simp add: read_loop.simps[of i] split: if_splits del: of_nat_unat)
      obtain c s2 where k: "i2c_check_status MT_DATA_RECEIVED_ACK s1 = (c, s2)"
        by (cases "i2c_check_status MT_DATA_RECEIVED_ACK s1")
      show ?thesis
      proof (cases "c = ERROR")
        case True
        with "1.prems" lt nlast rc bd k show ?thesis
          by (simp add: read_loop.simps[of i] read_plan_step del: of_nat_unat)
      next
        case False
        with "1.prems" lt nlast rc bd k
        have "read_loop (i + 1) len (data[i := b]) s2 = Some (Inr (r, d', s'))"
          by (simp add: read_loop.simps[of i] del: of_nat_unat)
        from "1.IH"(2)[OF lt nlast rc refl bd k[symmetric] False this]
        show ?thesis using lt nlast rc k False
          by (simp add: read_plan_step del: of_nat_unat)
      qed
    qed
  qed
qed

lemma read_loop_run:
  "unat len \<le> length data \<Longrightarrow>
     map_option strip (read_loop i len data s) = map_option Inr (run_phases (read_plan i len) s)"
proof (induction i len data s rule: read_loop.induct)
  case (1 i len data s)
  show ?case
  proof (cases "i < unat len")
    case False
    then show ?thesis by (simp add: read_loop.simps[of i] read_plan_done strip_def)
  next
    case True
    note lt = True
    with "1.prems" have bd: "i < length data" by simp
    from "1.prems" have len': "\<And>b. unat len \<le> length (data[i := b])" by simp
    show ?thesis
    proof (cases "int i = int (unat len) - 1")
      case True
      note last = True
      show ?thesis
      proof (cases "i2c_receive_nack s")
        case None
        with lt last show ?thesis
          by (simp add: read_loop.simps[of i] read_plan_step del: of_nat_unat)
      next
        case (Some bs)
        obtain b s1 where bs: "bs = (b, s1)" by (cases bs)
        obtain c s2 where k: "i2c_check_status MT_DATA_RECEIVED_NACK s1 = (c, s2)"
          by (cases "i2c_check_status MT_DATA_RECEIVED_NACK s1")
        show ?thesis
        proof (cases "c = ERROR")
          case True
          with lt last bd Some bs k show ?thesis
            by (simp add: read_loop.simps[of i] read_plan_step strip_def del: of_nat_unat)
        next
          case False
          from "1.IH"(1)[OF lt last Some bs[symmetric] bd k[symmetric] False len']
          show ?thesis using lt last bd Some bs k False
            by (simp add: read_loop.simps[of i] read_plan_step del: of_nat_unat)
        qed
      qed
    next
      case False
      note nlast = False
      show ?thesis
      proof (cases "i2c_receive_ack s")
        case None
        with lt nlast show ?thesis
          by (simp add: read_loop.simps[of i] read_plan_step del: of_nat_unat)
      next
        case (Some bs)
        obtain b s1 where bs: "bs = (b, s1)" by (cases bs)
        obtain c s2 where k: "i2c_check_status MT_DATA_RECEIVED_ACK s1 = (c, s2)"
          by (cases "i2c_check_status MT_DATA_RECEIVED_ACK s1")
        show ?thesis
        proof (cases "c = ERROR")
          case True
          with lt nlast bd Some bs k show ?thesis
            by (simp add: read_loop.simps[of i] read_plan_step strip_def del: of_nat_unat)
        next
          case False
          from "1.IH"(2)[OF lt nlast Some bs[symmetric] bd k[symmetric] False len']
          show ?thesis using lt nlast bd Some bs k False
            by (simp add: read_loop.simps[of i] read_plan_step del: of_nat_unat)
        qed
      qed
    qed
  qed
qed

subsection \<open>What one call does to the state\<close>

lemma start_Some:
  assumes "i2c_start s = Some s1"
  shows "hw s1 = hw s" "ops s1 = Suc (ops s)" "log s1 = log s @ [Prim Start]"
    "TWSR s1 = sr_after (hw s (ops s))" "TWDR s1 = dr_after (hw s (ops s))" "TWBR s1 = TWBR s"
  using wait_Some[OF assms[unfolded i2c_start_def]] by simp_all

lemma transmit_Some:
  assumes "i2c_transmit b s = Some s1"
  shows "hw s1 = hw s" "ops s1 = Suc (ops s)" "log s1 = log s @ [Prim (Transmit b)]"
    "TWSR s1 = sr_after (hw s (ops s))" "TWDR s1 = dr_after (hw s (ops s))" "TWBR s1 = TWBR s"
  using wait_Some[OF assms[unfolded i2c_transmit_def]] by simp_all

lemma receive_ack_Some:
  assumes "i2c_receive_ack s = Some (b, s1)"
  shows "hw s1 = hw s" "ops s1 = Suc (ops s)" "log s1 = log s @ [Prim ReceiveAck]"
    "TWSR s1 = sr_after (hw s (ops s))" "TWDR s1 = dr_after (hw s (ops s))" "TWBR s1 = TWBR s"
    "b = dr_after (hw s (ops s))"
proof -
  from assms obtain s0 where
    w: "i2c_wait_until_finish
          (s\<lparr>TWCR := push_bit TWINT 1 OR push_bit TWEA 1 OR push_bit TWEN 1,
             log := log s @ [Prim ReceiveAck]\<rparr>) = Some s0"
    and e: "s1 = s0" "b = TWDR s0"
    by (auto simp: i2c_receive_ack_def split: option.splits)
  from wait_Some[OF w] e
  show "hw s1 = hw s" "ops s1 = Suc (ops s)" "log s1 = log s @ [Prim ReceiveAck]"
    "TWSR s1 = sr_after (hw s (ops s))" "TWDR s1 = dr_after (hw s (ops s))" "TWBR s1 = TWBR s"
    "b = dr_after (hw s (ops s))"
    by simp_all
qed

lemma receive_nack_Some:
  assumes "i2c_receive_nack s = Some (b, s1)"
  shows "hw s1 = hw s" "ops s1 = Suc (ops s)" "log s1 = log s @ [Prim ReceiveNack]"
    "TWSR s1 = sr_after (hw s (ops s))" "TWDR s1 = dr_after (hw s (ops s))" "TWBR s1 = TWBR s"
    "b = dr_after (hw s (ops s))"
proof -
  from assms obtain s0 where
    w: "i2c_wait_until_finish
          (s\<lparr>TWCR := push_bit TWINT 1 OR push_bit TWEN 1,
             log := log s @ [Prim ReceiveNack]\<rparr>) = Some s0"
    and e: "s1 = s0" "b = TWDR s0"
    by (auto simp: i2c_receive_nack_def split: option.splits)
  from wait_Some[OF w] e
  show "hw s1 = hw s" "ops s1 = Suc (ops s)" "log s1 = log s @ [Prim ReceiveNack]"
    "TWSR s1 = sr_after (hw s (ops s))" "TWDR s1 = dr_after (hw s (ops s))" "TWBR s1 = TWBR s"
    "b = dr_after (hw s (ops s))"
    by simp_all
qed

lemma do_prim_Some:
  assumes "do_prim a s = Some s1"
  shows "hw s1 = hw s" "ops s1 = Suc (ops s)" "log s1 = log s @ [Prim a]"
    "TWSR s1 = sr_after (hw s (ops s))" "TWDR s1 = dr_after (hw s (ops s))"
  using assms
  by (cases a; auto dest: start_Some transmit_Some receive_ack_Some receive_nack_Some)+

lemma do_prim_None_iff: "do_prim a s = None \<longleftrightarrow> \<not> completes (hw s (ops s))"
  by (cases a)
    (simp_all add: i2c_start_def i2c_transmit_def i2c_receive_ack_def i2c_receive_nack_def
      wait_None_iff option.case_eq_if)

lemma check_status_eq:
  "i2c_check_status c s =
     (if (TWSR s AND 0xF8) = c then SUCCESS else ERROR,
      s\<lparr>log := log s @ [Check c (if (TWSR s AND 0xF8) = c then SUCCESS else ERROR)]\<rparr>)"
  by (simp add: i2c_check_status_def)

lemma check_status_fields:
  assumes "i2c_check_status c s = (r, s2)"
  shows "hw s2 = hw s" "ops s2 = ops s" "log s2 = log s @ [Check c r]"
    "TWSR s2 = TWSR s" "TWDR s2 = TWDR s"
    "r = (if (TWSR s AND 0xF8) = c then SUCCESS else ERROR)"
  using assms by (auto simp: i2c_check_status_def split: if_splits)

lemma stop_fields:
  "hw (i2c_stop s) = hw s" "ops (i2c_stop s) = ops s" "log (i2c_stop s) = log s @ [Stop]"
  "TWSR (i2c_stop s) = TWSR s" "TWDR (i2c_stop s) = TWDR s" "TWBR (i2c_stop s) = TWBR s"
  by (simp_all add: i2c_stop_def)

lemma SUCCESS_neq_ERROR [simp]: "SUCCESS \<noteq> ERROR" "ERROR \<noteq> SUCCESS"
  by (simp_all add: SUCCESS_def ERROR_def)

lemma passes_simps [simp]:
  "passes [] = []"
  "passes ((a, c) # ps) = Prim a # Check c SUCCESS # passes ps"
  "passes (ps @ qs) = passes ps @ passes qs"
  by (simp_all add: passes_def)

lemma aborted_simps [simp]:
  "aborted ((a, c) # ps) 0 = [Prim a, Check c ERROR] @ (if a = Start then [] else [Stop])"
  "aborted ((a, c) # ps) (Suc k) = Prim a # Check c SUCCESS # aborted ps k"
  by (simp_all add: aborted_def)

lemma run_phases_log:
  "run_phases ps s = Some (r, s') \<Longrightarrow>
     (r = SUCCESS \<and> log s' = log s @ passes ps @ [Stop]) \<or>
     (r = ERROR \<and> (\<exists>k<length ps. log s' = log s @ aborted ps k))"
proof (induction ps arbitrary: s)
  case Nil
  then show ?case by (auto simp: stop_fields)
next
  case (Cons p ps)
  obtain a c where p: "p = (a, c)" by (cases p)
  from Cons.prems p obtain s1 where d: "do_prim a s = Some s1"
    by (auto split: option.splits)
  obtain x s2 where k: "i2c_check_status c s1 = (x, s2)"
    by (cases "i2c_check_status c s1")
  note l1 = do_prim_Some(3)[OF d] and l2 = check_status_fields(3)[OF k]
    and x = check_status_fields(6)[OF k]
  show ?case
  proof (cases "x = ERROR")
    case True
    with Cons.prems p d k have "r = ERROR" "s' = (if a = Start then s2 else i2c_stop s2)"
      by auto
    with l1 l2 True p have "log s' = log s @ aborted (p # ps) 0"
      by (simp add: stop_fields)
    with \<open>r = ERROR\<close> show ?thesis by auto
  next
    case False
    with x have xs: "x = SUCCESS" by (simp split: if_splits)
    from False Cons.prems p d k have "run_phases ps s2 = Some (r, s')" by simp
    from Cons.IH[OF this] l1 l2 xs p show ?thesis
      by auto
  qed
qed

subsection \<open>The multi-byte functions as phase sequences\<close>

lemma write_multi_no_reg_Inr [rule_format]:
  "i2c_write_multi_no_reg a data len s = Some (Inr (r, s')) \<longrightarrow>
     run_phases (sla_w a @ write_plan data 0 len) s = Some (r, s')"
  by (simp add: i2c_write_multi_no_reg_def plan_defs write_loop_Inr split: option.split prod.split)

lemma write_multi_no_reg_run:
  "unat len \<le> length data \<Longrightarrow>
     i2c_write_multi_no_reg a data len s =
       map_option Inr (run_phases (sla_w a @ write_plan data 0 len) s)"
  by (simp add: i2c_write_multi_no_reg_def plan_defs write_loop_run
      split: option.splits prod.splits)

lemma write_multi_with_reg_Inr [rule_format]:
  "i2c_write_multi_with_reg a reg data len s = Some (Inr (r, s')) \<longrightarrow>
     run_phases (sla_w a @ (Transmit reg, MT_DATA_TRANSMITTED_ACK) # write_plan data 0 len) s =
       Some (r, s')"
  by (simp add: i2c_write_multi_with_reg_def plan_defs write_loop_Inr split: option.split prod.split)

lemma write_multi_with_reg_run:
  "unat len \<le> length data \<Longrightarrow>
     i2c_write_multi_with_reg a reg data len s =
       map_option Inr
         (run_phases (sla_w a @ (Transmit reg, MT_DATA_TRANSMITTED_ACK) # write_plan data 0 len) s)"
  by (simp add: i2c_write_multi_with_reg_def plan_defs write_loop_run
      split: option.splits prod.splits)

lemma read_multi_no_reg_Inr [rule_format]:
  "i2c_read_multi_no_reg a len data s = Some (Inr (r, d', s')) \<longrightarrow>
     run_phases (sla_r a @ read_plan 0 len) s = Some (r, s')"
  by (simp add: i2c_read_multi_no_reg_def plan_defs read_loop_Inr split: option.split prod.split)

lemma read_multi_no_reg_run:
  "unat len \<le> length data \<Longrightarrow>
     map_option strip (i2c_read_multi_no_reg a len data s) =
       map_option Inr (run_phases (sla_r a @ read_plan 0 len) s)"
  by (simp add: i2c_read_multi_no_reg_def plan_defs read_loop_run strip_def
      split: option.splits prod.splits)

lemma read_multi_with_reg_Inr [rule_format]:
  "i2c_read_multi_with_reg a reg len data s = Some (Inr (r, d', s')) \<longrightarrow>
     run_phases (reg_then_sla_r a reg @ read_plan 0 len) s = Some (r, s')"
  by (simp add: i2c_read_multi_with_reg_def plan_defs read_loop_Inr split: option.split prod.split)

lemma read_multi_with_reg_run:
  "unat len \<le> length data \<Longrightarrow>
     map_option strip (i2c_read_multi_with_reg a reg len data s) =
       map_option Inr (run_phases (reg_then_sla_r a reg @ read_plan 0 len) s)"
  by (simp add: i2c_read_multi_with_reg_def plan_defs read_loop_run strip_def
      split: option.splits prod.splits)

subsection \<open>Termination of a phase sequence\<close>

lemma run_phases_total:
  "(\<forall>n. completes (hw s n)) \<Longrightarrow> \<exists>r s'. run_phases ps s = Some (r, s')"
proof (induction ps arbitrary: s)
  case Nil
  then show ?case by simp
next
  case (Cons p ps)
  obtain a c where p: "p = (a, c)" by (cases p)
  from Cons.prems have "do_prim a s \<noteq> None" by (simp add: do_prim_None_iff)
  then obtain s1 where d: "do_prim a s = Some s1" by auto
  obtain x s2 where k: "i2c_check_status c s1 = (x, s2)"
    by (cases "i2c_check_status c s1")
  from Cons.prems do_prim_Some(1)[OF d] check_status_fields(1)[OF k]
  have "\<forall>n. completes (hw s2 n)" by simp
  from Cons.IH[OF this] p d k show ?case by auto
qed

subsection \<open>A peripheral that reports given codes\<close>

lemma answers_Nil [simp]: "answers s []"
  by (simp add: answers_def)

lemma answers_Cons:
  "answers s (c # cs) \<longleftrightarrow>
     completes (hw s (ops s)) \<and> (sr_after (hw s (ops s)) AND 0xF8) = c \<and>
     (\<forall>j<length cs. completes (hw s (Suc (ops s) + j)) \<and>
        (sr_after (hw s (Suc (ops s) + j)) AND 0xF8) = cs ! j)"
  by (auto simp: answers_def less_Suc_eq_0_disj)

lemma phase_passes:
  assumes "completes (hw s (ops s))" "(sr_after (hw s (ops s)) AND 0xF8) = c"
  shows "\<exists>s2. (\<forall>qs. run_phases ((a, c) # qs) s = run_phases qs s2) \<and>
           log s2 = log s @ [Prim a, Check c SUCCESS] \<and> ops s2 = Suc (ops s) \<and> hw s2 = hw s"
proof -
  from assms(1) have "do_prim a s \<noteq> None" by (simp add: do_prim_None_iff)
  then obtain s1 where d: "do_prim a s = Some s1" by auto
  obtain x s2 where k: "i2c_check_status c s1 = (x, s2)"
    by (cases "i2c_check_status c s1")
  from check_status_fields(6)[OF k] do_prim_Some(4)[OF d] assms(2) have x: "x = SUCCESS" by simp
  with d k have "\<forall>qs. run_phases ((a, c) # qs) s = run_phases qs s2" by simp
  moreover from do_prim_Some[OF d] check_status_fields[OF k] x
  have "log s2 = log s @ [Prim a, Check c SUCCESS]" "ops s2 = Suc (ops s)" "hw s2 = hw s" by simp_all
  ultimately show ?thesis by blast
qed

lemma phase_fails:
  assumes "completes (hw s (ops s))" "(sr_after (hw s (ops s)) AND 0xF8) \<noteq> c"
  shows "\<exists>s'. run_phases ((a, c) # qs) s = Some (ERROR, s') \<and>
           log s' = log s @ [Prim a, Check c ERROR] @ (if a = Start then [] else [Stop])"
proof -
  from assms(1) have "do_prim a s \<noteq> None" by (simp add: do_prim_None_iff)
  then obtain s1 where d: "do_prim a s = Some s1" by auto
  obtain x s2 where k: "i2c_check_status c s1 = (x, s2)"
    by (cases "i2c_check_status c s1")
  from check_status_fields(6)[OF k] do_prim_Some(4)[OF d] assms(2) have x: "x = ERROR" by simp
  with d k have "run_phases ((a, c) # qs) s = Some (ERROR, if a = Start then s2 else i2c_stop s2)"
    by simp
  moreover from do_prim_Some[OF d] check_status_fields[OF k] x
  have "log (if a = Start then s2 else i2c_stop s2) =
          log s @ [Prim a, Check c ERROR] @ (if a = Start then [] else [Stop])"
    by (simp add: stop_fields)
  ultimately show ?thesis by blast
qed

lemma run_prefix:
  "answers s (map snd ps) \<Longrightarrow>
     \<exists>s1. (\<forall>qs. run_phases (ps @ qs) s = run_phases qs s1) \<and>
          log s1 = log s @ passes ps \<and> ops s1 = ops s + length ps \<and> hw s1 = hw s"
proof (induction ps arbitrary: s)
  case Nil
  show ?case by (rule exI[of _ s]) simp
next
  case (Cons p ps)
  obtain a c where p: "p = (a, c)" by (cases p)
  from Cons.prems p have c: "completes (hw s (ops s))" "(sr_after (hw s (ops s)) AND 0xF8) = c"
    and rest: "\<forall>j<length ps. completes (hw s (Suc (ops s) + j)) \<and>
        (sr_after (hw s (Suc (ops s) + j)) AND 0xF8) = map snd ps ! j"
    by (simp_all add: answers_Cons)
  from phase_passes[OF c, of a] obtain s2 where
    s2: "\<forall>qs. run_phases ((a, c) # qs) s = run_phases qs s2"
      "log s2 = log s @ [Prim a, Check c SUCCESS]" "ops s2 = Suc (ops s)" "hw s2 = hw s"
    by blast
  from rest s2 have "answers s2 (map snd ps)" by (simp add: answers_def)
  from Cons.IH[OF this] obtain s1 where
    s1: "\<forall>qs. run_phases (ps @ qs) s2 = run_phases qs s1"
      "log s1 = log s2 @ passes ps" "ops s1 = ops s2 + length ps" "hw s1 = hw s2"
    by blast
  from s1 s2 p have "\<forall>qs. run_phases ((p # ps) @ qs) s = run_phases qs s1"
    "log s1 = log s @ passes (p # ps)" "ops s1 = ops s + length (p # ps)" "hw s1 = hw s"
    by simp_all
  then show ?case by blast
qed

lemma run_all_pass:
  assumes "answers s (map snd ps)"
  shows "\<exists>s'. run_phases ps s = Some (SUCCESS, s') \<and> log s' = log s @ passes ps @ [Stop]"
proof -
  from run_prefix[OF assms] obtain s1 where
    s1: "\<forall>qs. run_phases (ps @ qs) s = run_phases qs s1" "log s1 = log s @ passes ps"
    by blast
  from s1(1) have "run_phases ps s = run_phases [] s1" by (metis append_Nil2)
  with s1(2) show ?thesis by (simp add: stop_fields)
qed

subsection \<open>Fixtures and bit masks\<close>

lemma completes_ready: "completes (ready st d)"
  unfolding completes_def by (rule exI[of _ 2]) (simp add: ready_def TWINT_def)

lemma not_completes_stuck: "\<not> completes stuck"
proof -
  have "(0x04 AND 0x80 :: u8) = 0" by simp
  then show ?thesis by (simp add: completes_def stuck_def TWINT_def)
qed

lemma F8_not7: "(0xF8 :: u8) = NOT (mask 3)"
  by (simp add: mask_eq_exp_minus_1)

lemma and_F8: "(x AND 0xF8 :: u8) = push_bit 3 (drop_bit 3 x)"
  unfolding F8_not7 by (rule bit_word_eqI) (auto simp: bit_simps)

lemma and_F8_low: "((x AND 0xF8) AND 0x07 :: u8) = 0"
proof -
  have "(0x07 :: u8) = mask 3" by (simp add: mask_eq_exp_minus_1)
  then show ?thesis unfolding F8_not7 by (simp add: and.assoc)
qed

lemma or_3_and_F8: "((x OR 0x03) AND 0xF8 :: u8) = (x AND 0xF8)"
proof -
  have h: "(0x03 :: u8) = mask 2" by (simp add: mask_eq_exp_minus_1)
  show ?thesis unfolding F8_not7 h by (auto simp: bit_simps intro!: bit_word_eqI)
qed

lemma stop_value: "push_bit TWINT 1 OR push_bit TWSTO 1 OR push_bit TWEN 1 = (0x94 :: u8)"
  by (simp add: TWINT_def TWSTO_def TWEN_def)

lemma start_None_iff: "i2c_start s = None \<longleftrightarrow> \<not> completes (hw s (ops s))"
  using do_prim_None_iff[of Start s] by simp

lemma transmit_None_iff: "i2c_transmit b s = None \<longleftrightarrow> \<not> completes (hw s (ops s))"
  using do_prim_None_iff[of "Transmit b" s] by simp

lemma receive_ack_None_iff: "i2c_receive_ack s = None \<longleftrightarrow> \<not> completes (hw s (ops s))"
  using do_prim_None_iff[of ReceiveAck s] by simp

lemma receive_nack_None_iff: "i2c_receive_nack s = None \<longleftrightarrow> \<not> completes (hw s (ops s))"
  using do_prim_None_iff[of ReceiveNack s] by simp

lemma codes_in_place: "list_all (\<lambda>c. (c AND 0xF8) = c) status_codes"
  by (simp add: status_codes_def MT_START_def MT_REP_START_def MT_SLA_WRITE_ACK_def
      MT_SLA_WRITE_NACK_def MT_DATA_TRANSMITTED_ACK_def MT_DATA_TRANSMITTED_NACK_def
      MT_ARB_LOST_def MT_SLA_READ_ACK_def MT_SLA_READ_NACK_def MT_DATA_RECEIVED_ACK_def
      MT_DATA_RECEIVED_NACK_def)

subsection \<open>Outcomes of a phase sequence\<close>

lemma run_phases_outcome:
  "run_phases ps s = Some (r, s') \<Longrightarrow> \<exists>tr. log s' = log s @ tr \<and> outcome ps r tr"
  using run_phases_log[of ps s r s'] by (auto simp: outcome_def)





lemma start_coded_simps [simp]:
  "start_coded []"
  "start_coded ((a, c) # ps) \<longleftrightarrow> (a = Start) = (c = MT_START \<or> c = MT_REP_START) \<and> start_coded ps"
  "start_coded (ps @ qs) \<longleftrightarrow> start_coded ps \<and> start_coded qs"
  by (auto simp: start_coded_def)

lemmas MT_defs = MT_START_def MT_REP_START_def MT_SLA_WRITE_ACK_def
      MT_SLA_WRITE_NACK_def MT_DATA_TRANSMITTED_ACK_def MT_DATA_TRANSMITTED_NACK_def
      MT_ARB_LOST_def MT_SLA_READ_ACK_def MT_SLA_READ_NACK_def MT_DATA_RECEIVED_ACK_def
      MT_DATA_RECEIVED_NACK_def

lemma start_coded_plans [simp]:
  "start_coded (sla_w a)" "start_coded (sla_r a)" "start_coded (reg_then_sla_r a reg)"
  "start_coded (write_plan data i len)" "start_coded (read_plan i len)"
  "start_coded [(Transmit b, MT_DATA_TRANSMITTED_ACK)]"
  "start_coded [(ReceiveNack, MT_DATA_RECEIVED_NACK)]"
  by (auto simp: plan_defs start_coded_def write_plan_def read_plan_def MT_defs)


lemma pair3_run:
  "x = Some (r, d', s') \<Longrightarrow> map_option (\<lambda>(r, d', s'). (r, s')) x = y \<Longrightarrow> y = Some (r, s')"
  by auto

lemma outcome_Nil [simp]: "outcome [] r tr \<longleftrightarrow> r = SUCCESS \<and> tr = [Stop]"
  by (auto simp: outcome_def)

lemma outcome_Cons:
  "outcome ((a, c) # ps) r tr \<longleftrightarrow>
     (r = ERROR \<and> tr = [Prim a, Check c ERROR] @ (if a = Start then [] else [Stop])) \<or>
     (\<exists>tr'. tr = Prim a # Check c SUCCESS # tr' \<and> outcome ps r tr')"
proof
  assume "outcome ((a, c) # ps) r tr"
  then consider "r = SUCCESS" "tr = passes ((a, c) # ps) @ [Stop]"
    | k where "r = ERROR" "k < length ((a, c) # ps)" "tr = aborted ((a, c) # ps) k"
    by (auto simp: outcome_def)
  then show "(r = ERROR \<and> tr = [Prim a, Check c ERROR] @ (if a = Start then [] else [Stop])) \<or>
     (\<exists>tr'. tr = Prim a # Check c SUCCESS # tr' \<and> outcome ps r tr')"
  proof cases
    case 1
    then show ?thesis by (simp add: outcome_def)
  next
    case 2
    then show ?thesis by (cases k) (auto simp: outcome_def)
  qed
next
  assume "(r = ERROR \<and> tr = [Prim a, Check c ERROR] @ (if a = Start then [] else [Stop])) \<or>
     (\<exists>tr'. tr = Prim a # Check c SUCCESS # tr' \<and> outcome ps r tr')"
  then show "outcome ((a, c) # ps) r tr"
  proof
    assume "r = ERROR \<and> tr = [Prim a, Check c ERROR] @ (if a = Start then [] else [Stop])"
    then have "r = ERROR" "0 < length ((a, c) # ps)" "tr = aborted ((a, c) # ps) 0" by simp_all
    then show ?thesis unfolding outcome_def by blast
  next
    assume "\<exists>tr'. tr = Prim a # Check c SUCCESS # tr' \<and> outcome ps r tr'"
    then obtain tr' where t: "tr = Prim a # Check c SUCCESS # tr'" and o: "outcome ps r tr'"
      by blast
    from o consider "r = SUCCESS" "tr' = passes ps @ [Stop]"
      | k where "r = ERROR" "k < length ps" "tr' = aborted ps k"
      by (auto simp: outcome_def)
    then show ?thesis
    proof cases
      case 1
      with t show ?thesis by (simp add: outcome_def)
    next
      case 2
      with t have "r = ERROR" "Suc k < length ((a, c) # ps)" "tr = aborted ((a, c) # ps) (Suc k)"
        by simp_all
      then show ?thesis unfolding outcome_def by blast
    qed
  qed
qed

subsection \<open>Returning at all\<close>

lemma poll_twint_first:
  "(rd (k + d) AND push_bit TWINT 1) \<noteq> 0 \<Longrightarrow>
   (\<forall>j<d. (rd (k + j) AND push_bit TWINT 1) = 0) \<Longrightarrow> poll_twint rd k = Some (k + d)"
proof (induction d arbitrary: k)
  case 0
  then show ?case by (subst poll_twint.simps) simp
next
  case (Suc d)
  from Suc.prems(1) have a: "(rd (Suc k + d) AND push_bit TWINT 1) \<noteq> 0" by simp
  have b: "\<forall>j<d. (rd (Suc k + j) AND push_bit TWINT 1) = 0"
  proof (intro allI impI)
    fix j assume "j < d"
    then have "Suc j < Suc d" by simp
    with Suc.prems(2) have "(rd (k + Suc j) AND push_bit TWINT 1) = 0" by blast
    then show "(rd (Suc k + j) AND push_bit TWINT 1) = 0" by simp
  qed
  from Suc.prems(2) have c: "(rd k AND push_bit TWINT 1) = 0"
    using zero_less_Suc[of d] by (metis add.right_neutral)
  from Suc.IH[OF a b] c show ?case by (subst poll_twint.simps) simp
qed

lemma strip_Inr: "strip x = Inr (r, s') \<Longrightarrow> \<exists>d'. x = Inr (r, d', s')"
  by (auto simp: strip_def split: sum.splits prod.splits)

lemma pair3_total:
  "map_option (\<lambda>(r, d', s'). (r, s')) x = Some (r, s') \<Longrightarrow> \<exists>d'. x = Some (r, d', s')"
  by (cases x) auto

subsection \<open>Running the driver on a given peripheral\<close>

lemmas run_defs = i2c_start_def i2c_transmit_def i2c_receive_ack_def i2c_receive_nack_def
  i2c_stop_def i2c_check_status_def i2c_wait_until_finish_def Let_def poll_twint.simps
  bus_def ready_def TWINT_def TWSTA_def TWSTO_def TWEA_def TWEN_def MT_defs
  SUCCESS_def ERROR_def I2C_WRITE_def I2C_READ_def

lemma completes_bus_ready:
  "list_all completes rs \<Longrightarrow> completes r \<Longrightarrow> completes (hw (bus rs r) n)"
  by (simp add: bus_def list_all_length)

lemma answers_nth:
  "answers s cs \<Longrightarrow> j < length cs \<Longrightarrow>
     completes (hw s (ops s + j)) \<and> (sr_after (hw s (ops s + j)) AND 0xF8) = cs ! j"
  by (simp add: answers_def)

lemma answers_take: "answers s cs \<Longrightarrow> answers s (take n cs)"
  by (simp add: answers_def)

lemma answers_Cons_shift:
  "answers s (c # cs) \<longleftrightarrow>
     completes (hw s (ops s)) \<and> (sr_after (hw s (ops s)) AND 0xF8) = c \<and>
     answers (s\<lparr>ops := Suc (ops s)\<rparr>) cs"
  unfolding answers_Cons by (simp add: answers_def)

lemma ready_fields [simp]: "sr_after (ready st d) = st" "dr_after (ready st d) = d"
  by (simp_all add: ready_def)

lemma bus_shift [simp]: "hw (s\<lparr>ops := n\<rparr>) = hw s" "ops (s\<lparr>ops := n\<rparr>) = n"
  by simp_all

subsection \<open>Length zero\<close>

lemma write_multi_no_reg_len0:
  "i2c_write_multi_no_reg a data 0 s = map_option Inr (run_phases (sla_w a) s)"
  using write_multi_no_reg_run[of 0 data a s] by (simp add: write_plan_done)

lemma write_multi_with_reg_len0:
  "i2c_write_multi_with_reg a reg data 0 s =
     map_option Inr (run_phases (sla_w a @ [(Transmit reg, MT_DATA_TRANSMITTED_ACK)]) s)"
  using write_multi_with_reg_run[of 0 data a reg s] by (simp add: write_plan_done)

lemma read_loop_len0: "read_loop 0 0 data s = Some (Inr (SUCCESS, data, i2c_stop s))"
  by (simp add: read_loop.simps[of 0 0])

lemma read_multi_no_reg_len0:
  "i2c_read_multi_no_reg a 0 data s =
     map_option (\<lambda>(r, s'). Inr (r, data, s')) (run_phases (sla_r a) s)"
  by (simp add: i2c_read_multi_no_reg_def plan_defs read_loop_len0
      split: option.splits prod.splits)

lemma read_multi_with_reg_len0:
  "i2c_read_multi_with_reg a reg 0 data s =
     map_option (\<lambda>(r, s'). Inr (r, data, s')) (run_phases (reg_then_sla_r a reg) s)"
  by (simp add: i2c_read_multi_with_reg_def plan_defs read_loop_len0
      split: option.splits prod.splits)

lemma run_phases_answers:
  "answers s (map snd ps) \<Longrightarrow> \<exists>s'. run_phases ps s = Some (SUCCESS, s')"
  using run_all_pass by blast

subsection \<open>The phases of a multi-byte read\<close>

lemma read_plan_shape:
  assumes "1 \<le> unat len"
  shows "read_plan 0 len =
     replicate (unat len - 1) (ReceiveAck, MT_DATA_RECEIVED_ACK) @
     [(ReceiveNack, MT_DATA_RECEIVED_NACK)]"
proof -
  from assms obtain m where m: "unat len = Suc m" by (cases "unat len") auto
  have "map (\<lambda>j. if int j = int (Suc m) - 1 then (ReceiveNack, MT_DATA_RECEIVED_NACK)
              else (ReceiveAck, MT_DATA_RECEIVED_ACK)) [0..<m] =
        map (\<lambda>j. (ReceiveAck, MT_DATA_RECEIVED_ACK)) [0..<m]"
    by (rule map_cong) auto
  then show ?thesis
    unfolding read_plan_def m by (simp add: map_replicate_const)
qed

lemma passes_replicate:
  "passes (replicate n (a, c)) = concat (replicate n [Prim a, Check c SUCCESS])"
  by (induction n) simp_all

lemma run_phases_success_log:
  "run_phases ps s = Some (SUCCESS, s') \<Longrightarrow> log s' = log s @ passes ps @ [Stop]"
  using run_phases_log[of ps s SUCCESS s'] by simp

subsection \<open>Phase sequences without a start\<close>

lemma start_free_simps [simp]:
  "start_free []"
  "start_free ((a, c) # ps) \<longleftrightarrow> a \<noteq> Start \<and> start_free ps"
  by (auto simp: start_free_def)

lemma start_free_plans [simp]: "start_free (write_plan data i len)" "start_free (read_plan i len)"
  by (auto simp: start_free_def write_plan_def read_plan_def)

lemma outcome_no_start:
  "start_free ps \<Longrightarrow> outcome ps r tr \<Longrightarrow> Prim Start \<notin> set tr"
proof (induction ps arbitrary: tr)
  case Nil
  then show ?case by simp
next
  case (Cons p ps)
  obtain a c where p: "p = (a, c)" by (cases p)
  from Cons.prems p have a: "a \<noteq> Start" and f: "start_free ps" by simp_all
  from Cons.prems(2) p consider
    "tr = [Prim a, Check c ERROR] @ (if a = Start then [] else [Stop])"
    | tr' where "tr = Prim a # Check c SUCCESS # tr'" "outcome ps r tr'"
    by (auto simp: outcome_Cons)
  then show ?case
  proof cases
    case 1
    with a show ?thesis by auto
  next
    case 2
    from Cons.IH[OF f 2(2)] 2(1) a show ?thesis by auto
  qed
qed

subsection \<open>Address bytes\<close>

lemma addr_bytes_not_start: "a \<noteq> Start \<Longrightarrow> addr_bytes False (Prim a # es) = addr_bytes False es"
  by (cases a) simp_all

lemma outcome_no_addr:
  "start_free ps \<Longrightarrow> outcome ps r tr \<Longrightarrow> addr_bytes False tr = []"
proof (induction ps arbitrary: tr)
  case Nil
  then show ?case by simp
next
  case (Cons p ps)
  obtain a c where p: "p = (a, c)" by (cases p)
  from Cons.prems p have a: "a \<noteq> Start" and f: "start_free ps" by simp_all
  from Cons.prems(2) p consider
    "tr = [Prim a, Check c ERROR] @ (if a = Start then [] else [Stop])"
    | tr' where "tr = Prim a # Check c SUCCESS # tr'" "outcome ps r tr'"
    by (auto simp: outcome_Cons)
  then show ?case
  proof cases
    case 1
    with a show ?thesis by (simp add: addr_bytes_not_start)
  next
    case 2
    from Cons.IH[OF f 2(2)] 2(1) a show ?thesis by (simp add: addr_bytes_not_start)
  qed
qed

lemma addr_sla_w:
  assumes "outcome (sla_w a @ tail) r tr" "start_free tail"
  shows "addr_bytes False tr \<in> {[], [push_bit 1 a OR I2C_WRITE]} \<and>
     (r = SUCCESS \<longrightarrow> addr_bytes False tr = [push_bit 1 a OR I2C_WRITE])"
proof -
  from assms(1) consider "r = ERROR" "tr = [Prim Start, Check MT_START ERROR]"
    | "tr = [Prim Start, Check MT_START SUCCESS, Prim (Transmit (push_bit 1 a OR I2C_WRITE)),
             Check MT_SLA_WRITE_ACK ERROR, Stop]"
    | tr' where "tr = [Prim Start, Check MT_START SUCCESS,
             Prim (Transmit (push_bit 1 a OR I2C_WRITE)), Check MT_SLA_WRITE_ACK SUCCESS] @ tr'"
        "outcome tail r tr'"
    by (auto simp: plan_defs outcome_Cons)
  then show ?thesis
  proof cases
    case 1
    then show ?thesis by simp
  next
    case 2
    then show ?thesis by simp
  next
    case 3
    from outcome_no_addr[OF assms(2) 3(2)] 3(1) show ?thesis by simp
  qed
qed

lemma addr_sla_r:
  assumes "outcome (sla_r a @ tail) r tr" "start_free tail"
  shows "addr_bytes False tr \<in> {[], [push_bit 1 a OR I2C_READ]} \<and>
     (r = SUCCESS \<longrightarrow> addr_bytes False tr = [push_bit 1 a OR I2C_READ])"
proof -
  from assms(1) consider "r = ERROR" "tr = [Prim Start, Check MT_START ERROR]"
    | "tr = [Prim Start, Check MT_START SUCCESS, Prim (Transmit (push_bit 1 a OR I2C_READ)),
             Check MT_SLA_READ_ACK ERROR, Stop]"
    | tr' where "tr = [Prim Start, Check MT_START SUCCESS,
             Prim (Transmit (push_bit 1 a OR I2C_READ)), Check MT_SLA_READ_ACK SUCCESS] @ tr'"
        "outcome tail r tr'"
    by (auto simp: plan_defs outcome_Cons)
  then show ?thesis
  proof cases
    case 1
    then show ?thesis by simp
  next
    case 2
    then show ?thesis by simp
  next
    case 3
    from outcome_no_addr[OF assms(2) 3(2)] 3(1) show ?thesis by simp
  qed
qed

lemma addr_reg_then_sla_r:
  assumes "outcome (reg_then_sla_r a reg @ tail) r tr" "start_free tail"
  shows "addr_bytes False tr \<in>
       {[], [push_bit 1 a OR I2C_WRITE], [push_bit 1 a OR I2C_WRITE, push_bit 1 a OR I2C_READ]} \<and>
     (r = SUCCESS \<longrightarrow>
        addr_bytes False tr = [push_bit 1 a OR I2C_WRITE, push_bit 1 a OR I2C_READ])"
proof -
  from assms(1) consider
    (early) "r = ERROR" "tr \<in>
             {[Prim Start, Check MT_START ERROR],
              [Prim Start, Check MT_START SUCCESS,
               Prim (Transmit (push_bit 1 a OR I2C_WRITE)), Check MT_SLA_WRITE_ACK ERROR, Stop],
              [Prim Start, Check MT_START SUCCESS,
               Prim (Transmit (push_bit 1 a OR I2C_WRITE)), Check MT_SLA_WRITE_ACK SUCCESS,
               Prim (Transmit reg), Check MT_DATA_TRANSMITTED_ACK ERROR, Stop],
              [Prim Start, Check MT_START SUCCESS,
               Prim (Transmit (push_bit 1 a OR I2C_WRITE)), Check MT_SLA_WRITE_ACK SUCCESS,
               Prim (Transmit reg), Check MT_DATA_TRANSMITTED_ACK SUCCESS,
               Prim Start, Check MT_REP_START ERROR]}"
    | (nack) "tr = [Prim Start, Check MT_START SUCCESS,
               Prim (Transmit (push_bit 1 a OR I2C_WRITE)), Check MT_SLA_WRITE_ACK SUCCESS,
               Prim (Transmit reg), Check MT_DATA_TRANSMITTED_ACK SUCCESS,
               Prim Start, Check MT_REP_START SUCCESS,
               Prim (Transmit (push_bit 1 a OR I2C_READ)), Check MT_SLA_READ_ACK ERROR, Stop]"
    | (on) tr' where "tr = [Prim Start, Check MT_START SUCCESS,
               Prim (Transmit (push_bit 1 a OR I2C_WRITE)), Check MT_SLA_WRITE_ACK SUCCESS,
               Prim (Transmit reg), Check MT_DATA_TRANSMITTED_ACK SUCCESS,
               Prim Start, Check MT_REP_START SUCCESS,
               Prim (Transmit (push_bit 1 a OR I2C_READ)), Check MT_SLA_READ_ACK SUCCESS] @ tr'"
        "outcome tail r tr'"
    by (auto simp: plan_defs outcome_Cons)
  then show ?thesis
  proof cases
    case early
    then show ?thesis by auto
  next
    case nack
    then show ?thesis by simp
  next
    case on
    from outcome_no_addr[OF assms(2) on(2)] on(1) show ?thesis by simp
  qed
qed

lemma dbl_bit: "bit (a * 2 :: u8) n \<longleftrightarrow> n \<noteq> 0 \<and> n < 8 \<and> bit a (n - 1)"
  using bit_double_iff[of a n] by (auto simp: mult.commute bit_simps)

lemma sla_bits:
  "drop_bit 1 (push_bit 1 a OR I2C_WRITE) = take_bit 7 (a :: u8)"
  "\<not> bit (push_bit 1 a OR I2C_WRITE) 0"
  "drop_bit 1 (push_bit 1 a OR I2C_READ) = take_bit 7 a"
  "bit (push_bit 1 a OR I2C_READ) 0"
proof -
  show "drop_bit 1 (push_bit 1 a OR I2C_WRITE) = take_bit 7 a"
    by (rule bit_word_eqI) (auto simp: bit_simps I2C_WRITE_def dbl_bit)
  show "\<not> bit (push_bit 1 a OR I2C_WRITE) 0"
    by (simp add: I2C_WRITE_def bit_simps dbl_bit)
  show "drop_bit 1 (push_bit 1 a OR I2C_READ) = take_bit 7 a"
    by (rule bit_word_eqI) (auto simp: bit_simps I2C_READ_def dbl_bit)
  show "bit (push_bit 1 a OR I2C_READ) 0"
    by (simp add: I2C_READ_def bit_simps dbl_bit)
qed

lemma seven_bit: "a < 0x80 \<Longrightarrow> take_bit 7 (a :: u8) = a"
  using less_mask_eq[of a 7] by (simp add: take_bit_eq_mask)

subsection \<open>The single-byte reads\<close>

lemma receive_free_simps [simp]:
  "receive_free []"
  "receive_free ((a, c) # ps) \<longleftrightarrow> a \<noteq> ReceiveAck \<and> a \<noteq> ReceiveNack \<and> receive_free ps"
  by (auto simp: receive_free_def)

lemma read_no_reg_run_read:
  "i2c_read_no_reg a d s = run_read (sla_r a @ [(ReceiveNack, MT_DATA_RECEIVED_NACK)]) d s"
  by (simp add: i2c_read_no_reg_def plan_defs i2c_receive_nack_def
      split: option.splits prod.splits)

lemma read_with_reg_run_read:
  "i2c_read_with_reg a reg d s =
     run_read (reg_then_sla_r a reg @ [(ReceiveNack, MT_DATA_RECEIVED_NACK)]) d s"
  by (simp add: i2c_read_with_reg_def plan_defs i2c_receive_nack_def
      split: option.splits prod.splits)

lemma run_read_last:
  "receive_free pre \<Longrightarrow> run_read (pre @ [(ReceiveNack, c)]) d s = Some (r, d', s') \<Longrightarrow>
     \<exists>tr. log s' = log s @ tr \<and>
       ((r = ERROR \<and> d' = d \<and> outcome pre ERROR tr) \<or>
        (d' = dr_after (hw s (ops s + length pre)) \<and> d' = TWDR s' \<and>
         (r = SUCCESS \<or> r = ERROR) \<and>
         tr = passes pre @ [Prim ReceiveNack, Check c r, Stop]))"
proof (induction pre arbitrary: s)
  case Nil
  from Nil.prems(2) obtain s1 where d: "do_prim ReceiveNack s = Some s1"
    by (auto split: option.splits)
  obtain x s2 where k: "i2c_check_status c s1 = (x, s2)"
    by (cases "i2c_check_status c s1")
  note f1 = do_prim_Some[OF d] and f2 = check_status_fields[OF k]
  from f2(6) have x: "x = SUCCESS \<or> x = ERROR" by (simp split: if_splits)
  from Nil.prems(2) d k x have "r = x" "d' = TWDR s1" "s' = i2c_stop s2"
    by (auto simp: Let_def split: if_splits)
  with f1 f2 x show ?case by (auto simp: stop_fields)
next
  case (Cons p pre)
  obtain a c0 where p: "p = (a, c0)" by (cases p)
  from Cons.prems(1) p have a: "a \<noteq> ReceiveAck" "a \<noteq> ReceiveNack" and rf: "receive_free pre"
    by simp_all
  from Cons.prems(2) p obtain s1 where d: "do_prim a s = Some s1"
    by (auto split: option.splits)
  obtain x s2 where k: "i2c_check_status c0 s1 = (x, s2)"
    by (cases "i2c_check_status c0 s1")
  note f1 = do_prim_Some[OF d] and f2 = check_status_fields[OF k]
  show ?case
  proof (cases "x = ERROR")
    case True
    with Cons.prems(2) p d k a
    have "r = ERROR" "d' = d" "s' = (if a = Start then s2 else i2c_stop s2)"
      by (auto simp: Let_def)
    moreover from this f1 f2 True
    have "log s' = log s @ [Prim a, Check c0 ERROR] @ (if a = Start then [] else [Stop])"
      by (simp add: stop_fields)
    moreover have "outcome (p # pre) ERROR ([Prim a, Check c0 ERROR] @ (if a = Start then [] else [Stop]))"
      unfolding p outcome_Cons by simp
    ultimately show ?thesis by blast
  next
    case False
    with f2(6) have xs: "x = SUCCESS" by (simp split: if_splits)
    from False Cons.prems(2) p d k a
    have "run_read (pre @ [(ReceiveNack, c)]) d s2 = Some (r, d', s')"
      by (simp add: Let_def)
    from Cons.IH[OF rf this] obtain tr' where
      t: "log s' = log s2 @ tr'"
      and o: "(r = ERROR \<and> d' = d \<and> outcome pre ERROR tr') \<or>
        (d' = dr_after (hw s2 (ops s2 + length pre)) \<and> d' = TWDR s' \<and>
         (r = SUCCESS \<or> r = ERROR) \<and>
         tr' = passes pre @ [Prim ReceiveNack, Check c r, Stop])"
      by blast
    from t f1 f2 xs have t': "log s' = log s @ (Prim a # Check c0 SUCCESS # tr')" by simp
    from o show ?thesis
    proof
      assume "r = ERROR \<and> d' = d \<and> outcome pre ERROR tr'"
      then have "r = ERROR \<and> d' = d \<and> outcome (p # pre) ERROR (Prim a # Check c0 SUCCESS # tr')"
        unfolding p outcome_Cons by simp
      with t' show ?thesis by blast
    next
      assume h: "d' = dr_after (hw s2 (ops s2 + length pre)) \<and> d' = TWDR s' \<and>
         (r = SUCCESS \<or> r = ERROR) \<and>
         tr' = passes pre @ [Prim ReceiveNack, Check c r, Stop]"
      from h f1(1,2) f2(1,2) have 1: "d' = dr_after (hw s (ops s + length (p # pre)))" by simp
      from h have 2: "d' = TWDR s'" and 3: "r = SUCCESS \<or> r = ERROR" by blast+
      from h p have 4: "Prim a # Check c0 SUCCESS # tr' =
          passes (p # pre) @ [Prim ReceiveNack, Check c r, Stop]" by simp
      note 1 2 3 4
      with t' show ?thesis by blast
    qed
  qed
qed


lemma outcome_sla_r_ERROR:
  "outcome (sla_r a) ERROR tr \<longleftrightarrow> tr \<in>
             {[Prim Start, Check MT_START ERROR],
              [Prim Start, Check MT_START SUCCESS,
               Prim (Transmit (push_bit 1 a OR I2C_READ)), Check MT_SLA_READ_ACK ERROR, Stop]}"
  by (auto simp: plan_defs outcome_Cons)

lemma outcome_reg_then_sla_r_ERROR:
  "outcome (reg_then_sla_r a reg) ERROR tr \<longleftrightarrow> tr \<in>
             {[Prim Start, Check MT_START ERROR],
              [Prim Start, Check MT_START SUCCESS,
               Prim (Transmit (push_bit 1 a OR I2C_WRITE)), Check MT_SLA_WRITE_ACK ERROR, Stop],
              [Prim Start, Check MT_START SUCCESS,
               Prim (Transmit (push_bit 1 a OR I2C_WRITE)), Check MT_SLA_WRITE_ACK SUCCESS,
               Prim (Transmit reg), Check MT_DATA_TRANSMITTED_ACK ERROR, Stop],
              [Prim Start, Check MT_START SUCCESS,
               Prim (Transmit (push_bit 1 a OR I2C_WRITE)), Check MT_SLA_WRITE_ACK SUCCESS,
               Prim (Transmit reg), Check MT_DATA_TRANSMITTED_ACK SUCCESS,
               Prim Start, Check MT_REP_START ERROR],
              [Prim Start, Check MT_START SUCCESS,
               Prim (Transmit (push_bit 1 a OR I2C_WRITE)), Check MT_SLA_WRITE_ACK SUCCESS,
               Prim (Transmit reg), Check MT_DATA_TRANSMITTED_ACK SUCCESS,
               Prim Start, Check MT_REP_START SUCCESS,
               Prim (Transmit (push_bit 1 a OR I2C_READ)), Check MT_SLA_READ_ACK ERROR, Stop]}"
  by (auto simp: plan_defs outcome_Cons)

lemma passes_sla_r:
  "passes (sla_r a) = [Prim Start, Check MT_START SUCCESS,
                 Prim (Transmit (push_bit 1 a OR I2C_READ)), Check MT_SLA_READ_ACK SUCCESS]"
  by (simp add: plan_defs del: push_bit_Suc push_bit_numeral)

lemma passes_reg_then_sla_r:
  "passes (reg_then_sla_r a reg) = [Prim Start, Check MT_START SUCCESS,
                 Prim (Transmit (push_bit 1 a OR I2C_WRITE)), Check MT_SLA_WRITE_ACK SUCCESS,
                 Prim (Transmit reg), Check MT_DATA_TRANSMITTED_ACK SUCCESS,
                 Prim Start, Check MT_REP_START SUCCESS,
                 Prim (Transmit (push_bit 1 a OR I2C_READ)), Check MT_SLA_READ_ACK SUCCESS]"
  by (simp add: plan_defs del: push_bit_Suc push_bit_numeral)

lemma length_plans [simp]: "length (sla_r a) = 2" "length (reg_then_sla_r a reg) = 5"
  by (simp_all add: plan_defs)

subsection \<open>Some runs\<close>

lemma run_probe_absent:
  "\<exists>t. i2c_is_device_connected 0x3C
         (bus [ready 0x08 0xFF, ready 0x20 0xFF] stuck) =
       Some (ERROR, t) \<and>
     log t =
       [Prim Start, Check MT_START SUCCESS, Prim (Transmit 0x78),
        Check MT_SLA_WRITE_ACK ERROR, Stop]"
  by (simp add: i2c_is_device_connected_def run_defs)

lemma run_write_ok:
  "\<exists>t. i2c_write_no_reg 0x50 0x3D
         (bus [ready 0x08 0xFF, ready 0x18 0xFF, ready 0x28 0xFF] stuck) =
       Some (SUCCESS, t) \<and>
     log t =
       [Prim Start, Check MT_START SUCCESS, Prim (Transmit 0xA0),
        Check MT_SLA_WRITE_ACK SUCCESS, Prim (Transmit 0x3D),
        Check MT_DATA_TRANSMITTED_ACK SUCCESS, Stop]"
  by (simp add: i2c_write_no_reg_def run_defs)

lemma run_write_reg_nack:
  "\<exists>t. i2c_write_with_reg 0x50 0x10 0x3D
         (bus [ready 0x08 0xFF, ready 0x18 0xFF, ready 0x30 0xFF] stuck) =
       Some (ERROR, t) \<and>
     log t =
       [Prim Start, Check MT_START SUCCESS, Prim (Transmit 0xA0),
        Check MT_SLA_WRITE_ACK SUCCESS, Prim (Transmit 0x10),
        Check MT_DATA_TRANSMITTED_ACK ERROR, Stop]"
  by (simp add: i2c_write_with_reg_def run_defs)

lemma run_write_multi_nack:
  "\<exists>t. i2c_write_multi_no_reg 0x27 [0x01, 0x02, 0x03] 3
         (bus [ready 0x08 0xFF, ready 0x18 0xFF, ready 0x28 0xFF, ready 0x30 0xFF] stuck) =
       Some (Inr (ERROR, t)) \<and>
     log t =
       [Prim Start, Check MT_START SUCCESS, Prim (Transmit 0x4E),
        Check MT_SLA_WRITE_ACK SUCCESS, Prim (Transmit 0x01),
        Check MT_DATA_TRANSMITTED_ACK SUCCESS, Prim (Transmit 0x02),
        Check MT_DATA_TRANSMITTED_ACK ERROR, Stop]"
  by (simp add: i2c_write_multi_no_reg_def write_loop.simps run_defs)

lemma run_write_multi_reg_ok:
  "\<exists>t. i2c_write_multi_with_reg 0x27 0x10 [0x01, 0x02] 2
         (bus [ready 0x08 0xFF, ready 0x18 0xFF, ready 0x28 0xFF, ready 0x28 0xFF, ready 0x28 0xFF] stuck) =
       Some (Inr (SUCCESS, t)) \<and>
     log t =
       [Prim Start, Check MT_START SUCCESS, Prim (Transmit 0x4E),
        Check MT_SLA_WRITE_ACK SUCCESS, Prim (Transmit 0x10),
        Check MT_DATA_TRANSMITTED_ACK SUCCESS, Prim (Transmit 0x01),
        Check MT_DATA_TRANSMITTED_ACK SUCCESS, Prim (Transmit 0x02),
        Check MT_DATA_TRANSMITTED_ACK SUCCESS, Stop]"
  by (simp add: i2c_write_multi_with_reg_def write_loop.simps run_defs)

lemma run_read_last_check_fails:
  "\<exists>t. i2c_read_no_reg 0x68 0x11
         (bus [ready 0x08 0xFF, ready 0x40 0xFF, ready 0x00 0xA5] stuck) =
       Some (ERROR, 0xA5, t) \<and>
     log t =
       [Prim Start, Check MT_START SUCCESS, Prim (Transmit 0xD1),
        Check MT_SLA_READ_ACK SUCCESS, Prim ReceiveNack,
        Check MT_DATA_RECEIVED_NACK ERROR, Stop]"
  by (simp add: i2c_read_no_reg_def run_defs)

lemma run_read_addr_nack:
  "\<exists>t. i2c_read_no_reg 0x68 0x11
         (bus [ready 0x08 0xFF, ready 0x48 0xFF] stuck) =
       Some (ERROR, 0x11, t) \<and>
     log t =
       [Prim Start, Check MT_START SUCCESS, Prim (Transmit 0xD1),
        Check MT_SLA_READ_ACK ERROR, Stop]"
  by (simp add: i2c_read_no_reg_def run_defs)

lemma run_read_reg_ok:
  "\<exists>t. i2c_read_with_reg 0x68 0x00 0x11
         (bus [ready 0x08 0xFF, ready 0x18 0xFF, ready 0x28 0xFF, ready 0x10 0xFF, ready 0x40 0xFF, ready 0x58 0xA5] stuck) =
       Some (SUCCESS, 0xA5, t) \<and>
     log t =
       [Prim Start, Check MT_START SUCCESS, Prim (Transmit 0xD0),
        Check MT_SLA_WRITE_ACK SUCCESS, Prim (Transmit 0x00),
        Check MT_DATA_TRANSMITTED_ACK SUCCESS, Prim Start,
        Check MT_REP_START SUCCESS, Prim (Transmit 0xD1),
        Check MT_SLA_READ_ACK SUCCESS, Prim ReceiveNack,
        Check MT_DATA_RECEIVED_NACK SUCCESS, Stop]"
  by (simp add: i2c_read_with_reg_def run_defs)

lemma run_read_reg_rep_start_fails:
  "\<exists>t. i2c_read_with_reg 0x68 0x00 0x11
         (bus [ready 0x08 0xFF, ready 0x18 0xFF, ready 0x28 0xFF, ready 0x00 0xFF] stuck) =
       Some (ERROR, 0x11, t) \<and>
     log t =
       [Prim Start, Check MT_START SUCCESS, Prim (Transmit 0xD0),
        Check MT_SLA_WRITE_ACK SUCCESS, Prim (Transmit 0x00),
        Check MT_DATA_TRANSMITTED_ACK SUCCESS, Prim Start,
        Check MT_REP_START ERROR]"
  by (simp add: i2c_read_with_reg_def run_defs)

lemma run_read_multi_ok:
  "\<exists>t. i2c_read_multi_no_reg 0x68 3 [0x00, 0x00, 0x00]
         (bus [ready 0x08 0xFF, ready 0x40 0xFF, ready 0x50 0xA1, ready 0x50 0xA2, ready 0x58 0xA3] stuck) =
       Some (Inr (SUCCESS, [0xA1, 0xA2, 0xA3], t)) \<and>
     log t =
       [Prim Start, Check MT_START SUCCESS, Prim (Transmit 0xD1),
        Check MT_SLA_READ_ACK SUCCESS, Prim ReceiveAck,
        Check MT_DATA_RECEIVED_ACK SUCCESS, Prim ReceiveAck,
        Check MT_DATA_RECEIVED_ACK SUCCESS, Prim ReceiveNack,
        Check MT_DATA_RECEIVED_NACK SUCCESS, Stop]"
  by (simp add: i2c_read_multi_no_reg_def read_loop.simps run_defs)

lemma run_read_multi_reg_ok:
  "\<exists>t. i2c_read_multi_with_reg 0x68 0x00 2 [0x00, 0x00]
         (bus [ready 0x08 0xFF, ready 0x18 0xFF, ready 0x28 0xFF, ready 0x10 0xFF, ready 0x40 0xFF, ready 0x50 0xA1, ready 0x58 0xA2] stuck) =
       Some (Inr (SUCCESS, [0xA1, 0xA2], t)) \<and>
     log t =
       [Prim Start, Check MT_START SUCCESS, Prim (Transmit 0xD0),
        Check MT_SLA_WRITE_ACK SUCCESS, Prim (Transmit 0x00),
        Check MT_DATA_TRANSMITTED_ACK SUCCESS, Prim Start,
        Check MT_REP_START SUCCESS, Prim (Transmit 0xD1),
        Check MT_SLA_READ_ACK SUCCESS, Prim ReceiveAck,
        Check MT_DATA_RECEIVED_ACK SUCCESS, Prim ReceiveNack,
        Check MT_DATA_RECEIVED_NACK SUCCESS, Stop]"
  by (simp add: i2c_read_multi_with_reg_def read_loop.simps run_defs)

lemma run_write_multi_len0:
  "\<exists>t. i2c_write_multi_no_reg 0x27 [] 0
         (bus [ready 0x08 0xFF, ready 0x18 0xFF] stuck) =
       Some (Inr (SUCCESS, t)) \<and>
     log t =
       [Prim Start, Check MT_START SUCCESS, Prim (Transmit 0x4E),
        Check MT_SLA_WRITE_ACK SUCCESS, Stop]"
  by (simp add: i2c_write_multi_no_reg_def write_loop.simps run_defs)

lemma run_write_multi_reg_len0:
  "\<exists>t. i2c_write_multi_with_reg 0x27 0x10 [] 0
         (bus [ready 0x08 0xFF, ready 0x18 0xFF, ready 0x28 0xFF] stuck) =
       Some (Inr (SUCCESS, t)) \<and>
     log t =
       [Prim Start, Check MT_START SUCCESS, Prim (Transmit 0x4E),
        Check MT_SLA_WRITE_ACK SUCCESS, Prim (Transmit 0x10),
        Check MT_DATA_TRANSMITTED_ACK SUCCESS, Stop]"
  by (simp add: i2c_write_multi_with_reg_def write_loop.simps run_defs)

lemma run_read_multi_len0:
  "\<exists>t. i2c_read_multi_no_reg 0x68 0 []
         (bus [ready 0x08 0xFF, ready 0x40 0xFF] stuck) =
       Some (Inr (SUCCESS, [], t)) \<and>
     log t =
       [Prim Start, Check MT_START SUCCESS, Prim (Transmit 0xD1),
        Check MT_SLA_READ_ACK SUCCESS, Stop]"
  by (simp add: i2c_read_multi_no_reg_def read_loop.simps run_defs)

lemma run_read_multi_reg_len0:
  "\<exists>t. i2c_read_multi_with_reg 0x68 0x00 0 []
         (bus [ready 0x08 0xFF, ready 0x18 0xFF, ready 0x28 0xFF, ready 0x10 0xFF, ready 0x40 0xFF] stuck) =
       Some (Inr (SUCCESS, [], t)) \<and>
     log t =
       [Prim Start, Check MT_START SUCCESS, Prim (Transmit 0xD0),
        Check MT_SLA_WRITE_ACK SUCCESS, Prim (Transmit 0x00),
        Check MT_DATA_TRANSMITTED_ACK SUCCESS, Prim Start,
        Check MT_REP_START SUCCESS, Prim (Transmit 0xD1),
        Check MT_SLA_READ_ACK SUCCESS, Stop]"
  by (simp add: i2c_read_multi_with_reg_def read_loop.simps run_defs)

lemma log_bus [simp]: "log (bus rs r) = []" "ops (bus rs r) = 0"
  by (simp_all add: bus_def)

section \<open>The claims\<close>

subsection \<open>C1: the abort policy\<close>



subsection \<open>C2: the status validator\<close>

text \<open>
  C2. \<open>i2c_check_status expected\<close> reads TWSR, keeps the five status bits TWSR7:3 and
  clears the three bits below them (the two prescaler bits among them), and returns
  \<open>SUCCESS\<close> if and only if the masked value equals \<open>expected\<close>, \<open>ERROR\<close> otherwise. The
  masked value is compared as it is, without a shift, with the codes 0x08 to 0x58 of the
  header, each of which has its three low bits clear. The prescaler bits do not change
  the answer, and the call changes nothing but the log.
\<close>

theorem check_status_masks:
  "fst (i2c_check_status expected s) = (if (TWSR s AND 0xF8) = expected then SUCCESS else ERROR)
   \<and> (fst (i2c_check_status expected s) = SUCCESS \<longleftrightarrow> (TWSR s AND 0xF8) = expected)
   \<and> (fst (i2c_check_status expected s) = ERROR \<longleftrightarrow> (TWSR s AND 0xF8) \<noteq> expected)
   \<and> (TWSR s AND 0xF8) = push_bit 3 (drop_bit 3 (TWSR s))
   \<and> ((TWSR s AND 0xF8) AND 0x07) = 0
   \<and> fst (i2c_check_status expected (s\<lparr>TWSR := TWSR s OR 0x03\<rparr>)) = fst (i2c_check_status expected s)
   \<and> snd (i2c_check_status expected s) =
       s\<lparr>log := log s @ [Check expected (fst (i2c_check_status expected s))]\<rparr>
   \<and> list_all (\<lambda>c. (c AND 0xF8) = c) status_codes
   \<and> status_codes = [0x08, 0x10, 0x18, 0x20, 0x28, 0x30, 0x38, 0x40, 0x48, 0x50, 0x58]"
proof -
  have 1: "fst (i2c_check_status expected s) =
             (if (TWSR s AND 0xF8) = expected then SUCCESS else ERROR)"
    by (simp add: check_status_eq)
  have 2: "fst (i2c_check_status expected s) = SUCCESS \<longleftrightarrow> (TWSR s AND 0xF8) = expected"
    by (simp add: check_status_eq)
  have 3: "fst (i2c_check_status expected s) = ERROR \<longleftrightarrow> (TWSR s AND 0xF8) \<noteq> expected"
    by (simp add: check_status_eq)
  have 4: "fst (i2c_check_status expected (s\<lparr>TWSR := TWSR s OR 0x03\<rparr>)) =
             fst (i2c_check_status expected s)"
    by (simp add: check_status_eq or_3_and_F8)
  have 5: "snd (i2c_check_status expected s) =
             s\<lparr>log := log s @ [Check expected (fst (i2c_check_status expected s))]\<rparr>"
    by (simp add: check_status_eq)
  have 6: "status_codes = [0x08, 0x10, 0x18, 0x20, 0x28, 0x30, 0x38, 0x40, 0x48, 0x50, 0x58]"
    by (simp add: status_codes_def MT_START_def MT_REP_START_def MT_SLA_WRITE_ACK_def
      MT_SLA_WRITE_NACK_def MT_DATA_TRANSMITTED_ACK_def MT_DATA_TRANSMITTED_NACK_def
      MT_ARB_LOST_def MT_SLA_READ_ACK_def MT_SLA_READ_NACK_def MT_DATA_RECEIVED_ACK_def
      MT_DATA_RECEIVED_NACK_def)
  from 1 2 3 4 5 6 and_F8[of "TWSR s"] and_F8_low[of "TWSR s"] codes_in_place
  show ?thesis by blast
qed

theorem check_status_masks_witness:
  "fst (i2c_check_status MT_SLA_WRITE_ACK ((bus [] stuck)\<lparr>TWSR := 0x1B\<rparr>)) = SUCCESS
   \<and> fst (i2c_check_status MT_SLA_WRITE_ACK ((bus [] stuck)\<lparr>TWSR := 0x23\<rparr>)) = ERROR
   \<and> fst (i2c_check_status 0x03 ((bus [] stuck)\<lparr>TWSR := 0x1B\<rparr>)) = ERROR"
  using check_status_masks[where expected = MT_SLA_WRITE_ACK and s = "(bus [] stuck)\<lparr>TWSR := 0x1B\<rparr>"]
    check_status_masks[where expected = MT_SLA_WRITE_ACK and s = "(bus [] stuck)\<lparr>TWSR := 0x23\<rparr>"]
    check_status_masks[where expected = "0x03" and s = "(bus [] stuck)\<lparr>TWSR := 0x1B\<rparr>"]
  by (simp add: MT_SLA_WRITE_ACK_def)

subsection \<open>C3: acknowledge all bytes but the last\<close>

text \<open>
  C3. A multi-byte read of \<open>N = unat len \<ge> 1\<close> bytes that returns \<open>SUCCESS\<close> has, after its
  address phases, \<open>N - 1\<close> times a receive with acknowledge followed by a check of
  \<open>MT_DATA_RECEIVED_ACK\<close> (0x50), then one receive without acknowledge followed by a check
  of \<open>MT_DATA_RECEIVED_NACK\<close> (0x58), then the stop. This holds for
  \<open>i2c_read_multi_no_reg\<close> and for \<open>i2c_read_multi_with_reg\<close>.
\<close>

theorem multi_read_ack_all_but_last:
  "1 \<le> unat len \<longrightarrow>
     (i2c_read_multi_no_reg a len data s = Some (Inr (SUCCESS, d', s')) \<longrightarrow>
        log s' = log s @
          [Prim Start, Check MT_START SUCCESS,
           Prim (Transmit (push_bit 1 a OR I2C_READ)), Check MT_SLA_READ_ACK SUCCESS] @
          concat (replicate (unat len - 1) [Prim ReceiveAck, Check MT_DATA_RECEIVED_ACK SUCCESS]) @
          [Prim ReceiveNack, Check MT_DATA_RECEIVED_NACK SUCCESS, Stop])
     \<and> (i2c_read_multi_with_reg a reg len data s = Some (Inr (SUCCESS, d', s')) \<longrightarrow>
        log s' = log s @
          [Prim Start, Check MT_START SUCCESS,
           Prim (Transmit (push_bit 1 a OR I2C_WRITE)), Check MT_SLA_WRITE_ACK SUCCESS,
           Prim (Transmit reg), Check MT_DATA_TRANSMITTED_ACK SUCCESS,
           Prim Start, Check MT_REP_START SUCCESS,
           Prim (Transmit (push_bit 1 a OR I2C_READ)), Check MT_SLA_READ_ACK SUCCESS] @
          concat (replicate (unat len - 1) [Prim ReceiveAck, Check MT_DATA_RECEIVED_ACK SUCCESS]) @
          [Prim ReceiveNack, Check MT_DATA_RECEIVED_NACK SUCCESS, Stop])
     \<and> MT_DATA_RECEIVED_ACK = 0x50 \<and> MT_DATA_RECEIVED_NACK = 0x58"
  (is "_ \<longrightarrow> ?A \<and> ?B \<and> ?C")
proof
  assume n: "1 \<le> unat len"
  have A: ?A
  proof
    assume "i2c_read_multi_no_reg a len data s = Some (Inr (SUCCESS, d', s'))"
    from run_phases_success_log[OF read_multi_no_reg_Inr[OF this]]
    show "log s' = log s @
          [Prim Start, Check MT_START SUCCESS,
           Prim (Transmit (push_bit 1 a OR I2C_READ)), Check MT_SLA_READ_ACK SUCCESS] @
          concat (replicate (unat len - 1) [Prim ReceiveAck, Check MT_DATA_RECEIVED_ACK SUCCESS]) @
          [Prim ReceiveNack, Check MT_DATA_RECEIVED_NACK SUCCESS, Stop]"
      by (simp add: read_plan_shape[OF n] passes_replicate plan_defs)
  qed
  have B: ?B
  proof
    assume "i2c_read_multi_with_reg a reg len data s = Some (Inr (SUCCESS, d', s'))"
    from run_phases_success_log[OF read_multi_with_reg_Inr[OF this]]
    show "log s' = log s @
          [Prim Start, Check MT_START SUCCESS,
           Prim (Transmit (push_bit 1 a OR I2C_WRITE)), Check MT_SLA_WRITE_ACK SUCCESS,
           Prim (Transmit reg), Check MT_DATA_TRANSMITTED_ACK SUCCESS,
           Prim Start, Check MT_REP_START SUCCESS,
           Prim (Transmit (push_bit 1 a OR I2C_READ)), Check MT_SLA_READ_ACK SUCCESS] @
          concat (replicate (unat len - 1) [Prim ReceiveAck, Check MT_DATA_RECEIVED_ACK SUCCESS]) @
          [Prim ReceiveNack, Check MT_DATA_RECEIVED_NACK SUCCESS, Stop]"
      by (simp add: read_plan_shape[OF n] passes_replicate plan_defs)
  qed
  have C: ?C by (simp add: MT_defs)
  from A B C show "?A \<and> ?B \<and> ?C" by blast
qed

theorem multi_read_ack_all_but_last_witness:
  "(1 \<le> unat (3 :: u8) \<and>
     (\<exists>t. i2c_read_multi_no_reg 0x68 3 [0x00, 0x00, 0x00]
         (bus [ready 0x08 0xFF, ready 0x40 0xFF, ready 0x50 0xA1, ready 0x50 0xA2, ready 0x58 0xA3] stuck) =
       Some (Inr (SUCCESS, [0xA1, 0xA2, 0xA3], t)) \<and>
     log t =
       [Prim Start, Check MT_START SUCCESS, Prim (Transmit 0xD1),
        Check MT_SLA_READ_ACK SUCCESS, Prim ReceiveAck,
        Check MT_DATA_RECEIVED_ACK SUCCESS, Prim ReceiveAck,
        Check MT_DATA_RECEIVED_ACK SUCCESS, Prim ReceiveNack,
        Check MT_DATA_RECEIVED_NACK SUCCESS, Stop] \<and>
     log t =
          [Prim Start, Check MT_START SUCCESS,
           Prim (Transmit (push_bit 1 0x68 OR I2C_READ)), Check MT_SLA_READ_ACK SUCCESS] @
          concat (replicate (unat (3 :: u8) - 1) [Prim ReceiveAck, Check MT_DATA_RECEIVED_ACK SUCCESS]) @
          [Prim ReceiveNack, Check MT_DATA_RECEIVED_NACK SUCCESS, Stop]))
   \<and> (1 \<le> unat (2 :: u8) \<and>
     (\<exists>t. i2c_read_multi_with_reg 0x68 0x00 2 [0x00, 0x00]
         (bus [ready 0x08 0xFF, ready 0x18 0xFF, ready 0x28 0xFF, ready 0x10 0xFF, ready 0x40 0xFF, ready 0x50 0xA1, ready 0x58 0xA2] stuck) =
       Some (Inr (SUCCESS, [0xA1, 0xA2], t)) \<and>
     log t =
       [Prim Start, Check MT_START SUCCESS, Prim (Transmit 0xD0),
        Check MT_SLA_WRITE_ACK SUCCESS, Prim (Transmit 0x00),
        Check MT_DATA_TRANSMITTED_ACK SUCCESS, Prim Start,
        Check MT_REP_START SUCCESS, Prim (Transmit 0xD1),
        Check MT_SLA_READ_ACK SUCCESS, Prim ReceiveAck,
        Check MT_DATA_RECEIVED_ACK SUCCESS, Prim ReceiveNack,
        Check MT_DATA_RECEIVED_NACK SUCCESS, Stop] \<and>
     log t =
          [Prim Start, Check MT_START SUCCESS,
           Prim (Transmit (push_bit 1 0x68 OR I2C_WRITE)), Check MT_SLA_WRITE_ACK SUCCESS,
           Prim (Transmit 0x00), Check MT_DATA_TRANSMITTED_ACK SUCCESS,
           Prim Start, Check MT_REP_START SUCCESS,
           Prim (Transmit (push_bit 1 0x68 OR I2C_READ)), Check MT_SLA_READ_ACK SUCCESS] @
          concat (replicate (unat (2 :: u8) - 1) [Prim ReceiveAck, Check MT_DATA_RECEIVED_ACK SUCCESS]) @
          [Prim ReceiveNack, Check MT_DATA_RECEIVED_NACK SUCCESS, Stop]))"
proof -
  have c0: "1 \<le> unat (3 :: u8) \<and>
     (\<exists>t. i2c_read_multi_no_reg 0x68 3 [0x00, 0x00, 0x00]
         (bus [ready 0x08 0xFF, ready 0x40 0xFF, ready 0x50 0xA1, ready 0x50 0xA2, ready 0x58 0xA3] stuck) =
       Some (Inr (SUCCESS, [0xA1, 0xA2, 0xA3], t)) \<and>
     log t =
       [Prim Start, Check MT_START SUCCESS, Prim (Transmit 0xD1),
        Check MT_SLA_READ_ACK SUCCESS, Prim ReceiveAck,
        Check MT_DATA_RECEIVED_ACK SUCCESS, Prim ReceiveAck,
        Check MT_DATA_RECEIVED_ACK SUCCESS, Prim ReceiveNack,
        Check MT_DATA_RECEIVED_NACK SUCCESS, Stop] \<and>
     log t =
          [Prim Start, Check MT_START SUCCESS,
           Prim (Transmit (push_bit 1 0x68 OR I2C_READ)), Check MT_SLA_READ_ACK SUCCESS] @
          concat (replicate (unat (3 :: u8) - 1) [Prim ReceiveAck, Check MT_DATA_RECEIVED_ACK SUCCESS]) @
          [Prim ReceiveNack, Check MT_DATA_RECEIVED_NACK SUCCESS, Stop])"
  proof -
    have n: "1 \<le> unat (3 :: u8)" by simp
    from run_read_multi_ok obtain t where
      e: "i2c_read_multi_no_reg 0x68 3 [0x00, 0x00, 0x00]
         (bus [ready 0x08 0xFF, ready 0x40 0xFF, ready 0x50 0xA1, ready 0x50 0xA2, ready 0x58 0xA3] stuck) =
       Some (Inr (SUCCESS, [0xA1, 0xA2, 0xA3], t))"
      and l: "log t =
       [Prim Start, Check MT_START SUCCESS, Prim (Transmit 0xD1),
        Check MT_SLA_READ_ACK SUCCESS, Prim ReceiveAck,
        Check MT_DATA_RECEIVED_ACK SUCCESS, Prim ReceiveAck,
        Check MT_DATA_RECEIVED_ACK SUCCESS, Prim ReceiveNack,
        Check MT_DATA_RECEIVED_NACK SUCCESS, Stop]"
      by blast
    from multi_read_ack_all_but_last[where a = "0x68" and reg = "0x00" and data = "[0x00, 0x00, 0x00]" and len = 3
      and s = "bus [ready 0x08 0xFF, ready 0x40 0xFF, ready 0x50 0xA1, ready 0x50 0xA2, ready 0x58 0xA3] stuck"
      and s' = t and d' = "[0xA1, 0xA2, 0xA3]",
      THEN mp, OF n, THEN conjunct1, THEN mp, OF e]
    have "log t = log (bus [ready 0x08 0xFF, ready 0x40 0xFF, ready 0x50 0xA1, ready 0x50 0xA2, ready 0x58 0xA3] stuck) @
          [Prim Start, Check MT_START SUCCESS,
           Prim (Transmit (push_bit 1 0x68 OR I2C_READ)), Check MT_SLA_READ_ACK SUCCESS] @
          concat (replicate (unat (3 :: u8) - 1) [Prim ReceiveAck, Check MT_DATA_RECEIVED_ACK SUCCESS]) @
          [Prim ReceiveNack, Check MT_DATA_RECEIVED_NACK SUCCESS, Stop]"
      .
    then have "log t =
          [Prim Start, Check MT_START SUCCESS,
           Prim (Transmit (push_bit 1 0x68 OR I2C_READ)), Check MT_SLA_READ_ACK SUCCESS] @
          concat (replicate (unat (3 :: u8) - 1) [Prim ReceiveAck, Check MT_DATA_RECEIVED_ACK SUCCESS]) @
          [Prim ReceiveNack, Check MT_DATA_RECEIVED_NACK SUCCESS, Stop]"
      by (simp del: replicate.simps replicate_Suc concat.simps push_bit_Suc push_bit_numeral)
    with n e l show ?thesis by blast
  qed
  have c1: "1 \<le> unat (2 :: u8) \<and>
     (\<exists>t. i2c_read_multi_with_reg 0x68 0x00 2 [0x00, 0x00]
         (bus [ready 0x08 0xFF, ready 0x18 0xFF, ready 0x28 0xFF, ready 0x10 0xFF, ready 0x40 0xFF, ready 0x50 0xA1, ready 0x58 0xA2] stuck) =
       Some (Inr (SUCCESS, [0xA1, 0xA2], t)) \<and>
     log t =
       [Prim Start, Check MT_START SUCCESS, Prim (Transmit 0xD0),
        Check MT_SLA_WRITE_ACK SUCCESS, Prim (Transmit 0x00),
        Check MT_DATA_TRANSMITTED_ACK SUCCESS, Prim Start,
        Check MT_REP_START SUCCESS, Prim (Transmit 0xD1),
        Check MT_SLA_READ_ACK SUCCESS, Prim ReceiveAck,
        Check MT_DATA_RECEIVED_ACK SUCCESS, Prim ReceiveNack,
        Check MT_DATA_RECEIVED_NACK SUCCESS, Stop] \<and>
     log t =
          [Prim Start, Check MT_START SUCCESS,
           Prim (Transmit (push_bit 1 0x68 OR I2C_WRITE)), Check MT_SLA_WRITE_ACK SUCCESS,
           Prim (Transmit 0x00), Check MT_DATA_TRANSMITTED_ACK SUCCESS,
           Prim Start, Check MT_REP_START SUCCESS,
           Prim (Transmit (push_bit 1 0x68 OR I2C_READ)), Check MT_SLA_READ_ACK SUCCESS] @
          concat (replicate (unat (2 :: u8) - 1) [Prim ReceiveAck, Check MT_DATA_RECEIVED_ACK SUCCESS]) @
          [Prim ReceiveNack, Check MT_DATA_RECEIVED_NACK SUCCESS, Stop])"
  proof -
    have n: "1 \<le> unat (2 :: u8)" by simp
    from run_read_multi_reg_ok obtain t where
      e: "i2c_read_multi_with_reg 0x68 0x00 2 [0x00, 0x00]
         (bus [ready 0x08 0xFF, ready 0x18 0xFF, ready 0x28 0xFF, ready 0x10 0xFF, ready 0x40 0xFF, ready 0x50 0xA1, ready 0x58 0xA2] stuck) =
       Some (Inr (SUCCESS, [0xA1, 0xA2], t))"
      and l: "log t =
       [Prim Start, Check MT_START SUCCESS, Prim (Transmit 0xD0),
        Check MT_SLA_WRITE_ACK SUCCESS, Prim (Transmit 0x00),
        Check MT_DATA_TRANSMITTED_ACK SUCCESS, Prim Start,
        Check MT_REP_START SUCCESS, Prim (Transmit 0xD1),
        Check MT_SLA_READ_ACK SUCCESS, Prim ReceiveAck,
        Check MT_DATA_RECEIVED_ACK SUCCESS, Prim ReceiveNack,
        Check MT_DATA_RECEIVED_NACK SUCCESS, Stop]"
      by blast
    from multi_read_ack_all_but_last[where a = "0x68" and reg = "0x00" and data = "[0x00, 0x00]" and len = 2
      and s = "bus [ready 0x08 0xFF, ready 0x18 0xFF, ready 0x28 0xFF, ready 0x10 0xFF, ready 0x40 0xFF, ready 0x50 0xA1, ready 0x58 0xA2] stuck"
      and s' = t and d' = "[0xA1, 0xA2]",
      THEN mp, OF n, THEN conjunct2, THEN conjunct1, THEN mp, OF e]
    have "log t = log (bus [ready 0x08 0xFF, ready 0x18 0xFF, ready 0x28 0xFF, ready 0x10 0xFF, ready 0x40 0xFF, ready 0x50 0xA1, ready 0x58 0xA2] stuck) @
          [Prim Start, Check MT_START SUCCESS,
           Prim (Transmit (push_bit 1 0x68 OR I2C_WRITE)), Check MT_SLA_WRITE_ACK SUCCESS,
           Prim (Transmit 0x00), Check MT_DATA_TRANSMITTED_ACK SUCCESS,
           Prim Start, Check MT_REP_START SUCCESS,
           Prim (Transmit (push_bit 1 0x68 OR I2C_READ)), Check MT_SLA_READ_ACK SUCCESS] @
          concat (replicate (unat (2 :: u8) - 1) [Prim ReceiveAck, Check MT_DATA_RECEIVED_ACK SUCCESS]) @
          [Prim ReceiveNack, Check MT_DATA_RECEIVED_NACK SUCCESS, Stop]"
      .
    then have "log t =
          [Prim Start, Check MT_START SUCCESS,
           Prim (Transmit (push_bit 1 0x68 OR I2C_WRITE)), Check MT_SLA_WRITE_ACK SUCCESS,
           Prim (Transmit 0x00), Check MT_DATA_TRANSMITTED_ACK SUCCESS,
           Prim Start, Check MT_REP_START SUCCESS,
           Prim (Transmit (push_bit 1 0x68 OR I2C_READ)), Check MT_SLA_READ_ACK SUCCESS] @
          concat (replicate (unat (2 :: u8) - 1) [Prim ReceiveAck, Check MT_DATA_RECEIVED_ACK SUCCESS]) @
          [Prim ReceiveNack, Check MT_DATA_RECEIVED_NACK SUCCESS, Stop]"
      by (simp del: replicate.simps replicate_Suc concat.simps push_bit_Suc push_bit_numeral)
    with n e l show ?thesis by blast
  qed
  show ?thesis
    by (intro conjI c0 c1)
qed

subsection \<open>C4: the repeated start of a register-addressed read\<close>

text \<open>
  C4. Every returning run of \<open>i2c_read_with_reg\<close> and of \<open>i2c_read_multi_with_reg\<close>
  either fails before the address-with-read phase, with one of the four logs listed, or
  has a log that begins with: start, address with write, register byte, each checked
  with success; a second start, checked against \<open>MT_REP_START\<close> (0x10, not the 0x08 of
  \<open>MT_START\<close>); the address with read. No other start follows. So the repeated start is
  issued once, directly after the check of the register byte and directly before the
  address with read; a run that returns \<open>SUCCESS\<close> is of the second kind.
\<close>

theorem repeated_start_once:
  "(i2c_read_with_reg a reg d s = Some (r, d', s') \<longrightarrow>
      (\<exists>tr. log s' = log s @ tr \<and>
         ((r = ERROR \<and> tr \<in>
             {[Prim Start, Check MT_START ERROR],
              [Prim Start, Check MT_START SUCCESS,
               Prim (Transmit (push_bit 1 a OR I2C_WRITE)), Check MT_SLA_WRITE_ACK ERROR, Stop],
              [Prim Start, Check MT_START SUCCESS,
               Prim (Transmit (push_bit 1 a OR I2C_WRITE)), Check MT_SLA_WRITE_ACK SUCCESS,
               Prim (Transmit reg), Check MT_DATA_TRANSMITTED_ACK ERROR, Stop],
              [Prim Start, Check MT_START SUCCESS,
               Prim (Transmit (push_bit 1 a OR I2C_WRITE)), Check MT_SLA_WRITE_ACK SUCCESS,
               Prim (Transmit reg), Check MT_DATA_TRANSMITTED_ACK SUCCESS,
               Prim Start, Check MT_REP_START ERROR]}) \<or>
          (\<exists>rest. tr =
              [Prim Start, Check MT_START SUCCESS,
               Prim (Transmit (push_bit 1 a OR I2C_WRITE)), Check MT_SLA_WRITE_ACK SUCCESS,
               Prim (Transmit reg), Check MT_DATA_TRANSMITTED_ACK SUCCESS,
               Prim Start, Check MT_REP_START SUCCESS,
               Prim (Transmit (push_bit 1 a OR I2C_READ))] @ rest \<and>
              Prim Start \<notin> set rest))))
   \<and> (i2c_read_multi_with_reg a reg len data s = Some (Inr (r, ds', s')) \<longrightarrow>
      (\<exists>tr. log s' = log s @ tr \<and>
         ((r = ERROR \<and> tr \<in>
             {[Prim Start, Check MT_START ERROR],
              [Prim Start, Check MT_START SUCCESS,
               Prim (Transmit (push_bit 1 a OR I2C_WRITE)), Check MT_SLA_WRITE_ACK ERROR, Stop],
              [Prim Start, Check MT_START SUCCESS,
               Prim (Transmit (push_bit 1 a OR I2C_WRITE)), Check MT_SLA_WRITE_ACK SUCCESS,
               Prim (Transmit reg), Check MT_DATA_TRANSMITTED_ACK ERROR, Stop],
              [Prim Start, Check MT_START SUCCESS,
               Prim (Transmit (push_bit 1 a OR I2C_WRITE)), Check MT_SLA_WRITE_ACK SUCCESS,
               Prim (Transmit reg), Check MT_DATA_TRANSMITTED_ACK SUCCESS,
               Prim Start, Check MT_REP_START ERROR]}) \<or>
          (\<exists>rest. tr =
              [Prim Start, Check MT_START SUCCESS,
               Prim (Transmit (push_bit 1 a OR I2C_WRITE)), Check MT_SLA_WRITE_ACK SUCCESS,
               Prim (Transmit reg), Check MT_DATA_TRANSMITTED_ACK SUCCESS,
               Prim Start, Check MT_REP_START SUCCESS,
               Prim (Transmit (push_bit 1 a OR I2C_READ))] @ rest \<and>
              Prim Start \<notin> set rest))))
   \<and> MT_REP_START = 0x10 \<and> MT_START = 0x08"
  (is "(_ \<longrightarrow> ?A) \<and> (_ \<longrightarrow> ?B) \<and> ?C")
proof -
  have shape: "(r = ERROR \<and> tr \<in>
             {[Prim Start, Check MT_START ERROR],
              [Prim Start, Check MT_START SUCCESS,
               Prim (Transmit (push_bit 1 a OR I2C_WRITE)), Check MT_SLA_WRITE_ACK ERROR, Stop],
              [Prim Start, Check MT_START SUCCESS,
               Prim (Transmit (push_bit 1 a OR I2C_WRITE)), Check MT_SLA_WRITE_ACK SUCCESS,
               Prim (Transmit reg), Check MT_DATA_TRANSMITTED_ACK ERROR, Stop],
              [Prim Start, Check MT_START SUCCESS,
               Prim (Transmit (push_bit 1 a OR I2C_WRITE)), Check MT_SLA_WRITE_ACK SUCCESS,
               Prim (Transmit reg), Check MT_DATA_TRANSMITTED_ACK SUCCESS,
               Prim Start, Check MT_REP_START ERROR]}) \<or>
          (\<exists>rest. tr =
              [Prim Start, Check MT_START SUCCESS,
               Prim (Transmit (push_bit 1 a OR I2C_WRITE)), Check MT_SLA_WRITE_ACK SUCCESS,
               Prim (Transmit reg), Check MT_DATA_TRANSMITTED_ACK SUCCESS,
               Prim Start, Check MT_REP_START SUCCESS,
               Prim (Transmit (push_bit 1 a OR I2C_READ))] @ rest \<and>
              Prim Start \<notin> set rest)"
    if o: "outcome (reg_then_sla_r a reg @ tail) r tr" and f: "start_free tail"
    for tail tr
  proof -
    from o consider
      (early) "r = ERROR" "tr \<in>
             {[Prim Start, Check MT_START ERROR],
              [Prim Start, Check MT_START SUCCESS,
               Prim (Transmit (push_bit 1 a OR I2C_WRITE)), Check MT_SLA_WRITE_ACK ERROR, Stop],
              [Prim Start, Check MT_START SUCCESS,
               Prim (Transmit (push_bit 1 a OR I2C_WRITE)), Check MT_SLA_WRITE_ACK SUCCESS,
               Prim (Transmit reg), Check MT_DATA_TRANSMITTED_ACK ERROR, Stop],
              [Prim Start, Check MT_START SUCCESS,
               Prim (Transmit (push_bit 1 a OR I2C_WRITE)), Check MT_SLA_WRITE_ACK SUCCESS,
               Prim (Transmit reg), Check MT_DATA_TRANSMITTED_ACK SUCCESS,
               Prim Start, Check MT_REP_START ERROR]}"
      | (nack) "tr = [Prim Start, Check MT_START SUCCESS,
               Prim (Transmit (push_bit 1 a OR I2C_WRITE)), Check MT_SLA_WRITE_ACK SUCCESS,
               Prim (Transmit reg), Check MT_DATA_TRANSMITTED_ACK SUCCESS,
               Prim Start, Check MT_REP_START SUCCESS,
               Prim (Transmit (push_bit 1 a OR I2C_READ))] @ [Check MT_SLA_READ_ACK ERROR, Stop]"
      | (on) tr' where "tr = [Prim Start, Check MT_START SUCCESS,
               Prim (Transmit (push_bit 1 a OR I2C_WRITE)), Check MT_SLA_WRITE_ACK SUCCESS,
               Prim (Transmit reg), Check MT_DATA_TRANSMITTED_ACK SUCCESS,
               Prim Start, Check MT_REP_START SUCCESS,
               Prim (Transmit (push_bit 1 a OR I2C_READ))] @ Check MT_SLA_READ_ACK SUCCESS # tr'"
        "outcome tail r tr'"
      by (auto simp: plan_defs outcome_Cons)
    then show ?thesis
    proof cases
      case early
      then show ?thesis by blast
    next
      case nack
      have "Prim Start \<notin> set [Check MT_SLA_READ_ACK ERROR, Stop]" by simp
      with nack show ?thesis by blast
    next
      case on
      from outcome_no_start[OF f on(2)]
      have "Prim Start \<notin> set (Check MT_SLA_READ_ACK SUCCESS # tr')" by simp
      with on(1) show ?thesis by blast
    qed
  qed
  have A: ?A if e: "i2c_read_with_reg a reg d s = Some (r, d', s')"
  proof -
    from pair3_run[OF e read_with_reg_run]
    have "run_phases (reg_then_sla_r a reg @ [(ReceiveNack, MT_DATA_RECEIVED_NACK)]) s = Some (r, s')" .
    from run_phases_outcome[OF this] obtain tr where
      t: "log s' = log s @ tr"
      and o: "outcome (reg_then_sla_r a reg @ [(ReceiveNack, MT_DATA_RECEIVED_NACK)]) r tr"
      by blast
    from shape[OF o] t show ?thesis by simp
  qed
  have B: ?B if e: "i2c_read_multi_with_reg a reg len data s = Some (Inr (r, ds', s'))"
  proof -
    from run_phases_outcome[OF read_multi_with_reg_Inr[OF e]] obtain tr where
      t: "log s' = log s @ tr"
      and o: "outcome (reg_then_sla_r a reg @ read_plan 0 len) r tr"
      by blast
    from shape[OF o] t show ?thesis by simp
  qed
  have C: ?C by (simp add: MT_defs)
  from A B C show ?thesis by blast
qed


theorem repeated_start_once_witness:
  "(\<exists>t. i2c_read_with_reg 0x68 0x00 0x11
         (bus [ready 0x08 0xFF, ready 0x18 0xFF, ready 0x28 0xFF, ready 0x10 0xFF, ready 0x40 0xFF, ready 0x58 0xA5] stuck) =
       Some (SUCCESS, 0xA5, t) \<and>
     log t =
       [Prim Start, Check MT_START SUCCESS, Prim (Transmit 0xD0),
        Check MT_SLA_WRITE_ACK SUCCESS, Prim (Transmit 0x00),
        Check MT_DATA_TRANSMITTED_ACK SUCCESS, Prim Start,
        Check MT_REP_START SUCCESS, Prim (Transmit 0xD1),
        Check MT_SLA_READ_ACK SUCCESS, Prim ReceiveNack,
        Check MT_DATA_RECEIVED_NACK SUCCESS, Stop] \<and>
     ((SUCCESS = ERROR \<and> log t \<in>
             {[Prim Start, Check MT_START ERROR],
              [Prim Start, Check MT_START SUCCESS,
               Prim (Transmit (push_bit 1 0x68 OR I2C_WRITE)), Check MT_SLA_WRITE_ACK ERROR, Stop],
              [Prim Start, Check MT_START SUCCESS,
               Prim (Transmit (push_bit 1 0x68 OR I2C_WRITE)), Check MT_SLA_WRITE_ACK SUCCESS,
               Prim (Transmit 0x00), Check MT_DATA_TRANSMITTED_ACK ERROR, Stop],
              [Prim Start, Check MT_START SUCCESS,
               Prim (Transmit (push_bit 1 0x68 OR I2C_WRITE)), Check MT_SLA_WRITE_ACK SUCCESS,
               Prim (Transmit 0x00), Check MT_DATA_TRANSMITTED_ACK SUCCESS,
               Prim Start, Check MT_REP_START ERROR]}) \<or>
          (\<exists>rest. log t =
              [Prim Start, Check MT_START SUCCESS,
               Prim (Transmit (push_bit 1 0x68 OR I2C_WRITE)), Check MT_SLA_WRITE_ACK SUCCESS,
               Prim (Transmit 0x00), Check MT_DATA_TRANSMITTED_ACK SUCCESS,
               Prim Start, Check MT_REP_START SUCCESS,
               Prim (Transmit (push_bit 1 0x68 OR I2C_READ))] @ rest \<and>
              Prim Start \<notin> set rest)))
   \<and> (\<exists>t. i2c_read_with_reg 0x68 0x00 0x11
         (bus [ready 0x08 0xFF, ready 0x18 0xFF, ready 0x28 0xFF, ready 0x00 0xFF] stuck) =
       Some (ERROR, 0x11, t) \<and>
     log t =
       [Prim Start, Check MT_START SUCCESS, Prim (Transmit 0xD0),
        Check MT_SLA_WRITE_ACK SUCCESS, Prim (Transmit 0x00),
        Check MT_DATA_TRANSMITTED_ACK SUCCESS, Prim Start,
        Check MT_REP_START ERROR] \<and>
     ((ERROR = ERROR \<and> log t \<in>
             {[Prim Start, Check MT_START ERROR],
              [Prim Start, Check MT_START SUCCESS,
               Prim (Transmit (push_bit 1 0x68 OR I2C_WRITE)), Check MT_SLA_WRITE_ACK ERROR, Stop],
              [Prim Start, Check MT_START SUCCESS,
               Prim (Transmit (push_bit 1 0x68 OR I2C_WRITE)), Check MT_SLA_WRITE_ACK SUCCESS,
               Prim (Transmit 0x00), Check MT_DATA_TRANSMITTED_ACK ERROR, Stop],
              [Prim Start, Check MT_START SUCCESS,
               Prim (Transmit (push_bit 1 0x68 OR I2C_WRITE)), Check MT_SLA_WRITE_ACK SUCCESS,
               Prim (Transmit 0x00), Check MT_DATA_TRANSMITTED_ACK SUCCESS,
               Prim Start, Check MT_REP_START ERROR]}) \<or>
          (\<exists>rest. log t =
              [Prim Start, Check MT_START SUCCESS,
               Prim (Transmit (push_bit 1 0x68 OR I2C_WRITE)), Check MT_SLA_WRITE_ACK SUCCESS,
               Prim (Transmit 0x00), Check MT_DATA_TRANSMITTED_ACK SUCCESS,
               Prim Start, Check MT_REP_START SUCCESS,
               Prim (Transmit (push_bit 1 0x68 OR I2C_READ))] @ rest \<and>
              Prim Start \<notin> set rest)))
   \<and> (\<exists>t. i2c_read_multi_with_reg 0x68 0x00 2 [0x00, 0x00]
         (bus [ready 0x08 0xFF, ready 0x18 0xFF, ready 0x28 0xFF, ready 0x10 0xFF, ready 0x40 0xFF, ready 0x50 0xA1, ready 0x58 0xA2] stuck) =
       Some (Inr (SUCCESS, [0xA1, 0xA2], t)) \<and>
     log t =
       [Prim Start, Check MT_START SUCCESS, Prim (Transmit 0xD0),
        Check MT_SLA_WRITE_ACK SUCCESS, Prim (Transmit 0x00),
        Check MT_DATA_TRANSMITTED_ACK SUCCESS, Prim Start,
        Check MT_REP_START SUCCESS, Prim (Transmit 0xD1),
        Check MT_SLA_READ_ACK SUCCESS, Prim ReceiveAck,
        Check MT_DATA_RECEIVED_ACK SUCCESS, Prim ReceiveNack,
        Check MT_DATA_RECEIVED_NACK SUCCESS, Stop] \<and>
     ((SUCCESS = ERROR \<and> log t \<in>
             {[Prim Start, Check MT_START ERROR],
              [Prim Start, Check MT_START SUCCESS,
               Prim (Transmit (push_bit 1 0x68 OR I2C_WRITE)), Check MT_SLA_WRITE_ACK ERROR, Stop],
              [Prim Start, Check MT_START SUCCESS,
               Prim (Transmit (push_bit 1 0x68 OR I2C_WRITE)), Check MT_SLA_WRITE_ACK SUCCESS,
               Prim (Transmit 0x00), Check MT_DATA_TRANSMITTED_ACK ERROR, Stop],
              [Prim Start, Check MT_START SUCCESS,
               Prim (Transmit (push_bit 1 0x68 OR I2C_WRITE)), Check MT_SLA_WRITE_ACK SUCCESS,
               Prim (Transmit 0x00), Check MT_DATA_TRANSMITTED_ACK SUCCESS,
               Prim Start, Check MT_REP_START ERROR]}) \<or>
          (\<exists>rest. log t =
              [Prim Start, Check MT_START SUCCESS,
               Prim (Transmit (push_bit 1 0x68 OR I2C_WRITE)), Check MT_SLA_WRITE_ACK SUCCESS,
               Prim (Transmit 0x00), Check MT_DATA_TRANSMITTED_ACK SUCCESS,
               Prim Start, Check MT_REP_START SUCCESS,
               Prim (Transmit (push_bit 1 0x68 OR I2C_READ))] @ rest \<and>
              Prim Start \<notin> set rest)))"
proof -
  have c0: "\<exists>t. i2c_read_with_reg 0x68 0x00 0x11
         (bus [ready 0x08 0xFF, ready 0x18 0xFF, ready 0x28 0xFF, ready 0x10 0xFF, ready 0x40 0xFF, ready 0x58 0xA5] stuck) =
       Some (SUCCESS, 0xA5, t) \<and>
     log t =
       [Prim Start, Check MT_START SUCCESS, Prim (Transmit 0xD0),
        Check MT_SLA_WRITE_ACK SUCCESS, Prim (Transmit 0x00),
        Check MT_DATA_TRANSMITTED_ACK SUCCESS, Prim Start,
        Check MT_REP_START SUCCESS, Prim (Transmit 0xD1),
        Check MT_SLA_READ_ACK SUCCESS, Prim ReceiveNack,
        Check MT_DATA_RECEIVED_NACK SUCCESS, Stop] \<and>
     ((SUCCESS = ERROR \<and> log t \<in>
             {[Prim Start, Check MT_START ERROR],
              [Prim Start, Check MT_START SUCCESS,
               Prim (Transmit (push_bit 1 0x68 OR I2C_WRITE)), Check MT_SLA_WRITE_ACK ERROR, Stop],
              [Prim Start, Check MT_START SUCCESS,
               Prim (Transmit (push_bit 1 0x68 OR I2C_WRITE)), Check MT_SLA_WRITE_ACK SUCCESS,
               Prim (Transmit 0x00), Check MT_DATA_TRANSMITTED_ACK ERROR, Stop],
              [Prim Start, Check MT_START SUCCESS,
               Prim (Transmit (push_bit 1 0x68 OR I2C_WRITE)), Check MT_SLA_WRITE_ACK SUCCESS,
               Prim (Transmit 0x00), Check MT_DATA_TRANSMITTED_ACK SUCCESS,
               Prim Start, Check MT_REP_START ERROR]}) \<or>
          (\<exists>rest. log t =
              [Prim Start, Check MT_START SUCCESS,
               Prim (Transmit (push_bit 1 0x68 OR I2C_WRITE)), Check MT_SLA_WRITE_ACK SUCCESS,
               Prim (Transmit 0x00), Check MT_DATA_TRANSMITTED_ACK SUCCESS,
               Prim Start, Check MT_REP_START SUCCESS,
               Prim (Transmit (push_bit 1 0x68 OR I2C_READ))] @ rest \<and>
              Prim Start \<notin> set rest))"
  proof -
    from run_read_reg_ok obtain t where
      e: "i2c_read_with_reg 0x68 0x00 0x11
         (bus [ready 0x08 0xFF, ready 0x18 0xFF, ready 0x28 0xFF, ready 0x10 0xFF, ready 0x40 0xFF, ready 0x58 0xA5] stuck) =
       Some (SUCCESS, 0xA5, t)"
      and l: "log t =
       [Prim Start, Check MT_START SUCCESS, Prim (Transmit 0xD0),
        Check MT_SLA_WRITE_ACK SUCCESS, Prim (Transmit 0x00),
        Check MT_DATA_TRANSMITTED_ACK SUCCESS, Prim Start,
        Check MT_REP_START SUCCESS, Prim (Transmit 0xD1),
        Check MT_SLA_READ_ACK SUCCESS, Prim ReceiveNack,
        Check MT_DATA_RECEIVED_NACK SUCCESS, Stop]"
      by blast
    from repeated_start_once[where a = "0x68" and reg = "0x00" and d = "0x11" and data = "[]" and len = 0
      and s = "bus [ready 0x08 0xFF, ready 0x18 0xFF, ready 0x28 0xFF, ready 0x10 0xFF, ready 0x40 0xFF, ready 0x58 0xA5] stuck"
      and r = SUCCESS and s' = t and d' = "0xA5" and ds' = "[]",
      THEN conjunct1, THEN mp, OF e]
    have "\<exists>tr. log t = log (bus [ready 0x08 0xFF, ready 0x18 0xFF, ready 0x28 0xFF, ready 0x10 0xFF, ready 0x40 0xFF, ready 0x58 0xA5] stuck) @ tr \<and>
         ((SUCCESS = ERROR \<and> tr \<in>
             {[Prim Start, Check MT_START ERROR],
              [Prim Start, Check MT_START SUCCESS,
               Prim (Transmit (push_bit 1 0x68 OR I2C_WRITE)), Check MT_SLA_WRITE_ACK ERROR, Stop],
              [Prim Start, Check MT_START SUCCESS,
               Prim (Transmit (push_bit 1 0x68 OR I2C_WRITE)), Check MT_SLA_WRITE_ACK SUCCESS,
               Prim (Transmit 0x00), Check MT_DATA_TRANSMITTED_ACK ERROR, Stop],
              [Prim Start, Check MT_START SUCCESS,
               Prim (Transmit (push_bit 1 0x68 OR I2C_WRITE)), Check MT_SLA_WRITE_ACK SUCCESS,
               Prim (Transmit 0x00), Check MT_DATA_TRANSMITTED_ACK SUCCESS,
               Prim Start, Check MT_REP_START ERROR]}) \<or>
          (\<exists>rest. tr =
              [Prim Start, Check MT_START SUCCESS,
               Prim (Transmit (push_bit 1 0x68 OR I2C_WRITE)), Check MT_SLA_WRITE_ACK SUCCESS,
               Prim (Transmit 0x00), Check MT_DATA_TRANSMITTED_ACK SUCCESS,
               Prim Start, Check MT_REP_START SUCCESS,
               Prim (Transmit (push_bit 1 0x68 OR I2C_READ))] @ rest \<and>
              Prim Start \<notin> set rest))"
      .
    then have "((SUCCESS = ERROR \<and> log t \<in>
             {[Prim Start, Check MT_START ERROR],
              [Prim Start, Check MT_START SUCCESS,
               Prim (Transmit (push_bit 1 0x68 OR I2C_WRITE)), Check MT_SLA_WRITE_ACK ERROR, Stop],
              [Prim Start, Check MT_START SUCCESS,
               Prim (Transmit (push_bit 1 0x68 OR I2C_WRITE)), Check MT_SLA_WRITE_ACK SUCCESS,
               Prim (Transmit 0x00), Check MT_DATA_TRANSMITTED_ACK ERROR, Stop],
              [Prim Start, Check MT_START SUCCESS,
               Prim (Transmit (push_bit 1 0x68 OR I2C_WRITE)), Check MT_SLA_WRITE_ACK SUCCESS,
               Prim (Transmit 0x00), Check MT_DATA_TRANSMITTED_ACK SUCCESS,
               Prim Start, Check MT_REP_START ERROR]}) \<or>
          (\<exists>rest. log t =
              [Prim Start, Check MT_START SUCCESS,
               Prim (Transmit (push_bit 1 0x68 OR I2C_WRITE)), Check MT_SLA_WRITE_ACK SUCCESS,
               Prim (Transmit 0x00), Check MT_DATA_TRANSMITTED_ACK SUCCESS,
               Prim Start, Check MT_REP_START SUCCESS,
               Prim (Transmit (push_bit 1 0x68 OR I2C_READ))] @ rest \<and>
              Prim Start \<notin> set rest))"
      by (simp del: push_bit_Suc push_bit_numeral)
    with e l show ?thesis by blast
  qed
  have c1: "\<exists>t. i2c_read_with_reg 0x68 0x00 0x11
         (bus [ready 0x08 0xFF, ready 0x18 0xFF, ready 0x28 0xFF, ready 0x00 0xFF] stuck) =
       Some (ERROR, 0x11, t) \<and>
     log t =
       [Prim Start, Check MT_START SUCCESS, Prim (Transmit 0xD0),
        Check MT_SLA_WRITE_ACK SUCCESS, Prim (Transmit 0x00),
        Check MT_DATA_TRANSMITTED_ACK SUCCESS, Prim Start,
        Check MT_REP_START ERROR] \<and>
     ((ERROR = ERROR \<and> log t \<in>
             {[Prim Start, Check MT_START ERROR],
              [Prim Start, Check MT_START SUCCESS,
               Prim (Transmit (push_bit 1 0x68 OR I2C_WRITE)), Check MT_SLA_WRITE_ACK ERROR, Stop],
              [Prim Start, Check MT_START SUCCESS,
               Prim (Transmit (push_bit 1 0x68 OR I2C_WRITE)), Check MT_SLA_WRITE_ACK SUCCESS,
               Prim (Transmit 0x00), Check MT_DATA_TRANSMITTED_ACK ERROR, Stop],
              [Prim Start, Check MT_START SUCCESS,
               Prim (Transmit (push_bit 1 0x68 OR I2C_WRITE)), Check MT_SLA_WRITE_ACK SUCCESS,
               Prim (Transmit 0x00), Check MT_DATA_TRANSMITTED_ACK SUCCESS,
               Prim Start, Check MT_REP_START ERROR]}) \<or>
          (\<exists>rest. log t =
              [Prim Start, Check MT_START SUCCESS,
               Prim (Transmit (push_bit 1 0x68 OR I2C_WRITE)), Check MT_SLA_WRITE_ACK SUCCESS,
               Prim (Transmit 0x00), Check MT_DATA_TRANSMITTED_ACK SUCCESS,
               Prim Start, Check MT_REP_START SUCCESS,
               Prim (Transmit (push_bit 1 0x68 OR I2C_READ))] @ rest \<and>
              Prim Start \<notin> set rest))"
  proof -
    from run_read_reg_rep_start_fails obtain t where
      e: "i2c_read_with_reg 0x68 0x00 0x11
         (bus [ready 0x08 0xFF, ready 0x18 0xFF, ready 0x28 0xFF, ready 0x00 0xFF] stuck) =
       Some (ERROR, 0x11, t)"
      and l: "log t =
       [Prim Start, Check MT_START SUCCESS, Prim (Transmit 0xD0),
        Check MT_SLA_WRITE_ACK SUCCESS, Prim (Transmit 0x00),
        Check MT_DATA_TRANSMITTED_ACK SUCCESS, Prim Start,
        Check MT_REP_START ERROR]"
      by blast
    from repeated_start_once[where a = "0x68" and reg = "0x00" and d = "0x11" and data = "[]" and len = 0
      and s = "bus [ready 0x08 0xFF, ready 0x18 0xFF, ready 0x28 0xFF, ready 0x00 0xFF] stuck"
      and r = ERROR and s' = t and d' = "0x11" and ds' = "[]",
      THEN conjunct1, THEN mp, OF e]
    have "\<exists>tr. log t = log (bus [ready 0x08 0xFF, ready 0x18 0xFF, ready 0x28 0xFF, ready 0x00 0xFF] stuck) @ tr \<and>
         ((ERROR = ERROR \<and> tr \<in>
             {[Prim Start, Check MT_START ERROR],
              [Prim Start, Check MT_START SUCCESS,
               Prim (Transmit (push_bit 1 0x68 OR I2C_WRITE)), Check MT_SLA_WRITE_ACK ERROR, Stop],
              [Prim Start, Check MT_START SUCCESS,
               Prim (Transmit (push_bit 1 0x68 OR I2C_WRITE)), Check MT_SLA_WRITE_ACK SUCCESS,
               Prim (Transmit 0x00), Check MT_DATA_TRANSMITTED_ACK ERROR, Stop],
              [Prim Start, Check MT_START SUCCESS,
               Prim (Transmit (push_bit 1 0x68 OR I2C_WRITE)), Check MT_SLA_WRITE_ACK SUCCESS,
               Prim (Transmit 0x00), Check MT_DATA_TRANSMITTED_ACK SUCCESS,
               Prim Start, Check MT_REP_START ERROR]}) \<or>
          (\<exists>rest. tr =
              [Prim Start, Check MT_START SUCCESS,
               Prim (Transmit (push_bit 1 0x68 OR I2C_WRITE)), Check MT_SLA_WRITE_ACK SUCCESS,
               Prim (Transmit 0x00), Check MT_DATA_TRANSMITTED_ACK SUCCESS,
               Prim Start, Check MT_REP_START SUCCESS,
               Prim (Transmit (push_bit 1 0x68 OR I2C_READ))] @ rest \<and>
              Prim Start \<notin> set rest))"
      .
    then have "((ERROR = ERROR \<and> log t \<in>
             {[Prim Start, Check MT_START ERROR],
              [Prim Start, Check MT_START SUCCESS,
               Prim (Transmit (push_bit 1 0x68 OR I2C_WRITE)), Check MT_SLA_WRITE_ACK ERROR, Stop],
              [Prim Start, Check MT_START SUCCESS,
               Prim (Transmit (push_bit 1 0x68 OR I2C_WRITE)), Check MT_SLA_WRITE_ACK SUCCESS,
               Prim (Transmit 0x00), Check MT_DATA_TRANSMITTED_ACK ERROR, Stop],
              [Prim Start, Check MT_START SUCCESS,
               Prim (Transmit (push_bit 1 0x68 OR I2C_WRITE)), Check MT_SLA_WRITE_ACK SUCCESS,
               Prim (Transmit 0x00), Check MT_DATA_TRANSMITTED_ACK SUCCESS,
               Prim Start, Check MT_REP_START ERROR]}) \<or>
          (\<exists>rest. log t =
              [Prim Start, Check MT_START SUCCESS,
               Prim (Transmit (push_bit 1 0x68 OR I2C_WRITE)), Check MT_SLA_WRITE_ACK SUCCESS,
               Prim (Transmit 0x00), Check MT_DATA_TRANSMITTED_ACK SUCCESS,
               Prim Start, Check MT_REP_START SUCCESS,
               Prim (Transmit (push_bit 1 0x68 OR I2C_READ))] @ rest \<and>
              Prim Start \<notin> set rest))"
      by (simp del: push_bit_Suc push_bit_numeral)
    with e l show ?thesis by blast
  qed
  have c2: "\<exists>t. i2c_read_multi_with_reg 0x68 0x00 2 [0x00, 0x00]
         (bus [ready 0x08 0xFF, ready 0x18 0xFF, ready 0x28 0xFF, ready 0x10 0xFF, ready 0x40 0xFF, ready 0x50 0xA1, ready 0x58 0xA2] stuck) =
       Some (Inr (SUCCESS, [0xA1, 0xA2], t)) \<and>
     log t =
       [Prim Start, Check MT_START SUCCESS, Prim (Transmit 0xD0),
        Check MT_SLA_WRITE_ACK SUCCESS, Prim (Transmit 0x00),
        Check MT_DATA_TRANSMITTED_ACK SUCCESS, Prim Start,
        Check MT_REP_START SUCCESS, Prim (Transmit 0xD1),
        Check MT_SLA_READ_ACK SUCCESS, Prim ReceiveAck,
        Check MT_DATA_RECEIVED_ACK SUCCESS, Prim ReceiveNack,
        Check MT_DATA_RECEIVED_NACK SUCCESS, Stop] \<and>
     ((SUCCESS = ERROR \<and> log t \<in>
             {[Prim Start, Check MT_START ERROR],
              [Prim Start, Check MT_START SUCCESS,
               Prim (Transmit (push_bit 1 0x68 OR I2C_WRITE)), Check MT_SLA_WRITE_ACK ERROR, Stop],
              [Prim Start, Check MT_START SUCCESS,
               Prim (Transmit (push_bit 1 0x68 OR I2C_WRITE)), Check MT_SLA_WRITE_ACK SUCCESS,
               Prim (Transmit 0x00), Check MT_DATA_TRANSMITTED_ACK ERROR, Stop],
              [Prim Start, Check MT_START SUCCESS,
               Prim (Transmit (push_bit 1 0x68 OR I2C_WRITE)), Check MT_SLA_WRITE_ACK SUCCESS,
               Prim (Transmit 0x00), Check MT_DATA_TRANSMITTED_ACK SUCCESS,
               Prim Start, Check MT_REP_START ERROR]}) \<or>
          (\<exists>rest. log t =
              [Prim Start, Check MT_START SUCCESS,
               Prim (Transmit (push_bit 1 0x68 OR I2C_WRITE)), Check MT_SLA_WRITE_ACK SUCCESS,
               Prim (Transmit 0x00), Check MT_DATA_TRANSMITTED_ACK SUCCESS,
               Prim Start, Check MT_REP_START SUCCESS,
               Prim (Transmit (push_bit 1 0x68 OR I2C_READ))] @ rest \<and>
              Prim Start \<notin> set rest))"
  proof -
    from run_read_multi_reg_ok obtain t where
      e: "i2c_read_multi_with_reg 0x68 0x00 2 [0x00, 0x00]
         (bus [ready 0x08 0xFF, ready 0x18 0xFF, ready 0x28 0xFF, ready 0x10 0xFF, ready 0x40 0xFF, ready 0x50 0xA1, ready 0x58 0xA2] stuck) =
       Some (Inr (SUCCESS, [0xA1, 0xA2], t))"
      and l: "log t =
       [Prim Start, Check MT_START SUCCESS, Prim (Transmit 0xD0),
        Check MT_SLA_WRITE_ACK SUCCESS, Prim (Transmit 0x00),
        Check MT_DATA_TRANSMITTED_ACK SUCCESS, Prim Start,
        Check MT_REP_START SUCCESS, Prim (Transmit 0xD1),
        Check MT_SLA_READ_ACK SUCCESS, Prim ReceiveAck,
        Check MT_DATA_RECEIVED_ACK SUCCESS, Prim ReceiveNack,
        Check MT_DATA_RECEIVED_NACK SUCCESS, Stop]"
      by blast
    from repeated_start_once[where a = "0x68" and reg = "0x00" and d = "0x00" and data = "[0x00, 0x00]" and len = 2
      and s = "bus [ready 0x08 0xFF, ready 0x18 0xFF, ready 0x28 0xFF, ready 0x10 0xFF, ready 0x40 0xFF, ready 0x50 0xA1, ready 0x58 0xA2] stuck"
      and r = SUCCESS and s' = t and d' = "0x00" and ds' = "[0xA1, 0xA2]",
      THEN conjunct2, THEN conjunct1, THEN mp, OF e]
    have "\<exists>tr. log t = log (bus [ready 0x08 0xFF, ready 0x18 0xFF, ready 0x28 0xFF, ready 0x10 0xFF, ready 0x40 0xFF, ready 0x50 0xA1, ready 0x58 0xA2] stuck) @ tr \<and>
         ((SUCCESS = ERROR \<and> tr \<in>
             {[Prim Start, Check MT_START ERROR],
              [Prim Start, Check MT_START SUCCESS,
               Prim (Transmit (push_bit 1 0x68 OR I2C_WRITE)), Check MT_SLA_WRITE_ACK ERROR, Stop],
              [Prim Start, Check MT_START SUCCESS,
               Prim (Transmit (push_bit 1 0x68 OR I2C_WRITE)), Check MT_SLA_WRITE_ACK SUCCESS,
               Prim (Transmit 0x00), Check MT_DATA_TRANSMITTED_ACK ERROR, Stop],
              [Prim Start, Check MT_START SUCCESS,
               Prim (Transmit (push_bit 1 0x68 OR I2C_WRITE)), Check MT_SLA_WRITE_ACK SUCCESS,
               Prim (Transmit 0x00), Check MT_DATA_TRANSMITTED_ACK SUCCESS,
               Prim Start, Check MT_REP_START ERROR]}) \<or>
          (\<exists>rest. tr =
              [Prim Start, Check MT_START SUCCESS,
               Prim (Transmit (push_bit 1 0x68 OR I2C_WRITE)), Check MT_SLA_WRITE_ACK SUCCESS,
               Prim (Transmit 0x00), Check MT_DATA_TRANSMITTED_ACK SUCCESS,
               Prim Start, Check MT_REP_START SUCCESS,
               Prim (Transmit (push_bit 1 0x68 OR I2C_READ))] @ rest \<and>
              Prim Start \<notin> set rest))"
      .
    then have "((SUCCESS = ERROR \<and> log t \<in>
             {[Prim Start, Check MT_START ERROR],
              [Prim Start, Check MT_START SUCCESS,
               Prim (Transmit (push_bit 1 0x68 OR I2C_WRITE)), Check MT_SLA_WRITE_ACK ERROR, Stop],
              [Prim Start, Check MT_START SUCCESS,
               Prim (Transmit (push_bit 1 0x68 OR I2C_WRITE)), Check MT_SLA_WRITE_ACK SUCCESS,
               Prim (Transmit 0x00), Check MT_DATA_TRANSMITTED_ACK ERROR, Stop],
              [Prim Start, Check MT_START SUCCESS,
               Prim (Transmit (push_bit 1 0x68 OR I2C_WRITE)), Check MT_SLA_WRITE_ACK SUCCESS,
               Prim (Transmit 0x00), Check MT_DATA_TRANSMITTED_ACK SUCCESS,
               Prim Start, Check MT_REP_START ERROR]}) \<or>
          (\<exists>rest. log t =
              [Prim Start, Check MT_START SUCCESS,
               Prim (Transmit (push_bit 1 0x68 OR I2C_WRITE)), Check MT_SLA_WRITE_ACK SUCCESS,
               Prim (Transmit 0x00), Check MT_DATA_TRANSMITTED_ACK SUCCESS,
               Prim Start, Check MT_REP_START SUCCESS,
               Prim (Transmit (push_bit 1 0x68 OR I2C_READ))] @ rest \<and>
              Prim Start \<notin> set rest))"
      by (simp del: push_bit_Suc push_bit_numeral)
    with e l show ?thesis by blast
  qed
  show ?thesis
    by (intro conjI c0 c1 c2)
qed

subsection \<open>C5: a multi-byte write whose second byte is refused\<close>

text \<open>
  C5. \<open>i2c_write_multi_no_reg 0x27 [0x01, 0x02, 0x03] 3\<close> against a peripheral that
  finishes the start, the address byte and two data bytes and reports \<open>MT_START\<close>,
  \<open>MT_SLA_WRITE_ACK\<close>, \<open>MT_DATA_TRANSMITTED_ACK\<close> and then \<open>MT_DATA_TRANSMITTED_NACK\<close>
  (0x30 where 0x28 is expected): the call returns \<open>ERROR\<close>; it has transmitted the address
  byte 0x4E and the data bytes 0x01 and 0x02 and no third one, and its last act is a stop.
\<close>

theorem write_multi_second_byte_nacked:
  "answers s [MT_START, MT_SLA_WRITE_ACK, MT_DATA_TRANSMITTED_ACK, MT_DATA_TRANSMITTED_NACK] \<Longrightarrow>
     \<exists>s'. i2c_write_multi_no_reg 0x27 [0x01, 0x02, 0x03] 3 s = Some (Inr (ERROR, s')) \<and>
          log s' = log s @
            [Prim Start, Check MT_START SUCCESS,
             Prim (Transmit 0x4E), Check MT_SLA_WRITE_ACK SUCCESS,
             Prim (Transmit 0x01), Check MT_DATA_TRANSMITTED_ACK SUCCESS,
             Prim (Transmit 0x02), Check MT_DATA_TRANSMITTED_ACK ERROR,
             Stop]"
proof -
  assume a: "answers s [MT_START, MT_SLA_WRITE_ACK, MT_DATA_TRANSMITTED_ACK, MT_DATA_TRANSMITTED_NACK]"
  let ?pre = "[(Start, MT_START), (Transmit 0x4E, MT_SLA_WRITE_ACK),
               (Transmit 0x01, MT_DATA_TRANSMITTED_ACK)]"
  let ?rest = "[(Transmit 0x03, MT_DATA_TRANSMITTED_ACK)]"
  have plan: "sla_w 0x27 @ write_plan [0x01, 0x02, 0x03] 0 3 =
      ?pre @ (Transmit 0x02, MT_DATA_TRANSMITTED_ACK) # ?rest"
    by (simp add: sla_w_def write_plan_def upt_rec I2C_WRITE_def)
  from answers_take[OF a, of 3] have "answers s (map snd ?pre)" by simp
  from run_prefix[OF this] obtain s1 where
    s1: "\<forall>qs. run_phases (?pre @ qs) s = run_phases qs s1" "log s1 = log s @ passes ?pre"
      "ops s1 = ops s + length ?pre" "hw s1 = hw s"
    by blast
  from s1(3) have o: "ops s1 = ops s + 3" by simp
  from answers_nth[OF a, of 3]
  have c: "completes (hw s1 (ops s1))"
    and n: "(sr_after (hw s1 (ops s1)) AND 0xF8) \<noteq> MT_DATA_TRANSMITTED_ACK"
    unfolding o s1(4) by (simp_all add: MT_defs)
  from phase_fails[OF c n, of "Transmit 0x02" ?rest] obtain s' where
    s': "run_phases ((Transmit 0x02, MT_DATA_TRANSMITTED_ACK) # ?rest) s1 = Some (ERROR, s')"
      "log s' = log s1 @ [Prim (Transmit 0x02), Check MT_DATA_TRANSMITTED_ACK ERROR] @
          (if Transmit 0x02 = Start then [] else [Stop])"
    by blast
  from s1(1) s'(1) plan
  have "run_phases (sla_w 0x27 @ write_plan [0x01, 0x02, 0x03] 0 3) s = Some (ERROR, s')"
    by simp
  then have "i2c_write_multi_no_reg 0x27 [0x01, 0x02, 0x03] 3 s = Some (Inr (ERROR, s'))"
    by (simp add: write_multi_no_reg_run)
  moreover from s'(2) s1(2) have "log s' = log s @
            [Prim Start, Check MT_START SUCCESS,
             Prim (Transmit 0x4E), Check MT_SLA_WRITE_ACK SUCCESS,
             Prim (Transmit 0x01), Check MT_DATA_TRANSMITTED_ACK SUCCESS,
             Prim (Transmit 0x02), Check MT_DATA_TRANSMITTED_ACK ERROR,
             Stop]"
    by simp
  ultimately show ?thesis by blast
qed

theorem write_multi_second_byte_nacked_witness:
  "answers (bus [ready 0x08 0xFF, ready 0x18 0xFF, ready 0x28 0xFF, ready 0x30 0xFF] stuck)
      [MT_START, MT_SLA_WRITE_ACK, MT_DATA_TRANSMITTED_ACK, MT_DATA_TRANSMITTED_NACK]
   \<and> i2c_write_multi_no_reg 0x27 [0x01, 0x02, 0x03] 3
        (bus [ready 0x08 0xFF, ready 0x18 0xFF, ready 0x28 0xFF, ready 0x30 0xFF] stuck) =
      Some (Inr (ERROR,
        (bus [ready 0x08 0xFF, ready 0x18 0xFF, ready 0x28 0xFF, ready 0x30 0xFF] stuck)
          \<lparr>TWSR := 0x30, TWCR := 0x94, ops := 4,
           log := [Prim Start, Check MT_START SUCCESS,
                   Prim (Transmit 0x4E), Check MT_SLA_WRITE_ACK SUCCESS,
                   Prim (Transmit 0x01), Check MT_DATA_TRANSMITTED_ACK SUCCESS,
                   Prim (Transmit 0x02), Check MT_DATA_TRANSMITTED_ACK ERROR,
                   Stop]\<rparr>))"
proof -
  let ?s = "bus [ready 0x08 0xFF, ready 0x18 0xFF, ready 0x28 0xFF, ready 0x30 0xFF] stuck"
  have a: "answers ?s [MT_START, MT_SLA_WRITE_ACK, MT_DATA_TRANSMITTED_ACK, MT_DATA_TRANSMITTED_NACK]"
    by (simp add: answers_Cons_shift completes_ready bus_def MT_defs)
  have l: "log ?s = []" by (simp add: bus_def)
  from write_multi_second_byte_nacked[OF a] l obtain s' where
    r: "i2c_write_multi_no_reg 0x27 [0x01, 0x02, 0x03] 3 ?s = Some (Inr (ERROR, s'))"
    and t: "log s' = [Prim Start, Check MT_START SUCCESS,
                   Prim (Transmit 0x4E), Check MT_SLA_WRITE_ACK SUCCESS,
                   Prim (Transmit 0x01), Check MT_DATA_TRANSMITTED_ACK SUCCESS,
                   Prim (Transmit 0x02), Check MT_DATA_TRANSMITTED_ACK ERROR,
                   Stop]"
    by auto
  have e: "i2c_write_multi_no_reg 0x27 [0x01, 0x02, 0x03] 3 ?s =
      Some (Inr (ERROR, ?s\<lparr>TWSR := 0x30, TWCR := 0x94, ops := 4,
           log := [Prim Start, Check MT_START SUCCESS,
                   Prim (Transmit 0x4E), Check MT_SLA_WRITE_ACK SUCCESS,
                   Prim (Transmit 0x01), Check MT_DATA_TRANSMITTED_ACK SUCCESS,
                   Prim (Transmit 0x02), Check MT_DATA_TRANSMITTED_ACK ERROR,
                   Stop]\<rparr>))"
    by (simp add: i2c_write_multi_no_reg_def write_loop.simps run_defs)
  from a r e show ?thesis by simp
qed

subsection \<open>C6: the address byte\<close>

text \<open>
  C6. In every returning run of the nine bus functions, the byte transmitted after a
  start is \<open>push_bit 1 address OR I2C_WRITE\<close> or \<open>push_bit 1 address OR I2C_READ\<close>: the
  probe and the writes send the write form once; the reads without register send the
  read form once; the reads with register send the write form after the first start and
  the read form after the repeated start. A run that fails at a start check sends none.
  The byte holds the low seven bits of the address in bits 7 to 1 and the direction in
  bit 0 (0 for write, 1 for read); for a 7-bit address these seven bits are the address.
\<close>

theorem address_shifted_with_direction:
  "(i2c_is_device_connected a s = Some (r, s') \<longrightarrow>
      (\<exists>tr. log s' = log s @ tr \<and>
         addr_bytes False tr \<in> {[], [push_bit 1 a OR I2C_WRITE]} \<and>
         (r = SUCCESS \<longrightarrow> addr_bytes False tr = [push_bit 1 a OR I2C_WRITE])))
   \<and> (i2c_write_no_reg a d s = Some (r, s') \<longrightarrow>
      (\<exists>tr. log s' = log s @ tr \<and>
         addr_bytes False tr \<in> {[], [push_bit 1 a OR I2C_WRITE]} \<and>
         (r = SUCCESS \<longrightarrow> addr_bytes False tr = [push_bit 1 a OR I2C_WRITE])))
   \<and> (i2c_write_with_reg a reg d s = Some (r, s') \<longrightarrow>
      (\<exists>tr. log s' = log s @ tr \<and>
         addr_bytes False tr \<in> {[], [push_bit 1 a OR I2C_WRITE]} \<and>
         (r = SUCCESS \<longrightarrow> addr_bytes False tr = [push_bit 1 a OR I2C_WRITE])))
   \<and> (i2c_write_multi_no_reg a data len s = Some (Inr (r, s')) \<longrightarrow>
      (\<exists>tr. log s' = log s @ tr \<and>
         addr_bytes False tr \<in> {[], [push_bit 1 a OR I2C_WRITE]} \<and>
         (r = SUCCESS \<longrightarrow> addr_bytes False tr = [push_bit 1 a OR I2C_WRITE])))
   \<and> (i2c_write_multi_with_reg a reg data len s = Some (Inr (r, s')) \<longrightarrow>
      (\<exists>tr. log s' = log s @ tr \<and>
         addr_bytes False tr \<in> {[], [push_bit 1 a OR I2C_WRITE]} \<and>
         (r = SUCCESS \<longrightarrow> addr_bytes False tr = [push_bit 1 a OR I2C_WRITE])))
   \<and> (i2c_read_no_reg a d s = Some (r, d', s') \<longrightarrow>
      (\<exists>tr. log s' = log s @ tr \<and>
         addr_bytes False tr \<in> {[], [push_bit 1 a OR I2C_READ]} \<and>
         (r = SUCCESS \<longrightarrow> addr_bytes False tr = [push_bit 1 a OR I2C_READ])))
   \<and> (i2c_read_multi_no_reg a len data s = Some (Inr (r, ds', s')) \<longrightarrow>
      (\<exists>tr. log s' = log s @ tr \<and>
         addr_bytes False tr \<in> {[], [push_bit 1 a OR I2C_READ]} \<and>
         (r = SUCCESS \<longrightarrow> addr_bytes False tr = [push_bit 1 a OR I2C_READ])))
   \<and> (i2c_read_with_reg a reg d s = Some (r, d', s') \<longrightarrow>
      (\<exists>tr. log s' = log s @ tr \<and>
         addr_bytes False tr \<in>
           {[], [push_bit 1 a OR I2C_WRITE],
            [push_bit 1 a OR I2C_WRITE, push_bit 1 a OR I2C_READ]} \<and>
         (r = SUCCESS \<longrightarrow>
            addr_bytes False tr = [push_bit 1 a OR I2C_WRITE, push_bit 1 a OR I2C_READ])))
   \<and> (i2c_read_multi_with_reg a reg len data s = Some (Inr (r, ds', s')) \<longrightarrow>
      (\<exists>tr. log s' = log s @ tr \<and>
         addr_bytes False tr \<in>
           {[], [push_bit 1 a OR I2C_WRITE],
            [push_bit 1 a OR I2C_WRITE, push_bit 1 a OR I2C_READ]} \<and>
         (r = SUCCESS \<longrightarrow>
            addr_bytes False tr = [push_bit 1 a OR I2C_WRITE, push_bit 1 a OR I2C_READ])))
   \<and> drop_bit 1 (push_bit 1 a OR I2C_WRITE) = take_bit 7 a
   \<and> \<not> bit (push_bit 1 a OR I2C_WRITE) 0
   \<and> drop_bit 1 (push_bit 1 a OR I2C_READ) = take_bit 7 a
   \<and> bit (push_bit 1 a OR I2C_READ) 0
   \<and> (a < 0x80 \<longrightarrow> take_bit 7 a = a)"
  (is "(_ \<longrightarrow> ?p1) \<and> (_ \<longrightarrow> ?p2) \<and> (_ \<longrightarrow> ?p3) \<and> (_ \<longrightarrow> ?p4) \<and> (_ \<longrightarrow> ?p5) \<and> (_ \<longrightarrow> ?p6) \<and> (_ \<longrightarrow> ?p7) \<and> (_ \<longrightarrow> ?p8) \<and> (_ \<longrightarrow> ?p9) \<and> ?b1 \<and> ?b2 \<and> ?b3 \<and> ?b4 \<and> ?b5")
proof -
  have p1: ?p1 if e: "i2c_is_device_connected a s = Some (r, s')"
  proof -
    from e have "run_phases (sla_w a @ []) s = Some (r, s')"
      by (simp add: probe_run)
    from run_phases_outcome[OF this] obtain tr where
      t: "log s' = log s @ tr" and o: "outcome (sla_w a @ []) r tr" by blast
    from addr_sla_w[OF o] t show ?thesis by simp
  qed
  have p2: ?p2 if e: "i2c_write_no_reg a d s = Some (r, s')"
  proof -
    from e have "run_phases (sla_w a @ [(Transmit d, MT_DATA_TRANSMITTED_ACK)]) s = Some (r, s')"
      by (simp add: write_no_reg_run)
    from run_phases_outcome[OF this] obtain tr where
      t: "log s' = log s @ tr" and o: "outcome (sla_w a @ [(Transmit d, MT_DATA_TRANSMITTED_ACK)]) r tr" by blast
    from addr_sla_w[OF o] t show ?thesis by simp
  qed
  have p3: ?p3 if e: "i2c_write_with_reg a reg d s = Some (r, s')"
  proof -
    from e have "run_phases (sla_w a @ [(Transmit reg, MT_DATA_TRANSMITTED_ACK), (Transmit d, MT_DATA_TRANSMITTED_ACK)]) s = Some (r, s')"
      by (simp add: write_with_reg_run)
    from run_phases_outcome[OF this] obtain tr where
      t: "log s' = log s @ tr" and o: "outcome (sla_w a @ [(Transmit reg, MT_DATA_TRANSMITTED_ACK), (Transmit d, MT_DATA_TRANSMITTED_ACK)]) r tr" by blast
    from addr_sla_w[OF o] t show ?thesis by simp
  qed
  have p4: ?p4 if e: "i2c_write_multi_no_reg a data len s = Some (Inr (r, s'))"
  proof -
    from e have "run_phases (sla_w a @ write_plan data 0 len) s = Some (r, s')"
      by (rule write_multi_no_reg_Inr)
    from run_phases_outcome[OF this] obtain tr where
      t: "log s' = log s @ tr" and o: "outcome (sla_w a @ write_plan data 0 len) r tr" by blast
    from addr_sla_w[OF o] t show ?thesis by simp
  qed
  have p5: ?p5 if e: "i2c_write_multi_with_reg a reg data len s = Some (Inr (r, s'))"
  proof -
    from e have "run_phases (sla_w a @ (Transmit reg, MT_DATA_TRANSMITTED_ACK) # write_plan data 0 len) s = Some (r, s')"
      by (rule write_multi_with_reg_Inr)
    from run_phases_outcome[OF this] obtain tr where
      t: "log s' = log s @ tr" and o: "outcome (sla_w a @ (Transmit reg, MT_DATA_TRANSMITTED_ACK) # write_plan data 0 len) r tr" by blast
    from addr_sla_w[OF o] t show ?thesis by simp
  qed
  have p6: ?p6 if e: "i2c_read_no_reg a d s = Some (r, d', s')"
  proof -
    from e have "run_phases (sla_r a @ [(ReceiveNack, MT_DATA_RECEIVED_NACK)]) s = Some (r, s')"
      by (rule pair3_run[OF _ read_no_reg_run])
    from run_phases_outcome[OF this] obtain tr where
      t: "log s' = log s @ tr" and o: "outcome (sla_r a @ [(ReceiveNack, MT_DATA_RECEIVED_NACK)]) r tr" by blast
    from addr_sla_r[OF o] t show ?thesis by simp
  qed
  have p7: ?p7 if e: "i2c_read_multi_no_reg a len data s = Some (Inr (r, ds', s'))"
  proof -
    from e have "run_phases (sla_r a @ read_plan 0 len) s = Some (r, s')"
      by (rule read_multi_no_reg_Inr)
    from run_phases_outcome[OF this] obtain tr where
      t: "log s' = log s @ tr" and o: "outcome (sla_r a @ read_plan 0 len) r tr" by blast
    from addr_sla_r[OF o] t show ?thesis by simp
  qed
  have p8: ?p8 if e: "i2c_read_with_reg a reg d s = Some (r, d', s')"
  proof -
    from e have "run_phases (reg_then_sla_r a reg @ [(ReceiveNack, MT_DATA_RECEIVED_NACK)]) s = Some (r, s')"
      by (rule pair3_run[OF _ read_with_reg_run])
    from run_phases_outcome[OF this] obtain tr where
      t: "log s' = log s @ tr" and o: "outcome (reg_then_sla_r a reg @ [(ReceiveNack, MT_DATA_RECEIVED_NACK)]) r tr" by blast
    from addr_reg_then_sla_r[OF o] t show ?thesis by simp
  qed
  have p9: ?p9 if e: "i2c_read_multi_with_reg a reg len data s = Some (Inr (r, ds', s'))"
  proof -
    from e have "run_phases (reg_then_sla_r a reg @ read_plan 0 len) s = Some (r, s')"
      by (rule read_multi_with_reg_Inr)
    from run_phases_outcome[OF this] obtain tr where
      t: "log s' = log s @ tr" and o: "outcome (reg_then_sla_r a reg @ read_plan 0 len) r tr" by blast
    from addr_reg_then_sla_r[OF o] t show ?thesis by simp
  qed
  from p1 p2 p3 p4 p5 p6 p7 p8 p9 sla_bits[of a] seven_bit[of a] show ?thesis by blast
qed


theorem address_shifted_with_direction_witness:
  "(\<exists>t. i2c_is_device_connected 0x3C
         (bus [ready 0x08 0xFF, ready 0x20 0xFF] stuck) =
       Some (ERROR, t) \<and>
     log t =
       [Prim Start, Check MT_START SUCCESS, Prim (Transmit 0x78),
        Check MT_SLA_WRITE_ACK ERROR, Stop] \<and>
     addr_bytes False (log t) \<in>
         {[], [push_bit 1 0x3C OR I2C_WRITE]} \<and>
     addr_bytes False (log t) = [0x78])
   \<and> (\<exists>t. i2c_write_no_reg 0x50 0x3D
         (bus [ready 0x08 0xFF, ready 0x18 0xFF, ready 0x28 0xFF] stuck) =
       Some (SUCCESS, t) \<and>
     log t =
       [Prim Start, Check MT_START SUCCESS, Prim (Transmit 0xA0),
        Check MT_SLA_WRITE_ACK SUCCESS, Prim (Transmit 0x3D),
        Check MT_DATA_TRANSMITTED_ACK SUCCESS, Stop] \<and>
     addr_bytes False (log t) \<in>
         {[], [push_bit 1 0x50 OR I2C_WRITE]} \<and>
     addr_bytes False (log t) = [0xA0])
   \<and> (\<exists>t. i2c_write_with_reg 0x50 0x10 0x3D
         (bus [ready 0x08 0xFF, ready 0x18 0xFF, ready 0x30 0xFF] stuck) =
       Some (ERROR, t) \<and>
     log t =
       [Prim Start, Check MT_START SUCCESS, Prim (Transmit 0xA0),
        Check MT_SLA_WRITE_ACK SUCCESS, Prim (Transmit 0x10),
        Check MT_DATA_TRANSMITTED_ACK ERROR, Stop] \<and>
     addr_bytes False (log t) \<in>
         {[], [push_bit 1 0x50 OR I2C_WRITE]} \<and>
     addr_bytes False (log t) = [0xA0])
   \<and> (\<exists>t. i2c_write_multi_no_reg 0x27 [0x01, 0x02, 0x03] 3
         (bus [ready 0x08 0xFF, ready 0x18 0xFF, ready 0x28 0xFF, ready 0x30 0xFF] stuck) =
       Some (Inr (ERROR, t)) \<and>
     log t =
       [Prim Start, Check MT_START SUCCESS, Prim (Transmit 0x4E),
        Check MT_SLA_WRITE_ACK SUCCESS, Prim (Transmit 0x01),
        Check MT_DATA_TRANSMITTED_ACK SUCCESS, Prim (Transmit 0x02),
        Check MT_DATA_TRANSMITTED_ACK ERROR, Stop] \<and>
     addr_bytes False (log t) \<in>
         {[], [push_bit 1 0x27 OR I2C_WRITE]} \<and>
     addr_bytes False (log t) = [0x4E])
   \<and> (\<exists>t. i2c_write_multi_with_reg 0x27 0x10 [0x01, 0x02] 2
         (bus [ready 0x08 0xFF, ready 0x18 0xFF, ready 0x28 0xFF, ready 0x28 0xFF, ready 0x28 0xFF] stuck) =
       Some (Inr (SUCCESS, t)) \<and>
     log t =
       [Prim Start, Check MT_START SUCCESS, Prim (Transmit 0x4E),
        Check MT_SLA_WRITE_ACK SUCCESS, Prim (Transmit 0x10),
        Check MT_DATA_TRANSMITTED_ACK SUCCESS, Prim (Transmit 0x01),
        Check MT_DATA_TRANSMITTED_ACK SUCCESS, Prim (Transmit 0x02),
        Check MT_DATA_TRANSMITTED_ACK SUCCESS, Stop] \<and>
     addr_bytes False (log t) \<in>
         {[], [push_bit 1 0x27 OR I2C_WRITE]} \<and>
     addr_bytes False (log t) = [0x4E])
   \<and> (\<exists>t. i2c_read_no_reg 0x68 0x11
         (bus [ready 0x08 0xFF, ready 0x40 0xFF, ready 0x00 0xA5] stuck) =
       Some (ERROR, 0xA5, t) \<and>
     log t =
       [Prim Start, Check MT_START SUCCESS, Prim (Transmit 0xD1),
        Check MT_SLA_READ_ACK SUCCESS, Prim ReceiveNack,
        Check MT_DATA_RECEIVED_NACK ERROR, Stop] \<and>
     addr_bytes False (log t) \<in>
         {[], [push_bit 1 0x68 OR I2C_READ]} \<and>
     addr_bytes False (log t) = [0xD1])
   \<and> (\<exists>t. i2c_read_multi_no_reg 0x68 3 [0x00, 0x00, 0x00]
         (bus [ready 0x08 0xFF, ready 0x40 0xFF, ready 0x50 0xA1, ready 0x50 0xA2, ready 0x58 0xA3] stuck) =
       Some (Inr (SUCCESS, [0xA1, 0xA2, 0xA3], t)) \<and>
     log t =
       [Prim Start, Check MT_START SUCCESS, Prim (Transmit 0xD1),
        Check MT_SLA_READ_ACK SUCCESS, Prim ReceiveAck,
        Check MT_DATA_RECEIVED_ACK SUCCESS, Prim ReceiveAck,
        Check MT_DATA_RECEIVED_ACK SUCCESS, Prim ReceiveNack,
        Check MT_DATA_RECEIVED_NACK SUCCESS, Stop] \<and>
     addr_bytes False (log t) \<in>
         {[], [push_bit 1 0x68 OR I2C_READ]} \<and>
     addr_bytes False (log t) = [0xD1])
   \<and> (\<exists>t. i2c_read_with_reg 0x68 0x00 0x11
         (bus [ready 0x08 0xFF, ready 0x18 0xFF, ready 0x28 0xFF, ready 0x10 0xFF, ready 0x40 0xFF, ready 0x58 0xA5] stuck) =
       Some (SUCCESS, 0xA5, t) \<and>
     log t =
       [Prim Start, Check MT_START SUCCESS, Prim (Transmit 0xD0),
        Check MT_SLA_WRITE_ACK SUCCESS, Prim (Transmit 0x00),
        Check MT_DATA_TRANSMITTED_ACK SUCCESS, Prim Start,
        Check MT_REP_START SUCCESS, Prim (Transmit 0xD1),
        Check MT_SLA_READ_ACK SUCCESS, Prim ReceiveNack,
        Check MT_DATA_RECEIVED_NACK SUCCESS, Stop] \<and>
     addr_bytes False (log t) \<in>
         {[], [push_bit 1 0x68 OR I2C_WRITE],
          [push_bit 1 0x68 OR I2C_WRITE, push_bit 1 0x68 OR I2C_READ]} \<and>
     addr_bytes False (log t) = [0xD0, 0xD1])
   \<and> (\<exists>t. i2c_read_with_reg 0x68 0x00 0x11
         (bus [ready 0x08 0xFF, ready 0x18 0xFF, ready 0x28 0xFF, ready 0x00 0xFF] stuck) =
       Some (ERROR, 0x11, t) \<and>
     log t =
       [Prim Start, Check MT_START SUCCESS, Prim (Transmit 0xD0),
        Check MT_SLA_WRITE_ACK SUCCESS, Prim (Transmit 0x00),
        Check MT_DATA_TRANSMITTED_ACK SUCCESS, Prim Start,
        Check MT_REP_START ERROR] \<and>
     addr_bytes False (log t) \<in>
         {[], [push_bit 1 0x68 OR I2C_WRITE],
          [push_bit 1 0x68 OR I2C_WRITE, push_bit 1 0x68 OR I2C_READ]} \<and>
     addr_bytes False (log t) = [0xD0])
   \<and> (\<exists>t. i2c_read_multi_with_reg 0x68 0x00 2 [0x00, 0x00]
         (bus [ready 0x08 0xFF, ready 0x18 0xFF, ready 0x28 0xFF, ready 0x10 0xFF, ready 0x40 0xFF, ready 0x50 0xA1, ready 0x58 0xA2] stuck) =
       Some (Inr (SUCCESS, [0xA1, 0xA2], t)) \<and>
     log t =
       [Prim Start, Check MT_START SUCCESS, Prim (Transmit 0xD0),
        Check MT_SLA_WRITE_ACK SUCCESS, Prim (Transmit 0x00),
        Check MT_DATA_TRANSMITTED_ACK SUCCESS, Prim Start,
        Check MT_REP_START SUCCESS, Prim (Transmit 0xD1),
        Check MT_SLA_READ_ACK SUCCESS, Prim ReceiveAck,
        Check MT_DATA_RECEIVED_ACK SUCCESS, Prim ReceiveNack,
        Check MT_DATA_RECEIVED_NACK SUCCESS, Stop] \<and>
     addr_bytes False (log t) \<in>
         {[], [push_bit 1 0x68 OR I2C_WRITE],
          [push_bit 1 0x68 OR I2C_WRITE, push_bit 1 0x68 OR I2C_READ]} \<and>
     addr_bytes False (log t) = [0xD0, 0xD1])"
proof -
  have c0: "\<exists>t. i2c_is_device_connected 0x3C
         (bus [ready 0x08 0xFF, ready 0x20 0xFF] stuck) =
       Some (ERROR, t) \<and>
     log t =
       [Prim Start, Check MT_START SUCCESS, Prim (Transmit 0x78),
        Check MT_SLA_WRITE_ACK ERROR, Stop] \<and>
     addr_bytes False (log t) \<in>
         {[], [push_bit 1 0x3C OR I2C_WRITE]} \<and>
     addr_bytes False (log t) = [0x78]"
  proof -
    from run_probe_absent obtain t where
      e: "i2c_is_device_connected 0x3C
         (bus [ready 0x08 0xFF, ready 0x20 0xFF] stuck) =
       Some (ERROR, t)"
      and l: "log t =
       [Prim Start, Check MT_START SUCCESS, Prim (Transmit 0x78),
        Check MT_SLA_WRITE_ACK ERROR, Stop]"
      by blast
    from address_shifted_with_direction[where a = "0x3C" and d = "0x00" and reg = "0x00" and data = "[]" and len = 0
      and s = "bus [ready 0x08 0xFF, ready 0x20 0xFF] stuck" and r = ERROR and s' = t
      and d' = "0x00" and ds' = "[]",
      THEN conjunct1, THEN mp, OF e]
    have "\<exists>tr. log t = log (bus [ready 0x08 0xFF, ready 0x20 0xFF] stuck) @ tr \<and>
      addr_bytes False tr \<in>
         {[], [push_bit 1 0x3C OR I2C_WRITE]} \<and>
      (ERROR = SUCCESS \<longrightarrow> addr_bytes False tr = [push_bit 1 0x3C OR I2C_WRITE])"
      .
    then have m: "addr_bytes False (log t) \<in>
         {[], [push_bit 1 0x3C OR I2C_WRITE]}"
      by simp
    from l have v: "addr_bytes False (log t) = [0x78]" by simp
    from e l m v show ?thesis by blast
  qed
  have c1: "\<exists>t. i2c_write_no_reg 0x50 0x3D
         (bus [ready 0x08 0xFF, ready 0x18 0xFF, ready 0x28 0xFF] stuck) =
       Some (SUCCESS, t) \<and>
     log t =
       [Prim Start, Check MT_START SUCCESS, Prim (Transmit 0xA0),
        Check MT_SLA_WRITE_ACK SUCCESS, Prim (Transmit 0x3D),
        Check MT_DATA_TRANSMITTED_ACK SUCCESS, Stop] \<and>
     addr_bytes False (log t) \<in>
         {[], [push_bit 1 0x50 OR I2C_WRITE]} \<and>
     addr_bytes False (log t) = [0xA0]"
  proof -
    from run_write_ok obtain t where
      e: "i2c_write_no_reg 0x50 0x3D
         (bus [ready 0x08 0xFF, ready 0x18 0xFF, ready 0x28 0xFF] stuck) =
       Some (SUCCESS, t)"
      and l: "log t =
       [Prim Start, Check MT_START SUCCESS, Prim (Transmit 0xA0),
        Check MT_SLA_WRITE_ACK SUCCESS, Prim (Transmit 0x3D),
        Check MT_DATA_TRANSMITTED_ACK SUCCESS, Stop]"
      by blast
    from address_shifted_with_direction[where a = "0x50" and d = "0x3D" and reg = "0x00" and data = "[]" and len = 0
      and s = "bus [ready 0x08 0xFF, ready 0x18 0xFF, ready 0x28 0xFF] stuck" and r = SUCCESS
      and s' = t and d' = "0x00" and ds' = "[]",
      THEN conjunct2, THEN conjunct1, THEN mp, OF e]
    have "\<exists>tr. log t = log (bus [ready 0x08 0xFF, ready 0x18 0xFF, ready 0x28 0xFF] stuck) @ tr \<and>
      addr_bytes False tr \<in>
         {[], [push_bit 1 0x50 OR I2C_WRITE]} \<and>
      (SUCCESS = SUCCESS \<longrightarrow> addr_bytes False tr = [push_bit 1 0x50 OR I2C_WRITE])"
      .
    then have m: "addr_bytes False (log t) \<in>
         {[], [push_bit 1 0x50 OR I2C_WRITE]}"
      by simp
    from l have v: "addr_bytes False (log t) = [0xA0]" by simp
    from e l m v show ?thesis by blast
  qed
  have c2: "\<exists>t. i2c_write_with_reg 0x50 0x10 0x3D
         (bus [ready 0x08 0xFF, ready 0x18 0xFF, ready 0x30 0xFF] stuck) =
       Some (ERROR, t) \<and>
     log t =
       [Prim Start, Check MT_START SUCCESS, Prim (Transmit 0xA0),
        Check MT_SLA_WRITE_ACK SUCCESS, Prim (Transmit 0x10),
        Check MT_DATA_TRANSMITTED_ACK ERROR, Stop] \<and>
     addr_bytes False (log t) \<in>
         {[], [push_bit 1 0x50 OR I2C_WRITE]} \<and>
     addr_bytes False (log t) = [0xA0]"
  proof -
    from run_write_reg_nack obtain t where
      e: "i2c_write_with_reg 0x50 0x10 0x3D
         (bus [ready 0x08 0xFF, ready 0x18 0xFF, ready 0x30 0xFF] stuck) =
       Some (ERROR, t)"
      and l: "log t =
       [Prim Start, Check MT_START SUCCESS, Prim (Transmit 0xA0),
        Check MT_SLA_WRITE_ACK SUCCESS, Prim (Transmit 0x10),
        Check MT_DATA_TRANSMITTED_ACK ERROR, Stop]"
      by blast
    from address_shifted_with_direction[where a = "0x50" and d = "0x3D" and reg = "0x10" and data = "[]" and len = 0
      and s = "bus [ready 0x08 0xFF, ready 0x18 0xFF, ready 0x30 0xFF] stuck" and r = ERROR
      and s' = t and d' = "0x00" and ds' = "[]",
      THEN conjunct2, THEN conjunct2, THEN conjunct1, THEN mp, OF e]
    have "\<exists>tr. log t = log (bus [ready 0x08 0xFF, ready 0x18 0xFF, ready 0x30 0xFF] stuck) @ tr \<and>
      addr_bytes False tr \<in>
         {[], [push_bit 1 0x50 OR I2C_WRITE]} \<and>
      (ERROR = SUCCESS \<longrightarrow> addr_bytes False tr = [push_bit 1 0x50 OR I2C_WRITE])"
      .
    then have m: "addr_bytes False (log t) \<in>
         {[], [push_bit 1 0x50 OR I2C_WRITE]}"
      by simp
    from l have v: "addr_bytes False (log t) = [0xA0]" by simp
    from e l m v show ?thesis by blast
  qed
  have c3: "\<exists>t. i2c_write_multi_no_reg 0x27 [0x01, 0x02, 0x03] 3
         (bus [ready 0x08 0xFF, ready 0x18 0xFF, ready 0x28 0xFF, ready 0x30 0xFF] stuck) =
       Some (Inr (ERROR, t)) \<and>
     log t =
       [Prim Start, Check MT_START SUCCESS, Prim (Transmit 0x4E),
        Check MT_SLA_WRITE_ACK SUCCESS, Prim (Transmit 0x01),
        Check MT_DATA_TRANSMITTED_ACK SUCCESS, Prim (Transmit 0x02),
        Check MT_DATA_TRANSMITTED_ACK ERROR, Stop] \<and>
     addr_bytes False (log t) \<in>
         {[], [push_bit 1 0x27 OR I2C_WRITE]} \<and>
     addr_bytes False (log t) = [0x4E]"
  proof -
    from run_write_multi_nack obtain t where
      e: "i2c_write_multi_no_reg 0x27 [0x01, 0x02, 0x03] 3
         (bus [ready 0x08 0xFF, ready 0x18 0xFF, ready 0x28 0xFF, ready 0x30 0xFF] stuck) =
       Some (Inr (ERROR, t))"
      and l: "log t =
       [Prim Start, Check MT_START SUCCESS, Prim (Transmit 0x4E),
        Check MT_SLA_WRITE_ACK SUCCESS, Prim (Transmit 0x01),
        Check MT_DATA_TRANSMITTED_ACK SUCCESS, Prim (Transmit 0x02),
        Check MT_DATA_TRANSMITTED_ACK ERROR, Stop]"
      by blast
    from address_shifted_with_direction[where a = "0x27" and d = "0x00" and reg = "0x00" and data = "[0x01, 0x02, 0x03]" and len = 3
      and s = "bus [ready 0x08 0xFF, ready 0x18 0xFF, ready 0x28 0xFF, ready 0x30 0xFF] stuck"
      and r = ERROR and s' = t and d' = "0x00" and ds' = "[]",
      THEN conjunct2, THEN conjunct2, THEN conjunct2, THEN conjunct1, THEN mp, OF e]
    have "\<exists>tr. log t = log (bus [ready 0x08 0xFF, ready 0x18 0xFF, ready 0x28 0xFF, ready 0x30 0xFF] stuck) @ tr \<and>
      addr_bytes False tr \<in>
         {[], [push_bit 1 0x27 OR I2C_WRITE]} \<and>
      (ERROR = SUCCESS \<longrightarrow> addr_bytes False tr = [push_bit 1 0x27 OR I2C_WRITE])"
      .
    then have m: "addr_bytes False (log t) \<in>
         {[], [push_bit 1 0x27 OR I2C_WRITE]}"
      by simp
    from l have v: "addr_bytes False (log t) = [0x4E]" by simp
    from e l m v show ?thesis by blast
  qed
  have c4: "\<exists>t. i2c_write_multi_with_reg 0x27 0x10 [0x01, 0x02] 2
         (bus [ready 0x08 0xFF, ready 0x18 0xFF, ready 0x28 0xFF, ready 0x28 0xFF, ready 0x28 0xFF] stuck) =
       Some (Inr (SUCCESS, t)) \<and>
     log t =
       [Prim Start, Check MT_START SUCCESS, Prim (Transmit 0x4E),
        Check MT_SLA_WRITE_ACK SUCCESS, Prim (Transmit 0x10),
        Check MT_DATA_TRANSMITTED_ACK SUCCESS, Prim (Transmit 0x01),
        Check MT_DATA_TRANSMITTED_ACK SUCCESS, Prim (Transmit 0x02),
        Check MT_DATA_TRANSMITTED_ACK SUCCESS, Stop] \<and>
     addr_bytes False (log t) \<in>
         {[], [push_bit 1 0x27 OR I2C_WRITE]} \<and>
     addr_bytes False (log t) = [0x4E]"
  proof -
    from run_write_multi_reg_ok obtain t where
      e: "i2c_write_multi_with_reg 0x27 0x10 [0x01, 0x02] 2
         (bus [ready 0x08 0xFF, ready 0x18 0xFF, ready 0x28 0xFF, ready 0x28 0xFF, ready 0x28 0xFF] stuck) =
       Some (Inr (SUCCESS, t))"
      and l: "log t =
       [Prim Start, Check MT_START SUCCESS, Prim (Transmit 0x4E),
        Check MT_SLA_WRITE_ACK SUCCESS, Prim (Transmit 0x10),
        Check MT_DATA_TRANSMITTED_ACK SUCCESS, Prim (Transmit 0x01),
        Check MT_DATA_TRANSMITTED_ACK SUCCESS, Prim (Transmit 0x02),
        Check MT_DATA_TRANSMITTED_ACK SUCCESS, Stop]"
      by blast
    from address_shifted_with_direction[where a = "0x27" and d = "0x00" and reg = "0x10" and data = "[0x01, 0x02]" and len = 2
      and s = "bus [ready 0x08 0xFF, ready 0x18 0xFF, ready 0x28 0xFF, ready 0x28 0xFF, ready 0x28 0xFF] stuck"
      and r = SUCCESS and s' = t and d' = "0x00" and ds' = "[]",
      THEN conjunct2, THEN conjunct2, THEN conjunct2, THEN conjunct2, THEN conjunct1, THEN mp, OF e]
    have "\<exists>tr. log t = log (bus [ready 0x08 0xFF, ready 0x18 0xFF, ready 0x28 0xFF, ready 0x28 0xFF, ready 0x28 0xFF] stuck) @ tr \<and>
      addr_bytes False tr \<in>
         {[], [push_bit 1 0x27 OR I2C_WRITE]} \<and>
      (SUCCESS = SUCCESS \<longrightarrow> addr_bytes False tr = [push_bit 1 0x27 OR I2C_WRITE])"
      .
    then have m: "addr_bytes False (log t) \<in>
         {[], [push_bit 1 0x27 OR I2C_WRITE]}"
      by simp
    from l have v: "addr_bytes False (log t) = [0x4E]" by simp
    from e l m v show ?thesis by blast
  qed
  have c5: "\<exists>t. i2c_read_no_reg 0x68 0x11
         (bus [ready 0x08 0xFF, ready 0x40 0xFF, ready 0x00 0xA5] stuck) =
       Some (ERROR, 0xA5, t) \<and>
     log t =
       [Prim Start, Check MT_START SUCCESS, Prim (Transmit 0xD1),
        Check MT_SLA_READ_ACK SUCCESS, Prim ReceiveNack,
        Check MT_DATA_RECEIVED_NACK ERROR, Stop] \<and>
     addr_bytes False (log t) \<in>
         {[], [push_bit 1 0x68 OR I2C_READ]} \<and>
     addr_bytes False (log t) = [0xD1]"
  proof -
    from run_read_last_check_fails obtain t where
      e: "i2c_read_no_reg 0x68 0x11
         (bus [ready 0x08 0xFF, ready 0x40 0xFF, ready 0x00 0xA5] stuck) =
       Some (ERROR, 0xA5, t)"
      and l: "log t =
       [Prim Start, Check MT_START SUCCESS, Prim (Transmit 0xD1),
        Check MT_SLA_READ_ACK SUCCESS, Prim ReceiveNack,
        Check MT_DATA_RECEIVED_NACK ERROR, Stop]"
      by blast
    from address_shifted_with_direction[where a = "0x68" and d = "0x11" and reg = "0x00" and data = "[]" and len = 0
      and s = "bus [ready 0x08 0xFF, ready 0x40 0xFF, ready 0x00 0xA5] stuck" and r = ERROR
      and s' = t and d' = "0xA5" and ds' = "[]",
      THEN conjunct2, THEN conjunct2, THEN conjunct2, THEN conjunct2, THEN conjunct2, THEN conjunct1, THEN mp, OF e]
    have "\<exists>tr. log t = log (bus [ready 0x08 0xFF, ready 0x40 0xFF, ready 0x00 0xA5] stuck) @ tr \<and>
      addr_bytes False tr \<in>
         {[], [push_bit 1 0x68 OR I2C_READ]} \<and>
      (ERROR = SUCCESS \<longrightarrow> addr_bytes False tr = [push_bit 1 0x68 OR I2C_READ])"
      .
    then have m: "addr_bytes False (log t) \<in>
         {[], [push_bit 1 0x68 OR I2C_READ]}"
      by simp
    from l have v: "addr_bytes False (log t) = [0xD1]" by simp
    from e l m v show ?thesis by blast
  qed
  have c6: "\<exists>t. i2c_read_multi_no_reg 0x68 3 [0x00, 0x00, 0x00]
         (bus [ready 0x08 0xFF, ready 0x40 0xFF, ready 0x50 0xA1, ready 0x50 0xA2, ready 0x58 0xA3] stuck) =
       Some (Inr (SUCCESS, [0xA1, 0xA2, 0xA3], t)) \<and>
     log t =
       [Prim Start, Check MT_START SUCCESS, Prim (Transmit 0xD1),
        Check MT_SLA_READ_ACK SUCCESS, Prim ReceiveAck,
        Check MT_DATA_RECEIVED_ACK SUCCESS, Prim ReceiveAck,
        Check MT_DATA_RECEIVED_ACK SUCCESS, Prim ReceiveNack,
        Check MT_DATA_RECEIVED_NACK SUCCESS, Stop] \<and>
     addr_bytes False (log t) \<in>
         {[], [push_bit 1 0x68 OR I2C_READ]} \<and>
     addr_bytes False (log t) = [0xD1]"
  proof -
    from run_read_multi_ok obtain t where
      e: "i2c_read_multi_no_reg 0x68 3 [0x00, 0x00, 0x00]
         (bus [ready 0x08 0xFF, ready 0x40 0xFF, ready 0x50 0xA1, ready 0x50 0xA2, ready 0x58 0xA3] stuck) =
       Some (Inr (SUCCESS, [0xA1, 0xA2, 0xA3], t))"
      and l: "log t =
       [Prim Start, Check MT_START SUCCESS, Prim (Transmit 0xD1),
        Check MT_SLA_READ_ACK SUCCESS, Prim ReceiveAck,
        Check MT_DATA_RECEIVED_ACK SUCCESS, Prim ReceiveAck,
        Check MT_DATA_RECEIVED_ACK SUCCESS, Prim ReceiveNack,
        Check MT_DATA_RECEIVED_NACK SUCCESS, Stop]"
      by blast
    from address_shifted_with_direction[where a = "0x68" and d = "0x00" and reg = "0x00" and data = "[0x00, 0x00, 0x00]" and len = 3
      and s = "bus [ready 0x08 0xFF, ready 0x40 0xFF, ready 0x50 0xA1, ready 0x50 0xA2, ready 0x58 0xA3] stuck"
      and r = SUCCESS and s' = t and d' = "0x00" and ds' = "[0xA1, 0xA2, 0xA3]",
      THEN conjunct2, THEN conjunct2, THEN conjunct2, THEN conjunct2, THEN conjunct2, THEN conjunct2, THEN conjunct1, THEN mp, OF e]
    have "\<exists>tr. log t = log (bus [ready 0x08 0xFF, ready 0x40 0xFF, ready 0x50 0xA1, ready 0x50 0xA2, ready 0x58 0xA3] stuck) @ tr \<and>
      addr_bytes False tr \<in>
         {[], [push_bit 1 0x68 OR I2C_READ]} \<and>
      (SUCCESS = SUCCESS \<longrightarrow> addr_bytes False tr = [push_bit 1 0x68 OR I2C_READ])"
      .
    then have m: "addr_bytes False (log t) \<in>
         {[], [push_bit 1 0x68 OR I2C_READ]}"
      by simp
    from l have v: "addr_bytes False (log t) = [0xD1]" by simp
    from e l m v show ?thesis by blast
  qed
  have c7: "\<exists>t. i2c_read_with_reg 0x68 0x00 0x11
         (bus [ready 0x08 0xFF, ready 0x18 0xFF, ready 0x28 0xFF, ready 0x10 0xFF, ready 0x40 0xFF, ready 0x58 0xA5] stuck) =
       Some (SUCCESS, 0xA5, t) \<and>
     log t =
       [Prim Start, Check MT_START SUCCESS, Prim (Transmit 0xD0),
        Check MT_SLA_WRITE_ACK SUCCESS, Prim (Transmit 0x00),
        Check MT_DATA_TRANSMITTED_ACK SUCCESS, Prim Start,
        Check MT_REP_START SUCCESS, Prim (Transmit 0xD1),
        Check MT_SLA_READ_ACK SUCCESS, Prim ReceiveNack,
        Check MT_DATA_RECEIVED_NACK SUCCESS, Stop] \<and>
     addr_bytes False (log t) \<in>
         {[], [push_bit 1 0x68 OR I2C_WRITE],
          [push_bit 1 0x68 OR I2C_WRITE, push_bit 1 0x68 OR I2C_READ]} \<and>
     addr_bytes False (log t) = [0xD0, 0xD1]"
  proof -
    from run_read_reg_ok obtain t where
      e: "i2c_read_with_reg 0x68 0x00 0x11
         (bus [ready 0x08 0xFF, ready 0x18 0xFF, ready 0x28 0xFF, ready 0x10 0xFF, ready 0x40 0xFF, ready 0x58 0xA5] stuck) =
       Some (SUCCESS, 0xA5, t)"
      and l: "log t =
       [Prim Start, Check MT_START SUCCESS, Prim (Transmit 0xD0),
        Check MT_SLA_WRITE_ACK SUCCESS, Prim (Transmit 0x00),
        Check MT_DATA_TRANSMITTED_ACK SUCCESS, Prim Start,
        Check MT_REP_START SUCCESS, Prim (Transmit 0xD1),
        Check MT_SLA_READ_ACK SUCCESS, Prim ReceiveNack,
        Check MT_DATA_RECEIVED_NACK SUCCESS, Stop]"
      by blast
    from address_shifted_with_direction[where a = "0x68" and d = "0x11" and reg = "0x00" and data = "[]" and len = 0
      and s = "bus [ready 0x08 0xFF, ready 0x18 0xFF, ready 0x28 0xFF, ready 0x10 0xFF, ready 0x40 0xFF, ready 0x58 0xA5] stuck"
      and r = SUCCESS and s' = t and d' = "0xA5" and ds' = "[]",
      THEN conjunct2, THEN conjunct2, THEN conjunct2, THEN conjunct2, THEN conjunct2, THEN conjunct2, THEN conjunct2, THEN conjunct1, THEN mp, OF e]
    have "\<exists>tr. log t = log (bus [ready 0x08 0xFF, ready 0x18 0xFF, ready 0x28 0xFF, ready 0x10 0xFF, ready 0x40 0xFF, ready 0x58 0xA5] stuck) @ tr \<and>
      addr_bytes False tr \<in>
         {[], [push_bit 1 0x68 OR I2C_WRITE],
          [push_bit 1 0x68 OR I2C_WRITE, push_bit 1 0x68 OR I2C_READ]} \<and>
      (SUCCESS = SUCCESS \<longrightarrow> addr_bytes False tr = [push_bit 1 0x68 OR I2C_WRITE, push_bit 1 0x68 OR I2C_READ])"
      .
    then have m: "addr_bytes False (log t) \<in>
         {[], [push_bit 1 0x68 OR I2C_WRITE],
          [push_bit 1 0x68 OR I2C_WRITE, push_bit 1 0x68 OR I2C_READ]}"
      by simp
    from l have v: "addr_bytes False (log t) = [0xD0, 0xD1]" by simp
    from e l m v show ?thesis by blast
  qed
  have c8: "\<exists>t. i2c_read_with_reg 0x68 0x00 0x11
         (bus [ready 0x08 0xFF, ready 0x18 0xFF, ready 0x28 0xFF, ready 0x00 0xFF] stuck) =
       Some (ERROR, 0x11, t) \<and>
     log t =
       [Prim Start, Check MT_START SUCCESS, Prim (Transmit 0xD0),
        Check MT_SLA_WRITE_ACK SUCCESS, Prim (Transmit 0x00),
        Check MT_DATA_TRANSMITTED_ACK SUCCESS, Prim Start,
        Check MT_REP_START ERROR] \<and>
     addr_bytes False (log t) \<in>
         {[], [push_bit 1 0x68 OR I2C_WRITE],
          [push_bit 1 0x68 OR I2C_WRITE, push_bit 1 0x68 OR I2C_READ]} \<and>
     addr_bytes False (log t) = [0xD0]"
  proof -
    from run_read_reg_rep_start_fails obtain t where
      e: "i2c_read_with_reg 0x68 0x00 0x11
         (bus [ready 0x08 0xFF, ready 0x18 0xFF, ready 0x28 0xFF, ready 0x00 0xFF] stuck) =
       Some (ERROR, 0x11, t)"
      and l: "log t =
       [Prim Start, Check MT_START SUCCESS, Prim (Transmit 0xD0),
        Check MT_SLA_WRITE_ACK SUCCESS, Prim (Transmit 0x00),
        Check MT_DATA_TRANSMITTED_ACK SUCCESS, Prim Start,
        Check MT_REP_START ERROR]"
      by blast
    from address_shifted_with_direction[where a = "0x68" and d = "0x11" and reg = "0x00" and data = "[]" and len = 0
      and s = "bus [ready 0x08 0xFF, ready 0x18 0xFF, ready 0x28 0xFF, ready 0x00 0xFF] stuck"
      and r = ERROR and s' = t and d' = "0x11" and ds' = "[]",
      THEN conjunct2, THEN conjunct2, THEN conjunct2, THEN conjunct2, THEN conjunct2, THEN conjunct2, THEN conjunct2, THEN conjunct1, THEN mp, OF e]
    have "\<exists>tr. log t = log (bus [ready 0x08 0xFF, ready 0x18 0xFF, ready 0x28 0xFF, ready 0x00 0xFF] stuck) @ tr \<and>
      addr_bytes False tr \<in>
         {[], [push_bit 1 0x68 OR I2C_WRITE],
          [push_bit 1 0x68 OR I2C_WRITE, push_bit 1 0x68 OR I2C_READ]} \<and>
      (ERROR = SUCCESS \<longrightarrow> addr_bytes False tr = [push_bit 1 0x68 OR I2C_WRITE, push_bit 1 0x68 OR I2C_READ])"
      .
    then have m: "addr_bytes False (log t) \<in>
         {[], [push_bit 1 0x68 OR I2C_WRITE],
          [push_bit 1 0x68 OR I2C_WRITE, push_bit 1 0x68 OR I2C_READ]}"
      by simp
    from l have v: "addr_bytes False (log t) = [0xD0]" by simp
    from e l m v show ?thesis by blast
  qed
  have c9: "\<exists>t. i2c_read_multi_with_reg 0x68 0x00 2 [0x00, 0x00]
         (bus [ready 0x08 0xFF, ready 0x18 0xFF, ready 0x28 0xFF, ready 0x10 0xFF, ready 0x40 0xFF, ready 0x50 0xA1, ready 0x58 0xA2] stuck) =
       Some (Inr (SUCCESS, [0xA1, 0xA2], t)) \<and>
     log t =
       [Prim Start, Check MT_START SUCCESS, Prim (Transmit 0xD0),
        Check MT_SLA_WRITE_ACK SUCCESS, Prim (Transmit 0x00),
        Check MT_DATA_TRANSMITTED_ACK SUCCESS, Prim Start,
        Check MT_REP_START SUCCESS, Prim (Transmit 0xD1),
        Check MT_SLA_READ_ACK SUCCESS, Prim ReceiveAck,
        Check MT_DATA_RECEIVED_ACK SUCCESS, Prim ReceiveNack,
        Check MT_DATA_RECEIVED_NACK SUCCESS, Stop] \<and>
     addr_bytes False (log t) \<in>
         {[], [push_bit 1 0x68 OR I2C_WRITE],
          [push_bit 1 0x68 OR I2C_WRITE, push_bit 1 0x68 OR I2C_READ]} \<and>
     addr_bytes False (log t) = [0xD0, 0xD1]"
  proof -
    from run_read_multi_reg_ok obtain t where
      e: "i2c_read_multi_with_reg 0x68 0x00 2 [0x00, 0x00]
         (bus [ready 0x08 0xFF, ready 0x18 0xFF, ready 0x28 0xFF, ready 0x10 0xFF, ready 0x40 0xFF, ready 0x50 0xA1, ready 0x58 0xA2] stuck) =
       Some (Inr (SUCCESS, [0xA1, 0xA2], t))"
      and l: "log t =
       [Prim Start, Check MT_START SUCCESS, Prim (Transmit 0xD0),
        Check MT_SLA_WRITE_ACK SUCCESS, Prim (Transmit 0x00),
        Check MT_DATA_TRANSMITTED_ACK SUCCESS, Prim Start,
        Check MT_REP_START SUCCESS, Prim (Transmit 0xD1),
        Check MT_SLA_READ_ACK SUCCESS, Prim ReceiveAck,
        Check MT_DATA_RECEIVED_ACK SUCCESS, Prim ReceiveNack,
        Check MT_DATA_RECEIVED_NACK SUCCESS, Stop]"
      by blast
    from address_shifted_with_direction[where a = "0x68" and d = "0x00" and reg = "0x00" and data = "[0x00, 0x00]" and len = 2
      and s = "bus [ready 0x08 0xFF, ready 0x18 0xFF, ready 0x28 0xFF, ready 0x10 0xFF, ready 0x40 0xFF, ready 0x50 0xA1, ready 0x58 0xA2] stuck"
      and r = SUCCESS and s' = t and d' = "0x00" and ds' = "[0xA1, 0xA2]",
      THEN conjunct2, THEN conjunct2, THEN conjunct2, THEN conjunct2, THEN conjunct2, THEN conjunct2, THEN conjunct2, THEN conjunct2, THEN conjunct1, THEN mp, OF e]
    have "\<exists>tr. log t = log (bus [ready 0x08 0xFF, ready 0x18 0xFF, ready 0x28 0xFF, ready 0x10 0xFF, ready 0x40 0xFF, ready 0x50 0xA1, ready 0x58 0xA2] stuck) @ tr \<and>
      addr_bytes False tr \<in>
         {[], [push_bit 1 0x68 OR I2C_WRITE],
          [push_bit 1 0x68 OR I2C_WRITE, push_bit 1 0x68 OR I2C_READ]} \<and>
      (SUCCESS = SUCCESS \<longrightarrow> addr_bytes False tr = [push_bit 1 0x68 OR I2C_WRITE, push_bit 1 0x68 OR I2C_READ])"
      .
    then have m: "addr_bytes False (log t) \<in>
         {[], [push_bit 1 0x68 OR I2C_WRITE],
          [push_bit 1 0x68 OR I2C_WRITE, push_bit 1 0x68 OR I2C_READ]}"
      by simp
    from l have v: "addr_bytes False (log t) = [0xD0, 0xD1]" by simp
    from e l m v show ?thesis by blast
  qed
  show ?thesis
    by (intro conjI c0 c1 c2 c3 c4 c5 c6 c7 c8 c9)
qed

subsection \<open>C7: the completion wait\<close>

text \<open>
  C7. \<open>i2c_wait_until_finish\<close> does not return if and only if no read of TWCR ever shows
  TWINT; there is no bound on the polls: it returns at the first read that shows the
  flag, however late that is. Hence every public function returns when the peripheral
  finishes each operation it is asked for (the multi-byte ones inside the caller's
  array), and none returns when the peripheral does not finish the first one.
\<close>

theorem wait_returns_iff_flag:
  "(i2c_wait_until_finish s = None \<longleftrightarrow>
      (\<forall>k. (cr_polls (hw s (ops s)) k AND push_bit TWINT 1) = 0))
   \<and> ((rd n AND push_bit TWINT 1) \<noteq> 0 \<and> (\<forall>j<n. (rd j AND push_bit TWINT 1) = 0)
        \<longrightarrow> poll_twint rd 0 = Some n)
   \<and> ((\<forall>n. completes (hw s n)) \<longrightarrow>
        (\<exists>r s'. i2c_is_device_connected a s = Some (r, s')) \<and>
        (\<exists>r s'. i2c_write_no_reg a d s = Some (r, s')) \<and>
        (\<exists>r s'. i2c_write_with_reg a reg d s = Some (r, s')) \<and>
        (\<exists>r d' s'. i2c_read_no_reg a d s = Some (r, d', s')) \<and>
        (\<exists>r d' s'. i2c_read_with_reg a reg d s = Some (r, d', s')) \<and>
        (unat len \<le> length data \<longrightarrow>
           (\<exists>r s'. i2c_write_multi_no_reg a data len s = Some (Inr (r, s'))) \<and>
           (\<exists>r s'. i2c_write_multi_with_reg a reg data len s = Some (Inr (r, s'))) \<and>
           (\<exists>r d' s'. i2c_read_multi_no_reg a len data s = Some (Inr (r, d', s'))) \<and>
           (\<exists>r d' s'. i2c_read_multi_with_reg a reg len data s = Some (Inr (r, d', s')))))
   \<and> (\<not> completes (hw s (ops s)) \<longrightarrow>
        i2c_is_device_connected a s = None \<and> i2c_write_no_reg a d s = None \<and>
        i2c_write_with_reg a reg d s = None \<and> i2c_write_multi_no_reg a data len s = None \<and>
        i2c_write_multi_with_reg a reg data len s = None \<and> i2c_read_no_reg a d s = None \<and>
        i2c_read_with_reg a reg d s = None \<and> i2c_read_multi_no_reg a len data s = None \<and>
        i2c_read_multi_with_reg a reg len data s = None)"
proof -
  have 1: "i2c_wait_until_finish s = None \<longleftrightarrow>
      (\<forall>k. (cr_polls (hw s (ops s)) k AND push_bit TWINT 1) = 0)"
    unfolding wait_None_iff completes_def by blast
  have 2: "(rd n AND push_bit TWINT 1) \<noteq> 0 \<and> (\<forall>j<n. (rd j AND push_bit TWINT 1) = 0)
        \<longrightarrow> poll_twint rd 0 = Some n"
    using poll_twint_first[of rd 0 n] by simp
  have 3: "(\<exists>r s'. i2c_is_device_connected a s = Some (r, s')) \<and>
        (\<exists>r s'. i2c_write_no_reg a d s = Some (r, s')) \<and>
        (\<exists>r s'. i2c_write_with_reg a reg d s = Some (r, s')) \<and>
        (\<exists>r d' s'. i2c_read_no_reg a d s = Some (r, d', s')) \<and>
        (\<exists>r d' s'. i2c_read_with_reg a reg d s = Some (r, d', s'))"
    if c: "\<forall>n. completes (hw s n)"
  proof -
    note t = run_phases_total[OF c]
    have "\<exists>r d' s'. i2c_read_no_reg a d s = Some (r, d', s')"
    proof -
      from t[of "sla_r a @ [(ReceiveNack, MT_DATA_RECEIVED_NACK)]"] obtain r s' where
        "run_phases (sla_r a @ [(ReceiveNack, MT_DATA_RECEIVED_NACK)]) s = Some (r, s')" by blast
      then have "map_option (\<lambda>(r, d', s'). (r, s')) (i2c_read_no_reg a d s) = Some (r, s')"
        by (simp add: read_no_reg_run)
      from pair3_total[OF this] show ?thesis by blast
    qed
    moreover have "\<exists>r d' s'. i2c_read_with_reg a reg d s = Some (r, d', s')"
    proof -
      from t[of "reg_then_sla_r a reg @ [(ReceiveNack, MT_DATA_RECEIVED_NACK)]"] obtain r s' where
        "run_phases (reg_then_sla_r a reg @ [(ReceiveNack, MT_DATA_RECEIVED_NACK)]) s = Some (r, s')"
        by blast
      then have "map_option (\<lambda>(r, d', s'). (r, s')) (i2c_read_with_reg a reg d s) = Some (r, s')"
        by (simp add: read_with_reg_run)
      from pair3_total[OF this] show ?thesis by blast
    qed
    ultimately show ?thesis
      by (simp add: probe_run write_no_reg_run write_with_reg_run t)
  qed
  have 4: "(\<exists>r s'. i2c_write_multi_no_reg a data len s = Some (Inr (r, s'))) \<and>
           (\<exists>r s'. i2c_write_multi_with_reg a reg data len s = Some (Inr (r, s'))) \<and>
           (\<exists>r d' s'. i2c_read_multi_no_reg a len data s = Some (Inr (r, d', s'))) \<and>
           (\<exists>r d' s'. i2c_read_multi_with_reg a reg len data s = Some (Inr (r, d', s')))"
    if c: "\<forall>n. completes (hw s n)" and l: "unat len \<le> length data"
  proof -
    note t = run_phases_total[OF c]
    have w1: "\<exists>r s'. i2c_write_multi_no_reg a data len s = Some (Inr (r, s'))"
      using t[of "sla_w a @ write_plan data 0 len"]
      by (auto simp: write_multi_no_reg_run[OF l])
    have w2: "\<exists>r s'. i2c_write_multi_with_reg a reg data len s = Some (Inr (r, s'))"
      using t[of "sla_w a @ (Transmit reg, MT_DATA_TRANSMITTED_ACK) # write_plan data 0 len"]
      by (auto simp: write_multi_with_reg_run[OF l])
    have r1: "\<exists>r d' s'. i2c_read_multi_no_reg a len data s = Some (Inr (r, d', s'))"
    proof -
      from t[of "sla_r a @ read_plan 0 len"] obtain r s' where
        "run_phases (sla_r a @ read_plan 0 len) s = Some (r, s')" by blast
      with read_multi_no_reg_run[OF l, where a=a and s=s]
      have "map_option strip (i2c_read_multi_no_reg a len data s) = Some (Inr (r, s'))" by simp
      then obtain x where "i2c_read_multi_no_reg a len data s = Some x" "strip x = Inr (r, s')"
        by auto
      with strip_Inr show ?thesis by blast
    qed
    have r2: "\<exists>r d' s'. i2c_read_multi_with_reg a reg len data s = Some (Inr (r, d', s'))"
    proof -
      from t[of "reg_then_sla_r a reg @ read_plan 0 len"] obtain r s' where
        "run_phases (reg_then_sla_r a reg @ read_plan 0 len) s = Some (r, s')" by blast
      with read_multi_with_reg_run[OF l, where a=a and reg=reg and s=s]
      have "map_option strip (i2c_read_multi_with_reg a reg len data s) = Some (Inr (r, s'))"
        by simp
      then obtain x where "i2c_read_multi_with_reg a reg len data s = Some x"
        "strip x = Inr (r, s')" by auto
      with strip_Inr show ?thesis by blast
    qed
    from w1 w2 r1 r2 show ?thesis by blast
  qed
  have 5: "i2c_is_device_connected a s = None \<and> i2c_write_no_reg a d s = None \<and>
        i2c_write_with_reg a reg d s = None \<and> i2c_write_multi_no_reg a data len s = None \<and>
        i2c_write_multi_with_reg a reg data len s = None \<and> i2c_read_no_reg a d s = None \<and>
        i2c_read_with_reg a reg d s = None \<and> i2c_read_multi_no_reg a len data s = None \<and>
        i2c_read_multi_with_reg a reg len data s = None"
    if h: "\<not> completes (hw s (ops s))"
  proof -
    from h have "i2c_start s = None" using do_prim_None_iff[of Start s] by simp
    then show ?thesis
      by (simp add: i2c_is_device_connected_def i2c_write_no_reg_def i2c_write_with_reg_def
          i2c_write_multi_no_reg_def i2c_write_multi_with_reg_def i2c_read_no_reg_def
          i2c_read_with_reg_def i2c_read_multi_no_reg_def i2c_read_multi_with_reg_def)
  qed
  from 1 2 3 4 5 show ?thesis by blast
qed

theorem wait_returns_iff_flag_witness:
  "(\<forall>n. completes (hw (bus [ready 0x08 0xFF] (ready 0x20 0xFF)) n))
   \<and> unat (3 :: u8) \<le> length [0x01, 0x02, 0x03 :: u8]
   \<and> (\<exists>r s'. i2c_is_device_connected 0x3C (bus [ready 0x08 0xFF] (ready 0x20 0xFF)) = Some (r, s'))
   \<and> (\<exists>r s'. i2c_write_multi_no_reg 0x3C [0x01, 0x02, 0x03] 3
                 (bus [ready 0x08 0xFF] (ready 0x20 0xFF)) = Some (Inr (r, s')))
   \<and> \<not> completes (hw (bus [ready 0x08 0xFF] stuck) (ops (bus [ready 0x08 0xFF] stuck) + 1))
   \<and> \<not> completes (hw (bus [] stuck) (ops (bus [] stuck)))
   \<and> i2c_is_device_connected 0x3C (bus [] stuck) = None
   \<and> i2c_wait_until_finish (bus [] stuck) = None
   \<and> poll_twint (cr_polls (ready 0x08 0xFF)) 0 = Some 2"
proof -
  let ?s = "bus [ready 0x08 0xFF] (ready 0x20 0xFF)"
  have c: "\<forall>n. completes (hw ?s n)"
    by (simp add: completes_bus_ready completes_ready)
  have l: "unat (3 :: u8) \<le> length [0x01, 0x02, 0x03 :: u8]" by simp
  have h: "\<not> completes (hw (bus [] stuck) (ops (bus [] stuck)))"
    by (simp add: bus_def not_completes_stuck)
  have h': "\<not> completes (hw (bus [ready 0x08 0xFF] stuck) (ops (bus [ready 0x08 0xFF] stuck) + 1))"
    by (simp add: bus_def not_completes_stuck)
  have f: "(cr_polls (ready 0x08 0xFF) 2 AND push_bit TWINT 1) \<noteq> 0
      \<and> (\<forall>j<2. (cr_polls (ready 0x08 0xFF) j AND push_bit TWINT 1) = 0)"
    by (simp add: ready_def TWINT_def)
  have n: "\<forall>k. (cr_polls (hw (bus [] stuck) (ops (bus [] stuck))) k AND push_bit TWINT 1) = 0"
    using h by (simp add: completes_def)
  from c l wait_returns_iff_flag[where s = ?s and a = "0x3C" and d = "0x00" and reg = "0x00"
      and data = "[0x01, 0x02, 0x03]" and len = 3 and rd = "cr_polls (ready 0x08 0xFF)" and n = 2]
  have t: "(\<exists>r s'. i2c_is_device_connected 0x3C ?s = Some (r, s'))"
    "(\<exists>r s'. i2c_write_multi_no_reg 0x3C [0x01, 0x02, 0x03] 3 ?s = Some (Inr (r, s')))"
    by blast+
  from h n f wait_returns_iff_flag[where s = "bus [] stuck" and a = "0x3C" and d = "0x00"
      and reg = "0x00" and data = "[0x01, 0x02, 0x03]" and len = 3
      and rd = "cr_polls (ready 0x08 0xFF)" and n = 2]
  have u: "i2c_is_device_connected 0x3C (bus [] stuck) = None"
    "i2c_wait_until_finish (bus [] stuck) = None"
    "poll_twint (cr_polls (ready 0x08 0xFF)) 0 = Some 2"
    by blast+
  from c l t h h' u show ?thesis by blast
qed

subsection \<open>C8: stop\<close>

text \<open>
  C8. \<open>i2c_stop\<close> writes the one value 0x94 (TWINT, TWSTO and TWEN) to TWCR and returns
  without waiting: it takes no answer from the peripheral, whereas each of the four other
  primitives does not return when the peripheral never raises the flag. A second
  \<open>i2c_stop\<close> writes the same value again: apart from the log entry of the call, the
  state after two stops is the state after one.
\<close>

theorem stop_rewrites_same_value:
  "i2c_stop s = s\<lparr>TWCR := 0x94, log := log s @ [Stop]\<rparr>
   \<and> (0x94 :: u8) = push_bit TWINT 1 OR push_bit TWSTO 1 OR push_bit TWEN 1
   \<and> ops (i2c_stop s) = ops s
   \<and> i2c_stop (i2c_stop s) = (i2c_stop s)\<lparr>log := log (i2c_stop s) @ [Stop]\<rparr>
   \<and> TWCR (i2c_stop (i2c_stop s)) = TWCR (i2c_stop s)
   \<and> (i2c_stop (i2c_stop s))\<lparr>log := []\<rparr> = (i2c_stop s)\<lparr>log := []\<rparr>
   \<and> (\<not> completes (hw s (ops s)) \<longrightarrow>
        i2c_start s = None \<and> i2c_transmit b s = None \<and>
        i2c_receive_ack s = None \<and> i2c_receive_nack s = None)"
proof -
  have 1: "i2c_stop s = s\<lparr>TWCR := 0x94, log := log s @ [Stop]\<rparr>"
    unfolding i2c_stop_def stop_value ..
  have 2: "ops (i2c_stop s) = ops s" by (simp add: i2c_stop_def)
  have 3: "i2c_stop (i2c_stop s) = (i2c_stop s)\<lparr>log := log (i2c_stop s) @ [Stop]\<rparr>"
    by (simp add: i2c_stop_def)
  have 4: "TWCR (i2c_stop (i2c_stop s)) = TWCR (i2c_stop s)"
    by (simp add: i2c_stop_def)
  have 5: "(i2c_stop (i2c_stop s))\<lparr>log := []\<rparr> = (i2c_stop s)\<lparr>log := []\<rparr>"
    by (simp add: i2c_stop_def)
  have 6: "\<not> completes (hw s (ops s)) \<longrightarrow>
        i2c_start s = None \<and> i2c_transmit b s = None \<and>
        i2c_receive_ack s = None \<and> i2c_receive_nack s = None"
    by (simp add: start_None_iff transmit_None_iff receive_ack_None_iff receive_nack_None_iff)
  from 1 stop_value[symmetric] 2 3 4 5 6 show ?thesis by blast
qed

theorem stop_rewrites_same_value_witness:
  "\<not> completes (hw (bus [] stuck) (ops (bus [] stuck)))
   \<and> i2c_stop (bus [] stuck) = (bus [] stuck)\<lparr>TWCR := 0x94, log := log (bus [] stuck) @ [Stop]\<rparr>
   \<and> i2c_stop (i2c_stop (bus [] stuck)) = (i2c_stop (bus [] stuck))\<lparr>log := log (i2c_stop (bus [] stuck)) @ [Stop]\<rparr>
   \<and> i2c_start (bus [] stuck) = None \<and> i2c_transmit 0x4E (bus [] stuck) = None
   \<and> i2c_receive_ack (bus [] stuck) = None \<and> i2c_receive_nack (bus [] stuck) = None"
proof -
  have h: "\<not> completes (hw (bus [] stuck) (ops (bus [] stuck)))"
    by (simp add: bus_def not_completes_stuck)
  from h stop_rewrites_same_value[where s = "bus [] stuck" and b = "0x4E"]
  show ?thesis by blast
qed

subsection \<open>C9: the single-byte reads store before the last check\<close>

text \<open>
  C9. A returning run of \<open>i2c_read_no_reg\<close> or \<open>i2c_read_with_reg\<close> is of one of two
  kinds. Either it failed at a start, address or register phase: it returns \<open>ERROR\<close>, its
  log is one of those listed, and the byte behind \<open>data\<close> is the one found on entry. Or
  it reached the receive: then the byte behind \<open>data\<close> is the content of TWDR after the
  receive, whether the check of \<open>MT_DATA_RECEIVED_NACK\<close> that follows returns \<open>SUCCESS\<close> or
  \<open>ERROR\<close>, and the call returns what that check returned.
\<close>

theorem single_read_stores_before_check:
  "(i2c_read_no_reg a d s = Some (r, d', s') \<longrightarrow>
      (\<exists>tr. log s' = log s @ tr \<and>
         ((r = ERROR \<and> d' = d \<and> tr \<in>
             {[Prim Start, Check MT_START ERROR],
              [Prim Start, Check MT_START SUCCESS,
               Prim (Transmit (push_bit 1 a OR I2C_READ)), Check MT_SLA_READ_ACK ERROR, Stop]}) \<or>
          (d' = dr_after (hw s (ops s + 2)) \<and> d' = TWDR s' \<and> (r = SUCCESS \<or> r = ERROR) \<and>
           tr = [Prim Start, Check MT_START SUCCESS,
                 Prim (Transmit (push_bit 1 a OR I2C_READ)), Check MT_SLA_READ_ACK SUCCESS,
                 Prim ReceiveNack, Check MT_DATA_RECEIVED_NACK r, Stop]))))
   \<and> (i2c_read_with_reg a reg d s = Some (r, d', s') \<longrightarrow>
      (\<exists>tr. log s' = log s @ tr \<and>
         ((r = ERROR \<and> d' = d \<and> tr \<in>
             {[Prim Start, Check MT_START ERROR],
              [Prim Start, Check MT_START SUCCESS,
               Prim (Transmit (push_bit 1 a OR I2C_WRITE)), Check MT_SLA_WRITE_ACK ERROR, Stop],
              [Prim Start, Check MT_START SUCCESS,
               Prim (Transmit (push_bit 1 a OR I2C_WRITE)), Check MT_SLA_WRITE_ACK SUCCESS,
               Prim (Transmit reg), Check MT_DATA_TRANSMITTED_ACK ERROR, Stop],
              [Prim Start, Check MT_START SUCCESS,
               Prim (Transmit (push_bit 1 a OR I2C_WRITE)), Check MT_SLA_WRITE_ACK SUCCESS,
               Prim (Transmit reg), Check MT_DATA_TRANSMITTED_ACK SUCCESS,
               Prim Start, Check MT_REP_START ERROR],
              [Prim Start, Check MT_START SUCCESS,
               Prim (Transmit (push_bit 1 a OR I2C_WRITE)), Check MT_SLA_WRITE_ACK SUCCESS,
               Prim (Transmit reg), Check MT_DATA_TRANSMITTED_ACK SUCCESS,
               Prim Start, Check MT_REP_START SUCCESS,
               Prim (Transmit (push_bit 1 a OR I2C_READ)), Check MT_SLA_READ_ACK ERROR, Stop]}) \<or>
          (d' = dr_after (hw s (ops s + 5)) \<and> d' = TWDR s' \<and> (r = SUCCESS \<or> r = ERROR) \<and>
           tr = [Prim Start, Check MT_START SUCCESS,
                 Prim (Transmit (push_bit 1 a OR I2C_WRITE)), Check MT_SLA_WRITE_ACK SUCCESS,
                 Prim (Transmit reg), Check MT_DATA_TRANSMITTED_ACK SUCCESS,
                 Prim Start, Check MT_REP_START SUCCESS,
                 Prim (Transmit (push_bit 1 a OR I2C_READ)), Check MT_SLA_READ_ACK SUCCESS,
                 Prim ReceiveNack, Check MT_DATA_RECEIVED_NACK r, Stop]))))"
  (is "(_ \<longrightarrow> ?A) \<and> (_ \<longrightarrow> ?B)")
proof -
  have A: ?A if e: "i2c_read_no_reg a d s = Some (r, d', s')"
  proof -
    have f: "receive_free (sla_r a)" by (simp add: plan_defs)
    from e have "run_read (sla_r a @ [(ReceiveNack, MT_DATA_RECEIVED_NACK)]) d s = Some (r, d', s')"
      by (simp add: read_no_reg_run_read)
    from run_read_last[OF f this] show ?thesis
      unfolding outcome_sla_r_ERROR passes_sla_r length_plans by simp
  qed
  have B: ?B if e: "i2c_read_with_reg a reg d s = Some (r, d', s')"
  proof -
    have f: "receive_free (reg_then_sla_r a reg)" by (simp add: plan_defs)
    from e have "run_read (reg_then_sla_r a reg @ [(ReceiveNack, MT_DATA_RECEIVED_NACK)]) d s =
        Some (r, d', s')"
      by (simp add: read_with_reg_run_read)
    from run_read_last[OF f this] show ?thesis
      unfolding outcome_reg_then_sla_r_ERROR passes_reg_then_sla_r length_plans by simp
  qed
  from A B show ?thesis by blast
qed


theorem single_read_stores_before_check_witness:
  "(\<exists>t. i2c_read_no_reg 0x68 0x11
         (bus [ready 0x08 0xFF, ready 0x40 0xFF, ready 0x00 0xA5] stuck) =
       Some (ERROR, 0xA5, t) \<and>
     log t =
       [Prim Start, Check MT_START SUCCESS, Prim (Transmit 0xD1),
        Check MT_SLA_READ_ACK SUCCESS, Prim ReceiveNack,
        Check MT_DATA_RECEIVED_NACK ERROR, Stop] \<and>
     ((ERROR = ERROR \<and> 0xA5 = (0x11 :: u8) \<and> log t \<in>
             {[Prim Start, Check MT_START ERROR],
              [Prim Start, Check MT_START SUCCESS,
               Prim (Transmit (push_bit 1 0x68 OR I2C_READ)), Check MT_SLA_READ_ACK ERROR, Stop]}) \<or>
          (0xA5 = dr_after (hw (bus [ready 0x08 0xFF, ready 0x40 0xFF, ready 0x00 0xA5] stuck) (ops (bus [ready 0x08 0xFF, ready 0x40 0xFF, ready 0x00 0xA5] stuck) + 2)) \<and> 0xA5 = TWDR t \<and>
           (ERROR = SUCCESS \<or> ERROR = ERROR) \<and>
           log t = [Prim Start, Check MT_START SUCCESS,
                 Prim (Transmit (push_bit 1 0x68 OR I2C_READ)), Check MT_SLA_READ_ACK SUCCESS,
                 Prim ReceiveNack, Check MT_DATA_RECEIVED_NACK ERROR, Stop])) \<and>
     dr_after (hw (bus [ready 0x08 0xFF, ready 0x40 0xFF, ready 0x00 0xA5] stuck) 2) = 0xA5 \<and> TWDR t = 0xA5)
   \<and> (\<exists>t. i2c_read_no_reg 0x68 0x11
         (bus [ready 0x08 0xFF, ready 0x48 0xFF] stuck) =
       Some (ERROR, 0x11, t) \<and>
     log t =
       [Prim Start, Check MT_START SUCCESS, Prim (Transmit 0xD1),
        Check MT_SLA_READ_ACK ERROR, Stop] \<and>
     ((ERROR = ERROR \<and> 0x11 = (0x11 :: u8) \<and> log t \<in>
             {[Prim Start, Check MT_START ERROR],
              [Prim Start, Check MT_START SUCCESS,
               Prim (Transmit (push_bit 1 0x68 OR I2C_READ)), Check MT_SLA_READ_ACK ERROR, Stop]}) \<or>
          (0x11 = dr_after (hw (bus [ready 0x08 0xFF, ready 0x48 0xFF] stuck) (ops (bus [ready 0x08 0xFF, ready 0x48 0xFF] stuck) + 2)) \<and> 0x11 = TWDR t \<and>
           (ERROR = SUCCESS \<or> ERROR = ERROR) \<and>
           log t = [Prim Start, Check MT_START SUCCESS,
                 Prim (Transmit (push_bit 1 0x68 OR I2C_READ)), Check MT_SLA_READ_ACK SUCCESS,
                 Prim ReceiveNack, Check MT_DATA_RECEIVED_NACK ERROR, Stop])) \<and>
     dr_after (hw (bus [ready 0x08 0xFF, ready 0x48 0xFF] stuck) 2) = 0xFF)
   \<and> (\<exists>t. i2c_read_with_reg 0x68 0x00 0x11
         (bus [ready 0x08 0xFF, ready 0x18 0xFF, ready 0x28 0xFF, ready 0x10 0xFF, ready 0x40 0xFF, ready 0x58 0xA5] stuck) =
       Some (SUCCESS, 0xA5, t) \<and>
     log t =
       [Prim Start, Check MT_START SUCCESS, Prim (Transmit 0xD0),
        Check MT_SLA_WRITE_ACK SUCCESS, Prim (Transmit 0x00),
        Check MT_DATA_TRANSMITTED_ACK SUCCESS, Prim Start,
        Check MT_REP_START SUCCESS, Prim (Transmit 0xD1),
        Check MT_SLA_READ_ACK SUCCESS, Prim ReceiveNack,
        Check MT_DATA_RECEIVED_NACK SUCCESS, Stop] \<and>
     ((SUCCESS = ERROR \<and> 0xA5 = (0x11 :: u8) \<and> log t \<in>
             {[Prim Start, Check MT_START ERROR],
              [Prim Start, Check MT_START SUCCESS,
               Prim (Transmit (push_bit 1 0x68 OR I2C_WRITE)), Check MT_SLA_WRITE_ACK ERROR, Stop],
              [Prim Start, Check MT_START SUCCESS,
               Prim (Transmit (push_bit 1 0x68 OR I2C_WRITE)), Check MT_SLA_WRITE_ACK SUCCESS,
               Prim (Transmit 0x00), Check MT_DATA_TRANSMITTED_ACK ERROR, Stop],
              [Prim Start, Check MT_START SUCCESS,
               Prim (Transmit (push_bit 1 0x68 OR I2C_WRITE)), Check MT_SLA_WRITE_ACK SUCCESS,
               Prim (Transmit 0x00), Check MT_DATA_TRANSMITTED_ACK SUCCESS,
               Prim Start, Check MT_REP_START ERROR],
              [Prim Start, Check MT_START SUCCESS,
               Prim (Transmit (push_bit 1 0x68 OR I2C_WRITE)), Check MT_SLA_WRITE_ACK SUCCESS,
               Prim (Transmit 0x00), Check MT_DATA_TRANSMITTED_ACK SUCCESS,
               Prim Start, Check MT_REP_START SUCCESS,
               Prim (Transmit (push_bit 1 0x68 OR I2C_READ)), Check MT_SLA_READ_ACK ERROR, Stop]}) \<or>
          (0xA5 = dr_after (hw (bus [ready 0x08 0xFF, ready 0x18 0xFF, ready 0x28 0xFF, ready 0x10 0xFF, ready 0x40 0xFF, ready 0x58 0xA5] stuck) (ops (bus [ready 0x08 0xFF, ready 0x18 0xFF, ready 0x28 0xFF, ready 0x10 0xFF, ready 0x40 0xFF, ready 0x58 0xA5] stuck) + 5)) \<and> 0xA5 = TWDR t \<and>
           (SUCCESS = SUCCESS \<or> SUCCESS = ERROR) \<and>
           log t = [Prim Start, Check MT_START SUCCESS,
                 Prim (Transmit (push_bit 1 0x68 OR I2C_WRITE)), Check MT_SLA_WRITE_ACK SUCCESS,
                 Prim (Transmit 0x00), Check MT_DATA_TRANSMITTED_ACK SUCCESS,
                 Prim Start, Check MT_REP_START SUCCESS,
                 Prim (Transmit (push_bit 1 0x68 OR I2C_READ)), Check MT_SLA_READ_ACK SUCCESS,
                 Prim ReceiveNack, Check MT_DATA_RECEIVED_NACK SUCCESS, Stop])) \<and>
     dr_after (hw (bus [ready 0x08 0xFF, ready 0x18 0xFF, ready 0x28 0xFF, ready 0x10 0xFF, ready 0x40 0xFF, ready 0x58 0xA5] stuck) 5) = 0xA5 \<and> TWDR t = 0xA5)
   \<and> (\<exists>t. i2c_read_with_reg 0x68 0x00 0x11
         (bus [ready 0x08 0xFF, ready 0x18 0xFF, ready 0x28 0xFF, ready 0x00 0xFF] stuck) =
       Some (ERROR, 0x11, t) \<and>
     log t =
       [Prim Start, Check MT_START SUCCESS, Prim (Transmit 0xD0),
        Check MT_SLA_WRITE_ACK SUCCESS, Prim (Transmit 0x00),
        Check MT_DATA_TRANSMITTED_ACK SUCCESS, Prim Start,
        Check MT_REP_START ERROR] \<and>
     ((ERROR = ERROR \<and> 0x11 = (0x11 :: u8) \<and> log t \<in>
             {[Prim Start, Check MT_START ERROR],
              [Prim Start, Check MT_START SUCCESS,
               Prim (Transmit (push_bit 1 0x68 OR I2C_WRITE)), Check MT_SLA_WRITE_ACK ERROR, Stop],
              [Prim Start, Check MT_START SUCCESS,
               Prim (Transmit (push_bit 1 0x68 OR I2C_WRITE)), Check MT_SLA_WRITE_ACK SUCCESS,
               Prim (Transmit 0x00), Check MT_DATA_TRANSMITTED_ACK ERROR, Stop],
              [Prim Start, Check MT_START SUCCESS,
               Prim (Transmit (push_bit 1 0x68 OR I2C_WRITE)), Check MT_SLA_WRITE_ACK SUCCESS,
               Prim (Transmit 0x00), Check MT_DATA_TRANSMITTED_ACK SUCCESS,
               Prim Start, Check MT_REP_START ERROR],
              [Prim Start, Check MT_START SUCCESS,
               Prim (Transmit (push_bit 1 0x68 OR I2C_WRITE)), Check MT_SLA_WRITE_ACK SUCCESS,
               Prim (Transmit 0x00), Check MT_DATA_TRANSMITTED_ACK SUCCESS,
               Prim Start, Check MT_REP_START SUCCESS,
               Prim (Transmit (push_bit 1 0x68 OR I2C_READ)), Check MT_SLA_READ_ACK ERROR, Stop]}) \<or>
          (0x11 = dr_after (hw (bus [ready 0x08 0xFF, ready 0x18 0xFF, ready 0x28 0xFF, ready 0x00 0xFF] stuck) (ops (bus [ready 0x08 0xFF, ready 0x18 0xFF, ready 0x28 0xFF, ready 0x00 0xFF] stuck) + 5)) \<and> 0x11 = TWDR t \<and>
           (ERROR = SUCCESS \<or> ERROR = ERROR) \<and>
           log t = [Prim Start, Check MT_START SUCCESS,
                 Prim (Transmit (push_bit 1 0x68 OR I2C_WRITE)), Check MT_SLA_WRITE_ACK SUCCESS,
                 Prim (Transmit 0x00), Check MT_DATA_TRANSMITTED_ACK SUCCESS,
                 Prim Start, Check MT_REP_START SUCCESS,
                 Prim (Transmit (push_bit 1 0x68 OR I2C_READ)), Check MT_SLA_READ_ACK SUCCESS,
                 Prim ReceiveNack, Check MT_DATA_RECEIVED_NACK ERROR, Stop])) \<and>
     dr_after (hw (bus [ready 0x08 0xFF, ready 0x18 0xFF, ready 0x28 0xFF, ready 0x00 0xFF] stuck) 5) = 0xFF)"
proof -
  have c0: "\<exists>t. i2c_read_no_reg 0x68 0x11
         (bus [ready 0x08 0xFF, ready 0x40 0xFF, ready 0x00 0xA5] stuck) =
       Some (ERROR, 0xA5, t) \<and>
     log t =
       [Prim Start, Check MT_START SUCCESS, Prim (Transmit 0xD1),
        Check MT_SLA_READ_ACK SUCCESS, Prim ReceiveNack,
        Check MT_DATA_RECEIVED_NACK ERROR, Stop] \<and>
     ((ERROR = ERROR \<and> 0xA5 = (0x11 :: u8) \<and> log t \<in>
             {[Prim Start, Check MT_START ERROR],
              [Prim Start, Check MT_START SUCCESS,
               Prim (Transmit (push_bit 1 0x68 OR I2C_READ)), Check MT_SLA_READ_ACK ERROR, Stop]}) \<or>
          (0xA5 = dr_after (hw (bus [ready 0x08 0xFF, ready 0x40 0xFF, ready 0x00 0xA5] stuck) (ops (bus [ready 0x08 0xFF, ready 0x40 0xFF, ready 0x00 0xA5] stuck) + 2)) \<and> 0xA5 = TWDR t \<and>
           (ERROR = SUCCESS \<or> ERROR = ERROR) \<and>
           log t = [Prim Start, Check MT_START SUCCESS,
                 Prim (Transmit (push_bit 1 0x68 OR I2C_READ)), Check MT_SLA_READ_ACK SUCCESS,
                 Prim ReceiveNack, Check MT_DATA_RECEIVED_NACK ERROR, Stop])) \<and>
     dr_after (hw (bus [ready 0x08 0xFF, ready 0x40 0xFF, ready 0x00 0xA5] stuck) 2) = 0xA5 \<and> TWDR t = 0xA5"
  proof -
    from run_read_last_check_fails obtain t where
      e: "i2c_read_no_reg 0x68 0x11
         (bus [ready 0x08 0xFF, ready 0x40 0xFF, ready 0x00 0xA5] stuck) =
       Some (ERROR, 0xA5, t)"
      and l: "log t =
       [Prim Start, Check MT_START SUCCESS, Prim (Transmit 0xD1),
        Check MT_SLA_READ_ACK SUCCESS, Prim ReceiveNack,
        Check MT_DATA_RECEIVED_NACK ERROR, Stop]"
      by blast
    from single_read_stores_before_check[where a = "0x68" and reg = "0x00" and d = "0x11"
      and s = "bus [ready 0x08 0xFF, ready 0x40 0xFF, ready 0x00 0xA5] stuck" and r = ERROR
      and s' = t and d' = "0xA5",
      THEN conjunct1, THEN mp, OF e]
    have "\<exists>tr. log t = log (bus [ready 0x08 0xFF, ready 0x40 0xFF, ready 0x00 0xA5] stuck) @ tr \<and>
         ((ERROR = ERROR \<and> 0xA5 = (0x11 :: u8) \<and> tr \<in>
             {[Prim Start, Check MT_START ERROR],
              [Prim Start, Check MT_START SUCCESS,
               Prim (Transmit (push_bit 1 0x68 OR I2C_READ)), Check MT_SLA_READ_ACK ERROR, Stop]}) \<or>
          (0xA5 = dr_after (hw (bus [ready 0x08 0xFF, ready 0x40 0xFF, ready 0x00 0xA5] stuck) (ops (bus [ready 0x08 0xFF, ready 0x40 0xFF, ready 0x00 0xA5] stuck) + 2)) \<and> 0xA5 = TWDR t \<and>
           (ERROR = SUCCESS \<or> ERROR = ERROR) \<and>
           tr = [Prim Start, Check MT_START SUCCESS,
                 Prim (Transmit (push_bit 1 0x68 OR I2C_READ)), Check MT_SLA_READ_ACK SUCCESS,
                 Prim ReceiveNack, Check MT_DATA_RECEIVED_NACK ERROR, Stop]))"
      .
    then have d: "((ERROR = ERROR \<and> 0xA5 = (0x11 :: u8) \<and> log t \<in>
             {[Prim Start, Check MT_START ERROR],
              [Prim Start, Check MT_START SUCCESS,
               Prim (Transmit (push_bit 1 0x68 OR I2C_READ)), Check MT_SLA_READ_ACK ERROR, Stop]}) \<or>
          (0xA5 = dr_after (hw (bus [ready 0x08 0xFF, ready 0x40 0xFF, ready 0x00 0xA5] stuck) (ops (bus [ready 0x08 0xFF, ready 0x40 0xFF, ready 0x00 0xA5] stuck) + 2)) \<and> 0xA5 = TWDR t \<and>
           (ERROR = SUCCESS \<or> ERROR = ERROR) \<and>
           log t = [Prim Start, Check MT_START SUCCESS,
                 Prim (Transmit (push_bit 1 0x68 OR I2C_READ)), Check MT_SLA_READ_ACK SUCCESS,
                 Prim ReceiveNack, Check MT_DATA_RECEIVED_NACK ERROR, Stop]))"
      by (simp del: push_bit_Suc push_bit_numeral)
    have f: "dr_after (hw (bus [ready 0x08 0xFF, ready 0x40 0xFF, ready 0x00 0xA5] stuck) 2) = 0xA5 \<and> TWDR t = 0xA5"
      using d l by (simp add: bus_def)
    from e l d f show ?thesis by blast
  qed
  have c1: "\<exists>t. i2c_read_no_reg 0x68 0x11
         (bus [ready 0x08 0xFF, ready 0x48 0xFF] stuck) =
       Some (ERROR, 0x11, t) \<and>
     log t =
       [Prim Start, Check MT_START SUCCESS, Prim (Transmit 0xD1),
        Check MT_SLA_READ_ACK ERROR, Stop] \<and>
     ((ERROR = ERROR \<and> 0x11 = (0x11 :: u8) \<and> log t \<in>
             {[Prim Start, Check MT_START ERROR],
              [Prim Start, Check MT_START SUCCESS,
               Prim (Transmit (push_bit 1 0x68 OR I2C_READ)), Check MT_SLA_READ_ACK ERROR, Stop]}) \<or>
          (0x11 = dr_after (hw (bus [ready 0x08 0xFF, ready 0x48 0xFF] stuck) (ops (bus [ready 0x08 0xFF, ready 0x48 0xFF] stuck) + 2)) \<and> 0x11 = TWDR t \<and>
           (ERROR = SUCCESS \<or> ERROR = ERROR) \<and>
           log t = [Prim Start, Check MT_START SUCCESS,
                 Prim (Transmit (push_bit 1 0x68 OR I2C_READ)), Check MT_SLA_READ_ACK SUCCESS,
                 Prim ReceiveNack, Check MT_DATA_RECEIVED_NACK ERROR, Stop])) \<and>
     dr_after (hw (bus [ready 0x08 0xFF, ready 0x48 0xFF] stuck) 2) = 0xFF"
  proof -
    from run_read_addr_nack obtain t where
      e: "i2c_read_no_reg 0x68 0x11
         (bus [ready 0x08 0xFF, ready 0x48 0xFF] stuck) =
       Some (ERROR, 0x11, t)"
      and l: "log t =
       [Prim Start, Check MT_START SUCCESS, Prim (Transmit 0xD1),
        Check MT_SLA_READ_ACK ERROR, Stop]"
      by blast
    from single_read_stores_before_check[where a = "0x68" and reg = "0x00" and d = "0x11"
      and s = "bus [ready 0x08 0xFF, ready 0x48 0xFF] stuck" and r = ERROR and s' = t
      and d' = "0x11",
      THEN conjunct1, THEN mp, OF e]
    have "\<exists>tr. log t = log (bus [ready 0x08 0xFF, ready 0x48 0xFF] stuck) @ tr \<and>
         ((ERROR = ERROR \<and> 0x11 = (0x11 :: u8) \<and> tr \<in>
             {[Prim Start, Check MT_START ERROR],
              [Prim Start, Check MT_START SUCCESS,
               Prim (Transmit (push_bit 1 0x68 OR I2C_READ)), Check MT_SLA_READ_ACK ERROR, Stop]}) \<or>
          (0x11 = dr_after (hw (bus [ready 0x08 0xFF, ready 0x48 0xFF] stuck) (ops (bus [ready 0x08 0xFF, ready 0x48 0xFF] stuck) + 2)) \<and> 0x11 = TWDR t \<and>
           (ERROR = SUCCESS \<or> ERROR = ERROR) \<and>
           tr = [Prim Start, Check MT_START SUCCESS,
                 Prim (Transmit (push_bit 1 0x68 OR I2C_READ)), Check MT_SLA_READ_ACK SUCCESS,
                 Prim ReceiveNack, Check MT_DATA_RECEIVED_NACK ERROR, Stop]))"
      .
    then have d: "((ERROR = ERROR \<and> 0x11 = (0x11 :: u8) \<and> log t \<in>
             {[Prim Start, Check MT_START ERROR],
              [Prim Start, Check MT_START SUCCESS,
               Prim (Transmit (push_bit 1 0x68 OR I2C_READ)), Check MT_SLA_READ_ACK ERROR, Stop]}) \<or>
          (0x11 = dr_after (hw (bus [ready 0x08 0xFF, ready 0x48 0xFF] stuck) (ops (bus [ready 0x08 0xFF, ready 0x48 0xFF] stuck) + 2)) \<and> 0x11 = TWDR t \<and>
           (ERROR = SUCCESS \<or> ERROR = ERROR) \<and>
           log t = [Prim Start, Check MT_START SUCCESS,
                 Prim (Transmit (push_bit 1 0x68 OR I2C_READ)), Check MT_SLA_READ_ACK SUCCESS,
                 Prim ReceiveNack, Check MT_DATA_RECEIVED_NACK ERROR, Stop]))"
      by (simp del: push_bit_Suc push_bit_numeral)
    have f: "dr_after (hw (bus [ready 0x08 0xFF, ready 0x48 0xFF] stuck) 2) = 0xFF"
      by (simp add: bus_def stuck_def)
    from e l d f show ?thesis by blast
  qed
  have c2: "\<exists>t. i2c_read_with_reg 0x68 0x00 0x11
         (bus [ready 0x08 0xFF, ready 0x18 0xFF, ready 0x28 0xFF, ready 0x10 0xFF, ready 0x40 0xFF, ready 0x58 0xA5] stuck) =
       Some (SUCCESS, 0xA5, t) \<and>
     log t =
       [Prim Start, Check MT_START SUCCESS, Prim (Transmit 0xD0),
        Check MT_SLA_WRITE_ACK SUCCESS, Prim (Transmit 0x00),
        Check MT_DATA_TRANSMITTED_ACK SUCCESS, Prim Start,
        Check MT_REP_START SUCCESS, Prim (Transmit 0xD1),
        Check MT_SLA_READ_ACK SUCCESS, Prim ReceiveNack,
        Check MT_DATA_RECEIVED_NACK SUCCESS, Stop] \<and>
     ((SUCCESS = ERROR \<and> 0xA5 = (0x11 :: u8) \<and> log t \<in>
             {[Prim Start, Check MT_START ERROR],
              [Prim Start, Check MT_START SUCCESS,
               Prim (Transmit (push_bit 1 0x68 OR I2C_WRITE)), Check MT_SLA_WRITE_ACK ERROR, Stop],
              [Prim Start, Check MT_START SUCCESS,
               Prim (Transmit (push_bit 1 0x68 OR I2C_WRITE)), Check MT_SLA_WRITE_ACK SUCCESS,
               Prim (Transmit 0x00), Check MT_DATA_TRANSMITTED_ACK ERROR, Stop],
              [Prim Start, Check MT_START SUCCESS,
               Prim (Transmit (push_bit 1 0x68 OR I2C_WRITE)), Check MT_SLA_WRITE_ACK SUCCESS,
               Prim (Transmit 0x00), Check MT_DATA_TRANSMITTED_ACK SUCCESS,
               Prim Start, Check MT_REP_START ERROR],
              [Prim Start, Check MT_START SUCCESS,
               Prim (Transmit (push_bit 1 0x68 OR I2C_WRITE)), Check MT_SLA_WRITE_ACK SUCCESS,
               Prim (Transmit 0x00), Check MT_DATA_TRANSMITTED_ACK SUCCESS,
               Prim Start, Check MT_REP_START SUCCESS,
               Prim (Transmit (push_bit 1 0x68 OR I2C_READ)), Check MT_SLA_READ_ACK ERROR, Stop]}) \<or>
          (0xA5 = dr_after (hw (bus [ready 0x08 0xFF, ready 0x18 0xFF, ready 0x28 0xFF, ready 0x10 0xFF, ready 0x40 0xFF, ready 0x58 0xA5] stuck) (ops (bus [ready 0x08 0xFF, ready 0x18 0xFF, ready 0x28 0xFF, ready 0x10 0xFF, ready 0x40 0xFF, ready 0x58 0xA5] stuck) + 5)) \<and> 0xA5 = TWDR t \<and>
           (SUCCESS = SUCCESS \<or> SUCCESS = ERROR) \<and>
           log t = [Prim Start, Check MT_START SUCCESS,
                 Prim (Transmit (push_bit 1 0x68 OR I2C_WRITE)), Check MT_SLA_WRITE_ACK SUCCESS,
                 Prim (Transmit 0x00), Check MT_DATA_TRANSMITTED_ACK SUCCESS,
                 Prim Start, Check MT_REP_START SUCCESS,
                 Prim (Transmit (push_bit 1 0x68 OR I2C_READ)), Check MT_SLA_READ_ACK SUCCESS,
                 Prim ReceiveNack, Check MT_DATA_RECEIVED_NACK SUCCESS, Stop])) \<and>
     dr_after (hw (bus [ready 0x08 0xFF, ready 0x18 0xFF, ready 0x28 0xFF, ready 0x10 0xFF, ready 0x40 0xFF, ready 0x58 0xA5] stuck) 5) = 0xA5 \<and> TWDR t = 0xA5"
  proof -
    from run_read_reg_ok obtain t where
      e: "i2c_read_with_reg 0x68 0x00 0x11
         (bus [ready 0x08 0xFF, ready 0x18 0xFF, ready 0x28 0xFF, ready 0x10 0xFF, ready 0x40 0xFF, ready 0x58 0xA5] stuck) =
       Some (SUCCESS, 0xA5, t)"
      and l: "log t =
       [Prim Start, Check MT_START SUCCESS, Prim (Transmit 0xD0),
        Check MT_SLA_WRITE_ACK SUCCESS, Prim (Transmit 0x00),
        Check MT_DATA_TRANSMITTED_ACK SUCCESS, Prim Start,
        Check MT_REP_START SUCCESS, Prim (Transmit 0xD1),
        Check MT_SLA_READ_ACK SUCCESS, Prim ReceiveNack,
        Check MT_DATA_RECEIVED_NACK SUCCESS, Stop]"
      by blast
    from single_read_stores_before_check[where a = "0x68" and reg = "0x00" and d = "0x11"
      and s = "bus [ready 0x08 0xFF, ready 0x18 0xFF, ready 0x28 0xFF, ready 0x10 0xFF, ready 0x40 0xFF, ready 0x58 0xA5] stuck"
      and r = SUCCESS and s' = t and d' = "0xA5",
      THEN conjunct2, THEN mp, OF e]
    have "\<exists>tr. log t = log (bus [ready 0x08 0xFF, ready 0x18 0xFF, ready 0x28 0xFF, ready 0x10 0xFF, ready 0x40 0xFF, ready 0x58 0xA5] stuck) @ tr \<and>
         ((SUCCESS = ERROR \<and> 0xA5 = (0x11 :: u8) \<and> tr \<in>
             {[Prim Start, Check MT_START ERROR],
              [Prim Start, Check MT_START SUCCESS,
               Prim (Transmit (push_bit 1 0x68 OR I2C_WRITE)), Check MT_SLA_WRITE_ACK ERROR, Stop],
              [Prim Start, Check MT_START SUCCESS,
               Prim (Transmit (push_bit 1 0x68 OR I2C_WRITE)), Check MT_SLA_WRITE_ACK SUCCESS,
               Prim (Transmit 0x00), Check MT_DATA_TRANSMITTED_ACK ERROR, Stop],
              [Prim Start, Check MT_START SUCCESS,
               Prim (Transmit (push_bit 1 0x68 OR I2C_WRITE)), Check MT_SLA_WRITE_ACK SUCCESS,
               Prim (Transmit 0x00), Check MT_DATA_TRANSMITTED_ACK SUCCESS,
               Prim Start, Check MT_REP_START ERROR],
              [Prim Start, Check MT_START SUCCESS,
               Prim (Transmit (push_bit 1 0x68 OR I2C_WRITE)), Check MT_SLA_WRITE_ACK SUCCESS,
               Prim (Transmit 0x00), Check MT_DATA_TRANSMITTED_ACK SUCCESS,
               Prim Start, Check MT_REP_START SUCCESS,
               Prim (Transmit (push_bit 1 0x68 OR I2C_READ)), Check MT_SLA_READ_ACK ERROR, Stop]}) \<or>
          (0xA5 = dr_after (hw (bus [ready 0x08 0xFF, ready 0x18 0xFF, ready 0x28 0xFF, ready 0x10 0xFF, ready 0x40 0xFF, ready 0x58 0xA5] stuck) (ops (bus [ready 0x08 0xFF, ready 0x18 0xFF, ready 0x28 0xFF, ready 0x10 0xFF, ready 0x40 0xFF, ready 0x58 0xA5] stuck) + 5)) \<and> 0xA5 = TWDR t \<and>
           (SUCCESS = SUCCESS \<or> SUCCESS = ERROR) \<and>
           tr = [Prim Start, Check MT_START SUCCESS,
                 Prim (Transmit (push_bit 1 0x68 OR I2C_WRITE)), Check MT_SLA_WRITE_ACK SUCCESS,
                 Prim (Transmit 0x00), Check MT_DATA_TRANSMITTED_ACK SUCCESS,
                 Prim Start, Check MT_REP_START SUCCESS,
                 Prim (Transmit (push_bit 1 0x68 OR I2C_READ)), Check MT_SLA_READ_ACK SUCCESS,
                 Prim ReceiveNack, Check MT_DATA_RECEIVED_NACK SUCCESS, Stop]))"
      .
    then have d: "((SUCCESS = ERROR \<and> 0xA5 = (0x11 :: u8) \<and> log t \<in>
             {[Prim Start, Check MT_START ERROR],
              [Prim Start, Check MT_START SUCCESS,
               Prim (Transmit (push_bit 1 0x68 OR I2C_WRITE)), Check MT_SLA_WRITE_ACK ERROR, Stop],
              [Prim Start, Check MT_START SUCCESS,
               Prim (Transmit (push_bit 1 0x68 OR I2C_WRITE)), Check MT_SLA_WRITE_ACK SUCCESS,
               Prim (Transmit 0x00), Check MT_DATA_TRANSMITTED_ACK ERROR, Stop],
              [Prim Start, Check MT_START SUCCESS,
               Prim (Transmit (push_bit 1 0x68 OR I2C_WRITE)), Check MT_SLA_WRITE_ACK SUCCESS,
               Prim (Transmit 0x00), Check MT_DATA_TRANSMITTED_ACK SUCCESS,
               Prim Start, Check MT_REP_START ERROR],
              [Prim Start, Check MT_START SUCCESS,
               Prim (Transmit (push_bit 1 0x68 OR I2C_WRITE)), Check MT_SLA_WRITE_ACK SUCCESS,
               Prim (Transmit 0x00), Check MT_DATA_TRANSMITTED_ACK SUCCESS,
               Prim Start, Check MT_REP_START SUCCESS,
               Prim (Transmit (push_bit 1 0x68 OR I2C_READ)), Check MT_SLA_READ_ACK ERROR, Stop]}) \<or>
          (0xA5 = dr_after (hw (bus [ready 0x08 0xFF, ready 0x18 0xFF, ready 0x28 0xFF, ready 0x10 0xFF, ready 0x40 0xFF, ready 0x58 0xA5] stuck) (ops (bus [ready 0x08 0xFF, ready 0x18 0xFF, ready 0x28 0xFF, ready 0x10 0xFF, ready 0x40 0xFF, ready 0x58 0xA5] stuck) + 5)) \<and> 0xA5 = TWDR t \<and>
           (SUCCESS = SUCCESS \<or> SUCCESS = ERROR) \<and>
           log t = [Prim Start, Check MT_START SUCCESS,
                 Prim (Transmit (push_bit 1 0x68 OR I2C_WRITE)), Check MT_SLA_WRITE_ACK SUCCESS,
                 Prim (Transmit 0x00), Check MT_DATA_TRANSMITTED_ACK SUCCESS,
                 Prim Start, Check MT_REP_START SUCCESS,
                 Prim (Transmit (push_bit 1 0x68 OR I2C_READ)), Check MT_SLA_READ_ACK SUCCESS,
                 Prim ReceiveNack, Check MT_DATA_RECEIVED_NACK SUCCESS, Stop]))"
      by (simp del: push_bit_Suc push_bit_numeral)
    have f: "dr_after (hw (bus [ready 0x08 0xFF, ready 0x18 0xFF, ready 0x28 0xFF, ready 0x10 0xFF, ready 0x40 0xFF, ready 0x58 0xA5] stuck) 5) = 0xA5 \<and> TWDR t = 0xA5"
      using d l by (simp add: bus_def)
    from e l d f show ?thesis by blast
  qed
  have c3: "\<exists>t. i2c_read_with_reg 0x68 0x00 0x11
         (bus [ready 0x08 0xFF, ready 0x18 0xFF, ready 0x28 0xFF, ready 0x00 0xFF] stuck) =
       Some (ERROR, 0x11, t) \<and>
     log t =
       [Prim Start, Check MT_START SUCCESS, Prim (Transmit 0xD0),
        Check MT_SLA_WRITE_ACK SUCCESS, Prim (Transmit 0x00),
        Check MT_DATA_TRANSMITTED_ACK SUCCESS, Prim Start,
        Check MT_REP_START ERROR] \<and>
     ((ERROR = ERROR \<and> 0x11 = (0x11 :: u8) \<and> log t \<in>
             {[Prim Start, Check MT_START ERROR],
              [Prim Start, Check MT_START SUCCESS,
               Prim (Transmit (push_bit 1 0x68 OR I2C_WRITE)), Check MT_SLA_WRITE_ACK ERROR, Stop],
              [Prim Start, Check MT_START SUCCESS,
               Prim (Transmit (push_bit 1 0x68 OR I2C_WRITE)), Check MT_SLA_WRITE_ACK SUCCESS,
               Prim (Transmit 0x00), Check MT_DATA_TRANSMITTED_ACK ERROR, Stop],
              [Prim Start, Check MT_START SUCCESS,
               Prim (Transmit (push_bit 1 0x68 OR I2C_WRITE)), Check MT_SLA_WRITE_ACK SUCCESS,
               Prim (Transmit 0x00), Check MT_DATA_TRANSMITTED_ACK SUCCESS,
               Prim Start, Check MT_REP_START ERROR],
              [Prim Start, Check MT_START SUCCESS,
               Prim (Transmit (push_bit 1 0x68 OR I2C_WRITE)), Check MT_SLA_WRITE_ACK SUCCESS,
               Prim (Transmit 0x00), Check MT_DATA_TRANSMITTED_ACK SUCCESS,
               Prim Start, Check MT_REP_START SUCCESS,
               Prim (Transmit (push_bit 1 0x68 OR I2C_READ)), Check MT_SLA_READ_ACK ERROR, Stop]}) \<or>
          (0x11 = dr_after (hw (bus [ready 0x08 0xFF, ready 0x18 0xFF, ready 0x28 0xFF, ready 0x00 0xFF] stuck) (ops (bus [ready 0x08 0xFF, ready 0x18 0xFF, ready 0x28 0xFF, ready 0x00 0xFF] stuck) + 5)) \<and> 0x11 = TWDR t \<and>
           (ERROR = SUCCESS \<or> ERROR = ERROR) \<and>
           log t = [Prim Start, Check MT_START SUCCESS,
                 Prim (Transmit (push_bit 1 0x68 OR I2C_WRITE)), Check MT_SLA_WRITE_ACK SUCCESS,
                 Prim (Transmit 0x00), Check MT_DATA_TRANSMITTED_ACK SUCCESS,
                 Prim Start, Check MT_REP_START SUCCESS,
                 Prim (Transmit (push_bit 1 0x68 OR I2C_READ)), Check MT_SLA_READ_ACK SUCCESS,
                 Prim ReceiveNack, Check MT_DATA_RECEIVED_NACK ERROR, Stop])) \<and>
     dr_after (hw (bus [ready 0x08 0xFF, ready 0x18 0xFF, ready 0x28 0xFF, ready 0x00 0xFF] stuck) 5) = 0xFF"
  proof -
    from run_read_reg_rep_start_fails obtain t where
      e: "i2c_read_with_reg 0x68 0x00 0x11
         (bus [ready 0x08 0xFF, ready 0x18 0xFF, ready 0x28 0xFF, ready 0x00 0xFF] stuck) =
       Some (ERROR, 0x11, t)"
      and l: "log t =
       [Prim Start, Check MT_START SUCCESS, Prim (Transmit 0xD0),
        Check MT_SLA_WRITE_ACK SUCCESS, Prim (Transmit 0x00),
        Check MT_DATA_TRANSMITTED_ACK SUCCESS, Prim Start,
        Check MT_REP_START ERROR]"
      by blast
    from single_read_stores_before_check[where a = "0x68" and reg = "0x00" and d = "0x11"
      and s = "bus [ready 0x08 0xFF, ready 0x18 0xFF, ready 0x28 0xFF, ready 0x00 0xFF] stuck"
      and r = ERROR and s' = t and d' = "0x11",
      THEN conjunct2, THEN mp, OF e]
    have "\<exists>tr. log t = log (bus [ready 0x08 0xFF, ready 0x18 0xFF, ready 0x28 0xFF, ready 0x00 0xFF] stuck) @ tr \<and>
         ((ERROR = ERROR \<and> 0x11 = (0x11 :: u8) \<and> tr \<in>
             {[Prim Start, Check MT_START ERROR],
              [Prim Start, Check MT_START SUCCESS,
               Prim (Transmit (push_bit 1 0x68 OR I2C_WRITE)), Check MT_SLA_WRITE_ACK ERROR, Stop],
              [Prim Start, Check MT_START SUCCESS,
               Prim (Transmit (push_bit 1 0x68 OR I2C_WRITE)), Check MT_SLA_WRITE_ACK SUCCESS,
               Prim (Transmit 0x00), Check MT_DATA_TRANSMITTED_ACK ERROR, Stop],
              [Prim Start, Check MT_START SUCCESS,
               Prim (Transmit (push_bit 1 0x68 OR I2C_WRITE)), Check MT_SLA_WRITE_ACK SUCCESS,
               Prim (Transmit 0x00), Check MT_DATA_TRANSMITTED_ACK SUCCESS,
               Prim Start, Check MT_REP_START ERROR],
              [Prim Start, Check MT_START SUCCESS,
               Prim (Transmit (push_bit 1 0x68 OR I2C_WRITE)), Check MT_SLA_WRITE_ACK SUCCESS,
               Prim (Transmit 0x00), Check MT_DATA_TRANSMITTED_ACK SUCCESS,
               Prim Start, Check MT_REP_START SUCCESS,
               Prim (Transmit (push_bit 1 0x68 OR I2C_READ)), Check MT_SLA_READ_ACK ERROR, Stop]}) \<or>
          (0x11 = dr_after (hw (bus [ready 0x08 0xFF, ready 0x18 0xFF, ready 0x28 0xFF, ready 0x00 0xFF] stuck) (ops (bus [ready 0x08 0xFF, ready 0x18 0xFF, ready 0x28 0xFF, ready 0x00 0xFF] stuck) + 5)) \<and> 0x11 = TWDR t \<and>
           (ERROR = SUCCESS \<or> ERROR = ERROR) \<and>
           tr = [Prim Start, Check MT_START SUCCESS,
                 Prim (Transmit (push_bit 1 0x68 OR I2C_WRITE)), Check MT_SLA_WRITE_ACK SUCCESS,
                 Prim (Transmit 0x00), Check MT_DATA_TRANSMITTED_ACK SUCCESS,
                 Prim Start, Check MT_REP_START SUCCESS,
                 Prim (Transmit (push_bit 1 0x68 OR I2C_READ)), Check MT_SLA_READ_ACK SUCCESS,
                 Prim ReceiveNack, Check MT_DATA_RECEIVED_NACK ERROR, Stop]))"
      .
    then have d: "((ERROR = ERROR \<and> 0x11 = (0x11 :: u8) \<and> log t \<in>
             {[Prim Start, Check MT_START ERROR],
              [Prim Start, Check MT_START SUCCESS,
               Prim (Transmit (push_bit 1 0x68 OR I2C_WRITE)), Check MT_SLA_WRITE_ACK ERROR, Stop],
              [Prim Start, Check MT_START SUCCESS,
               Prim (Transmit (push_bit 1 0x68 OR I2C_WRITE)), Check MT_SLA_WRITE_ACK SUCCESS,
               Prim (Transmit 0x00), Check MT_DATA_TRANSMITTED_ACK ERROR, Stop],
              [Prim Start, Check MT_START SUCCESS,
               Prim (Transmit (push_bit 1 0x68 OR I2C_WRITE)), Check MT_SLA_WRITE_ACK SUCCESS,
               Prim (Transmit 0x00), Check MT_DATA_TRANSMITTED_ACK SUCCESS,
               Prim Start, Check MT_REP_START ERROR],
              [Prim Start, Check MT_START SUCCESS,
               Prim (Transmit (push_bit 1 0x68 OR I2C_WRITE)), Check MT_SLA_WRITE_ACK SUCCESS,
               Prim (Transmit 0x00), Check MT_DATA_TRANSMITTED_ACK SUCCESS,
               Prim Start, Check MT_REP_START SUCCESS,
               Prim (Transmit (push_bit 1 0x68 OR I2C_READ)), Check MT_SLA_READ_ACK ERROR, Stop]}) \<or>
          (0x11 = dr_after (hw (bus [ready 0x08 0xFF, ready 0x18 0xFF, ready 0x28 0xFF, ready 0x00 0xFF] stuck) (ops (bus [ready 0x08 0xFF, ready 0x18 0xFF, ready 0x28 0xFF, ready 0x00 0xFF] stuck) + 5)) \<and> 0x11 = TWDR t \<and>
           (ERROR = SUCCESS \<or> ERROR = ERROR) \<and>
           log t = [Prim Start, Check MT_START SUCCESS,
                 Prim (Transmit (push_bit 1 0x68 OR I2C_WRITE)), Check MT_SLA_WRITE_ACK SUCCESS,
                 Prim (Transmit 0x00), Check MT_DATA_TRANSMITTED_ACK SUCCESS,
                 Prim Start, Check MT_REP_START SUCCESS,
                 Prim (Transmit (push_bit 1 0x68 OR I2C_READ)), Check MT_SLA_READ_ACK SUCCESS,
                 Prim ReceiveNack, Check MT_DATA_RECEIVED_NACK ERROR, Stop]))"
      by (simp del: push_bit_Suc push_bit_numeral)
    have f: "dr_after (hw (bus [ready 0x08 0xFF, ready 0x18 0xFF, ready 0x28 0xFF, ready 0x00 0xFF] stuck) 5) = 0xFF"
      by (simp add: bus_def stuck_def)
    from e l d f show ?thesis by blast
  qed
  show ?thesis
    by (intro conjI c0 c1 c2 c3)
qed

subsection \<open>C10: the multi-byte functions with length 0\<close>

text \<open>
  C10. With \<open>len = 0\<close> the four multi-byte functions never enter their loop. The writes
  return what they return for the empty array; the reads hand the array back as it was;
  none runs outside the array, whatever its size. Every returning run has one of the
  logs listed, which hold the start, the address byte, the register byte and repeated
  start where there are any, and no data byte sent or received. When the peripheral
  reports the expected code for each of these phases the call returns \<open>SUCCESS\<close>, its
  last act being a stop.
\<close>

theorem multi_len_zero:
  "i2c_write_multi_no_reg a data 0 s = i2c_write_multi_no_reg a [] 0 s
   \<and> (\<forall>x. i2c_write_multi_no_reg a data 0 s = Some x \<longrightarrow>
        (\<exists>r s' tr. x = Inr (r, s') \<and> log s' = log s @ tr \<and>
           (r, tr) \<in>
             {(ERROR, [Prim Start, Check MT_START ERROR]),
              (ERROR, [Prim Start, Check MT_START SUCCESS,
                       Prim (Transmit (push_bit 1 a OR I2C_WRITE)), Check MT_SLA_WRITE_ACK ERROR,
                       Stop]),
              (SUCCESS, [Prim Start, Check MT_START SUCCESS,
                         Prim (Transmit (push_bit 1 a OR I2C_WRITE)), Check MT_SLA_WRITE_ACK SUCCESS,
                         Stop])}))
   \<and> (answers s [MT_START, MT_SLA_WRITE_ACK] \<longrightarrow>
        (\<exists>s'. i2c_write_multi_no_reg a data 0 s = Some (Inr (SUCCESS, s'))))
   \<and> i2c_write_multi_with_reg a reg data 0 s = i2c_write_multi_with_reg a reg [] 0 s
   \<and> (\<forall>x. i2c_write_multi_with_reg a reg data 0 s = Some x \<longrightarrow>
        (\<exists>r s' tr. x = Inr (r, s') \<and> log s' = log s @ tr \<and>
           (r, tr) \<in>
             {(ERROR, [Prim Start, Check MT_START ERROR]),
              (ERROR, [Prim Start, Check MT_START SUCCESS,
                       Prim (Transmit (push_bit 1 a OR I2C_WRITE)), Check MT_SLA_WRITE_ACK ERROR,
                       Stop]),
              (ERROR, [Prim Start, Check MT_START SUCCESS,
                       Prim (Transmit (push_bit 1 a OR I2C_WRITE)), Check MT_SLA_WRITE_ACK SUCCESS,
                       Prim (Transmit reg), Check MT_DATA_TRANSMITTED_ACK ERROR,
                       Stop]),
              (SUCCESS, [Prim Start, Check MT_START SUCCESS,
                         Prim (Transmit (push_bit 1 a OR I2C_WRITE)), Check MT_SLA_WRITE_ACK SUCCESS,
                         Prim (Transmit reg), Check MT_DATA_TRANSMITTED_ACK SUCCESS,
                         Stop])}))
   \<and> (answers s [MT_START, MT_SLA_WRITE_ACK, MT_DATA_TRANSMITTED_ACK] \<longrightarrow>
        (\<exists>s'. i2c_write_multi_with_reg a reg data 0 s = Some (Inr (SUCCESS, s'))))
   \<and> (\<forall>x. i2c_read_multi_no_reg a 0 data s = Some x \<longrightarrow>
        (\<exists>r s' tr. x = Inr (r, data, s') \<and> log s' = log s @ tr \<and>
           (r, tr) \<in>
             {(ERROR, [Prim Start, Check MT_START ERROR]),
              (ERROR, [Prim Start, Check MT_START SUCCESS,
                       Prim (Transmit (push_bit 1 a OR I2C_READ)), Check MT_SLA_READ_ACK ERROR,
                       Stop]),
              (SUCCESS, [Prim Start, Check MT_START SUCCESS,
                         Prim (Transmit (push_bit 1 a OR I2C_READ)), Check MT_SLA_READ_ACK SUCCESS,
                         Stop])}))
   \<and> (answers s [MT_START, MT_SLA_READ_ACK] \<longrightarrow>
        (\<exists>s'. i2c_read_multi_no_reg a 0 data s = Some (Inr (SUCCESS, data, s'))))
   \<and> (\<forall>x. i2c_read_multi_with_reg a reg 0 data s = Some x \<longrightarrow>
        (\<exists>r s' tr. x = Inr (r, data, s') \<and> log s' = log s @ tr \<and>
           (r, tr) \<in>
             {(ERROR, [Prim Start, Check MT_START ERROR]),
              (ERROR, [Prim Start, Check MT_START SUCCESS,
                       Prim (Transmit (push_bit 1 a OR I2C_WRITE)), Check MT_SLA_WRITE_ACK ERROR,
                       Stop]),
              (ERROR, [Prim Start, Check MT_START SUCCESS,
                       Prim (Transmit (push_bit 1 a OR I2C_WRITE)), Check MT_SLA_WRITE_ACK SUCCESS,
                       Prim (Transmit reg), Check MT_DATA_TRANSMITTED_ACK ERROR,
                       Stop]),
              (ERROR, [Prim Start, Check MT_START SUCCESS,
                       Prim (Transmit (push_bit 1 a OR I2C_WRITE)), Check MT_SLA_WRITE_ACK SUCCESS,
                       Prim (Transmit reg), Check MT_DATA_TRANSMITTED_ACK SUCCESS,
                       Prim Start, Check MT_REP_START ERROR]),
              (ERROR, [Prim Start, Check MT_START SUCCESS,
                       Prim (Transmit (push_bit 1 a OR I2C_WRITE)), Check MT_SLA_WRITE_ACK SUCCESS,
                       Prim (Transmit reg), Check MT_DATA_TRANSMITTED_ACK SUCCESS,
                       Prim Start, Check MT_REP_START SUCCESS,
                       Prim (Transmit (push_bit 1 a OR I2C_READ)), Check MT_SLA_READ_ACK ERROR,
                       Stop]),
              (SUCCESS, [Prim Start, Check MT_START SUCCESS,
                         Prim (Transmit (push_bit 1 a OR I2C_WRITE)), Check MT_SLA_WRITE_ACK SUCCESS,
                         Prim (Transmit reg), Check MT_DATA_TRANSMITTED_ACK SUCCESS,
                         Prim Start, Check MT_REP_START SUCCESS,
                         Prim (Transmit (push_bit 1 a OR I2C_READ)), Check MT_SLA_READ_ACK SUCCESS,
                         Stop])}))
   \<and> (answers s [MT_START, MT_SLA_WRITE_ACK, MT_DATA_TRANSMITTED_ACK, MT_REP_START,
                   MT_SLA_READ_ACK] \<longrightarrow>
        (\<exists>s'. i2c_read_multi_with_reg a reg 0 data s = Some (Inr (SUCCESS, data, s'))))"
  (is "?w0 \<and> ?w1 \<and> ?w2 \<and> ?v0 \<and> ?v1 \<and> ?v2 \<and> ?r1 \<and> ?r2 \<and> ?q1 \<and> ?q2")
proof -
  have w0: ?w0 by (simp add: write_multi_no_reg_len0)
  have w1: ?w1
  proof (intro allI impI)
    fix x assume "i2c_write_multi_no_reg a data 0 s = Some x"
    then obtain r s' where x: "x = Inr (r, s')" and "run_phases (sla_w a) s = Some (r, s')"
      by (auto simp: write_multi_no_reg_len0)
    from run_phases_outcome[OF this(2)] obtain tr where
      "log s' = log s @ tr" "outcome (sla_w a) r tr" by blast
    with x show "\<exists>r s' tr. x = Inr (r, s') \<and> log s' = log s @ tr \<and>
           (r, tr) \<in>
             {(ERROR, [Prim Start, Check MT_START ERROR]),
              (ERROR, [Prim Start, Check MT_START SUCCESS,
                       Prim (Transmit (push_bit 1 a OR I2C_WRITE)), Check MT_SLA_WRITE_ACK ERROR,
                       Stop]),
              (SUCCESS, [Prim Start, Check MT_START SUCCESS,
                         Prim (Transmit (push_bit 1 a OR I2C_WRITE)), Check MT_SLA_WRITE_ACK SUCCESS,
                         Stop])}"
      by (auto simp: plan_defs outcome_Cons)
  qed
  have w2: ?w2
    using run_phases_answers[of s "sla_w a"]
    by (auto simp: write_multi_no_reg_len0 plan_defs)
  have v0: ?v0 by (simp add: write_multi_with_reg_len0)
  have v1: ?v1
  proof (intro allI impI)
    fix x assume "i2c_write_multi_with_reg a reg data 0 s = Some x"
    then obtain r s' where x: "x = Inr (r, s')"
      and "run_phases (sla_w a @ [(Transmit reg, MT_DATA_TRANSMITTED_ACK)]) s = Some (r, s')"
      by (auto simp: write_multi_with_reg_len0)
    from run_phases_outcome[OF this(2)] obtain tr where
      "log s' = log s @ tr" "outcome (sla_w a @ [(Transmit reg, MT_DATA_TRANSMITTED_ACK)]) r tr"
      by blast
    with x show "\<exists>r s' tr. x = Inr (r, s') \<and> log s' = log s @ tr \<and>
           (r, tr) \<in>
             {(ERROR, [Prim Start, Check MT_START ERROR]),
              (ERROR, [Prim Start, Check MT_START SUCCESS,
                       Prim (Transmit (push_bit 1 a OR I2C_WRITE)), Check MT_SLA_WRITE_ACK ERROR,
                       Stop]),
              (ERROR, [Prim Start, Check MT_START SUCCESS,
                       Prim (Transmit (push_bit 1 a OR I2C_WRITE)), Check MT_SLA_WRITE_ACK SUCCESS,
                       Prim (Transmit reg), Check MT_DATA_TRANSMITTED_ACK ERROR,
                       Stop]),
              (SUCCESS, [Prim Start, Check MT_START SUCCESS,
                         Prim (Transmit (push_bit 1 a OR I2C_WRITE)), Check MT_SLA_WRITE_ACK SUCCESS,
                         Prim (Transmit reg), Check MT_DATA_TRANSMITTED_ACK SUCCESS,
                         Stop])}"
      by (auto simp: plan_defs outcome_Cons)
  qed
  have v2: ?v2
    using run_phases_answers[of s "sla_w a @ [(Transmit reg, MT_DATA_TRANSMITTED_ACK)]"]
    by (auto simp: write_multi_with_reg_len0 plan_defs)
  have r1: ?r1
  proof (intro allI impI)
    fix x assume "i2c_read_multi_no_reg a 0 data s = Some x"
    then obtain r s' where x: "x = Inr (r, data, s')" and "run_phases (sla_r a) s = Some (r, s')"
      by (auto simp: read_multi_no_reg_len0)
    from run_phases_outcome[OF this(2)] obtain tr where
      "log s' = log s @ tr" "outcome (sla_r a) r tr" by blast
    with x show "\<exists>r s' tr. x = Inr (r, data, s') \<and> log s' = log s @ tr \<and>
           (r, tr) \<in>
             {(ERROR, [Prim Start, Check MT_START ERROR]),
              (ERROR, [Prim Start, Check MT_START SUCCESS,
                       Prim (Transmit (push_bit 1 a OR I2C_READ)), Check MT_SLA_READ_ACK ERROR,
                       Stop]),
              (SUCCESS, [Prim Start, Check MT_START SUCCESS,
                         Prim (Transmit (push_bit 1 a OR I2C_READ)), Check MT_SLA_READ_ACK SUCCESS,
                         Stop])}"
      by (auto simp: plan_defs outcome_Cons)
  qed
  have r2: ?r2
    using run_phases_answers[of s "sla_r a"]
    by (auto simp: read_multi_no_reg_len0 plan_defs)
  have q1: ?q1
  proof (intro allI impI)
    fix x assume "i2c_read_multi_with_reg a reg 0 data s = Some x"
    then obtain r s' where x: "x = Inr (r, data, s')"
      and "run_phases (reg_then_sla_r a reg) s = Some (r, s')"
      by (auto simp: read_multi_with_reg_len0)
    from run_phases_outcome[OF this(2)] obtain tr where
      "log s' = log s @ tr" "outcome (reg_then_sla_r a reg) r tr" by blast
    with x show "\<exists>r s' tr. x = Inr (r, data, s') \<and> log s' = log s @ tr \<and>
           (r, tr) \<in>
             {(ERROR, [Prim Start, Check MT_START ERROR]),
              (ERROR, [Prim Start, Check MT_START SUCCESS,
                       Prim (Transmit (push_bit 1 a OR I2C_WRITE)), Check MT_SLA_WRITE_ACK ERROR,
                       Stop]),
              (ERROR, [Prim Start, Check MT_START SUCCESS,
                       Prim (Transmit (push_bit 1 a OR I2C_WRITE)), Check MT_SLA_WRITE_ACK SUCCESS,
                       Prim (Transmit reg), Check MT_DATA_TRANSMITTED_ACK ERROR,
                       Stop]),
              (ERROR, [Prim Start, Check MT_START SUCCESS,
                       Prim (Transmit (push_bit 1 a OR I2C_WRITE)), Check MT_SLA_WRITE_ACK SUCCESS,
                       Prim (Transmit reg), Check MT_DATA_TRANSMITTED_ACK SUCCESS,
                       Prim Start, Check MT_REP_START ERROR]),
              (ERROR, [Prim Start, Check MT_START SUCCESS,
                       Prim (Transmit (push_bit 1 a OR I2C_WRITE)), Check MT_SLA_WRITE_ACK SUCCESS,
                       Prim (Transmit reg), Check MT_DATA_TRANSMITTED_ACK SUCCESS,
                       Prim Start, Check MT_REP_START SUCCESS,
                       Prim (Transmit (push_bit 1 a OR I2C_READ)), Check MT_SLA_READ_ACK ERROR,
                       Stop]),
              (SUCCESS, [Prim Start, Check MT_START SUCCESS,
                         Prim (Transmit (push_bit 1 a OR I2C_WRITE)), Check MT_SLA_WRITE_ACK SUCCESS,
                         Prim (Transmit reg), Check MT_DATA_TRANSMITTED_ACK SUCCESS,
                         Prim Start, Check MT_REP_START SUCCESS,
                         Prim (Transmit (push_bit 1 a OR I2C_READ)), Check MT_SLA_READ_ACK SUCCESS,
                         Stop])}"
      by (auto simp: plan_defs outcome_Cons)
  qed
  have q2: ?q2
    using run_phases_answers[of s "reg_then_sla_r a reg"]
    by (auto simp: read_multi_with_reg_len0 plan_defs)
  from w0 w1 w2 v0 v1 v2 r1 r2 q1 q2 show ?thesis by blast
qed

theorem multi_len_zero_witness:
  "(answers (bus [ready 0x08 0xFF, ready 0x18 0xFF] stuck)
       [MT_START, MT_SLA_WRITE_ACK] \<and>
     (\<exists>t. i2c_write_multi_no_reg 0x27 [] 0
         (bus [ready 0x08 0xFF, ready 0x18 0xFF] stuck) =
       Some (Inr (SUCCESS, t)) \<and>
     log t =
       [Prim Start, Check MT_START SUCCESS, Prim (Transmit 0x4E),
        Check MT_SLA_WRITE_ACK SUCCESS, Stop]))
   \<and> (answers (bus [ready 0x08 0xFF, ready 0x18 0xFF, ready 0x28 0xFF] stuck)
       [MT_START, MT_SLA_WRITE_ACK, MT_DATA_TRANSMITTED_ACK] \<and>
     (\<exists>t. i2c_write_multi_with_reg 0x27 0x10 [] 0
         (bus [ready 0x08 0xFF, ready 0x18 0xFF, ready 0x28 0xFF] stuck) =
       Some (Inr (SUCCESS, t)) \<and>
     log t =
       [Prim Start, Check MT_START SUCCESS, Prim (Transmit 0x4E),
        Check MT_SLA_WRITE_ACK SUCCESS, Prim (Transmit 0x10),
        Check MT_DATA_TRANSMITTED_ACK SUCCESS, Stop]))
   \<and> (answers (bus [ready 0x08 0xFF, ready 0x40 0xFF] stuck)
       [MT_START, MT_SLA_READ_ACK] \<and>
     (\<exists>t. i2c_read_multi_no_reg 0x68 0 []
         (bus [ready 0x08 0xFF, ready 0x40 0xFF] stuck) =
       Some (Inr (SUCCESS, [], t)) \<and>
     log t =
       [Prim Start, Check MT_START SUCCESS, Prim (Transmit 0xD1),
        Check MT_SLA_READ_ACK SUCCESS, Stop]))
   \<and> (answers (bus [ready 0x08 0xFF, ready 0x18 0xFF, ready 0x28 0xFF, ready 0x10 0xFF, ready 0x40 0xFF] stuck)
       [MT_START, MT_SLA_WRITE_ACK, MT_DATA_TRANSMITTED_ACK, MT_REP_START,
        MT_SLA_READ_ACK] \<and>
     (\<exists>t. i2c_read_multi_with_reg 0x68 0x00 0 []
         (bus [ready 0x08 0xFF, ready 0x18 0xFF, ready 0x28 0xFF, ready 0x10 0xFF, ready 0x40 0xFF] stuck) =
       Some (Inr (SUCCESS, [], t)) \<and>
     log t =
       [Prim Start, Check MT_START SUCCESS, Prim (Transmit 0xD0),
        Check MT_SLA_WRITE_ACK SUCCESS, Prim (Transmit 0x00),
        Check MT_DATA_TRANSMITTED_ACK SUCCESS, Prim Start,
        Check MT_REP_START SUCCESS, Prim (Transmit 0xD1),
        Check MT_SLA_READ_ACK SUCCESS, Stop]))"
proof -
  have c0: "answers (bus [ready 0x08 0xFF, ready 0x18 0xFF] stuck)
       [MT_START, MT_SLA_WRITE_ACK] \<and>
     (\<exists>t. i2c_write_multi_no_reg 0x27 [] 0
         (bus [ready 0x08 0xFF, ready 0x18 0xFF] stuck) =
       Some (Inr (SUCCESS, t)) \<and>
     log t =
       [Prim Start, Check MT_START SUCCESS, Prim (Transmit 0x4E),
        Check MT_SLA_WRITE_ACK SUCCESS, Stop])"
  proof -
    have a: "answers (bus [ready 0x08 0xFF, ready 0x18 0xFF] stuck)
       [MT_START, MT_SLA_WRITE_ACK]"
      by (simp add: answers_Cons_shift completes_ready bus_def MT_defs)
    from multi_len_zero[where a = "0x27" and reg = "0x00" and data = "[]"
      and s = "bus [ready 0x08 0xFF, ready 0x18 0xFF] stuck",
      THEN conjunct2, THEN conjunct2, THEN conjunct1, THEN mp, OF a]
    obtain t where e: "i2c_write_multi_no_reg 0x27 [] 0
         (bus [ready 0x08 0xFF, ready 0x18 0xFF] stuck) =
       Some (Inr (SUCCESS, t))"
      by blast
    from multi_len_zero[where a = "0x27" and reg = "0x00" and data = "[]"
      and s = "bus [ready 0x08 0xFF, ready 0x18 0xFF] stuck",
      THEN conjunct2, THEN conjunct1, THEN spec, THEN mp, OF e]
    have "log t =
       [Prim Start, Check MT_START SUCCESS, Prim (Transmit 0x4E),
        Check MT_SLA_WRITE_ACK SUCCESS, Stop]"
      by (auto simp: I2C_WRITE_def I2C_READ_def MT_defs SUCCESS_def ERROR_def)
    with a e show ?thesis by blast
  qed
  have c1: "answers (bus [ready 0x08 0xFF, ready 0x18 0xFF, ready 0x28 0xFF] stuck)
       [MT_START, MT_SLA_WRITE_ACK, MT_DATA_TRANSMITTED_ACK] \<and>
     (\<exists>t. i2c_write_multi_with_reg 0x27 0x10 [] 0
         (bus [ready 0x08 0xFF, ready 0x18 0xFF, ready 0x28 0xFF] stuck) =
       Some (Inr (SUCCESS, t)) \<and>
     log t =
       [Prim Start, Check MT_START SUCCESS, Prim (Transmit 0x4E),
        Check MT_SLA_WRITE_ACK SUCCESS, Prim (Transmit 0x10),
        Check MT_DATA_TRANSMITTED_ACK SUCCESS, Stop])"
  proof -
    have a: "answers (bus [ready 0x08 0xFF, ready 0x18 0xFF, ready 0x28 0xFF] stuck)
       [MT_START, MT_SLA_WRITE_ACK, MT_DATA_TRANSMITTED_ACK]"
      by (simp add: answers_Cons_shift completes_ready bus_def MT_defs)
    from multi_len_zero[where a = "0x27" and reg = "0x10" and data = "[]"
      and s = "bus [ready 0x08 0xFF, ready 0x18 0xFF, ready 0x28 0xFF] stuck",
      THEN conjunct2, THEN conjunct2, THEN conjunct2, THEN conjunct2, THEN conjunct2, THEN conjunct1, THEN mp, OF a]
    obtain t where e: "i2c_write_multi_with_reg 0x27 0x10 [] 0
         (bus [ready 0x08 0xFF, ready 0x18 0xFF, ready 0x28 0xFF] stuck) =
       Some (Inr (SUCCESS, t))"
      by blast
    from multi_len_zero[where a = "0x27" and reg = "0x10" and data = "[]"
      and s = "bus [ready 0x08 0xFF, ready 0x18 0xFF, ready 0x28 0xFF] stuck",
      THEN conjunct2, THEN conjunct2, THEN conjunct2, THEN conjunct2, THEN conjunct1, THEN spec, THEN mp, OF e]
    have "log t =
       [Prim Start, Check MT_START SUCCESS, Prim (Transmit 0x4E),
        Check MT_SLA_WRITE_ACK SUCCESS, Prim (Transmit 0x10),
        Check MT_DATA_TRANSMITTED_ACK SUCCESS, Stop]"
      by (auto simp: I2C_WRITE_def I2C_READ_def MT_defs SUCCESS_def ERROR_def)
    with a e show ?thesis by blast
  qed
  have c2: "answers (bus [ready 0x08 0xFF, ready 0x40 0xFF] stuck)
       [MT_START, MT_SLA_READ_ACK] \<and>
     (\<exists>t. i2c_read_multi_no_reg 0x68 0 []
         (bus [ready 0x08 0xFF, ready 0x40 0xFF] stuck) =
       Some (Inr (SUCCESS, [], t)) \<and>
     log t =
       [Prim Start, Check MT_START SUCCESS, Prim (Transmit 0xD1),
        Check MT_SLA_READ_ACK SUCCESS, Stop])"
  proof -
    have a: "answers (bus [ready 0x08 0xFF, ready 0x40 0xFF] stuck)
       [MT_START, MT_SLA_READ_ACK]"
      by (simp add: answers_Cons_shift completes_ready bus_def MT_defs)
    from multi_len_zero[where a = "0x68" and reg = "0x00" and data = "[]"
      and s = "bus [ready 0x08 0xFF, ready 0x40 0xFF] stuck",
      THEN conjunct2, THEN conjunct2, THEN conjunct2, THEN conjunct2, THEN conjunct2, THEN conjunct2, THEN conjunct2, THEN conjunct1, THEN mp, OF a]
    obtain t where e: "i2c_read_multi_no_reg 0x68 0 []
         (bus [ready 0x08 0xFF, ready 0x40 0xFF] stuck) =
       Some (Inr (SUCCESS, [], t))"
      by blast
    from multi_len_zero[where a = "0x68" and reg = "0x00" and data = "[]"
      and s = "bus [ready 0x08 0xFF, ready 0x40 0xFF] stuck",
      THEN conjunct2, THEN conjunct2, THEN conjunct2, THEN conjunct2, THEN conjunct2, THEN conjunct2, THEN conjunct1, THEN spec, THEN mp, OF e]
    have "log t =
       [Prim Start, Check MT_START SUCCESS, Prim (Transmit 0xD1),
        Check MT_SLA_READ_ACK SUCCESS, Stop]"
      by (auto simp: I2C_WRITE_def I2C_READ_def MT_defs SUCCESS_def ERROR_def)
    with a e show ?thesis by blast
  qed
  have c3: "answers (bus [ready 0x08 0xFF, ready 0x18 0xFF, ready 0x28 0xFF, ready 0x10 0xFF, ready 0x40 0xFF] stuck)
       [MT_START, MT_SLA_WRITE_ACK, MT_DATA_TRANSMITTED_ACK, MT_REP_START,
        MT_SLA_READ_ACK] \<and>
     (\<exists>t. i2c_read_multi_with_reg 0x68 0x00 0 []
         (bus [ready 0x08 0xFF, ready 0x18 0xFF, ready 0x28 0xFF, ready 0x10 0xFF, ready 0x40 0xFF] stuck) =
       Some (Inr (SUCCESS, [], t)) \<and>
     log t =
       [Prim Start, Check MT_START SUCCESS, Prim (Transmit 0xD0),
        Check MT_SLA_WRITE_ACK SUCCESS, Prim (Transmit 0x00),
        Check MT_DATA_TRANSMITTED_ACK SUCCESS, Prim Start,
        Check MT_REP_START SUCCESS, Prim (Transmit 0xD1),
        Check MT_SLA_READ_ACK SUCCESS, Stop])"
  proof -
    have a: "answers (bus [ready 0x08 0xFF, ready 0x18 0xFF, ready 0x28 0xFF, ready 0x10 0xFF, ready 0x40 0xFF] stuck)
       [MT_START, MT_SLA_WRITE_ACK, MT_DATA_TRANSMITTED_ACK, MT_REP_START,
        MT_SLA_READ_ACK]"
      by (simp add: answers_Cons_shift completes_ready bus_def MT_defs)
    from multi_len_zero[where a = "0x68" and reg = "0x00" and data = "[]"
      and s = "bus [ready 0x08 0xFF, ready 0x18 0xFF, ready 0x28 0xFF, ready 0x10 0xFF, ready 0x40 0xFF] stuck",
      THEN conjunct2, THEN conjunct2, THEN conjunct2, THEN conjunct2, THEN conjunct2, THEN conjunct2, THEN conjunct2, THEN conjunct2, THEN conjunct2, THEN mp, OF a]
    obtain t where e: "i2c_read_multi_with_reg 0x68 0x00 0 []
         (bus [ready 0x08 0xFF, ready 0x18 0xFF, ready 0x28 0xFF, ready 0x10 0xFF, ready 0x40 0xFF] stuck) =
       Some (Inr (SUCCESS, [], t))"
      by blast
    from multi_len_zero[where a = "0x68" and reg = "0x00" and data = "[]"
      and s = "bus [ready 0x08 0xFF, ready 0x18 0xFF, ready 0x28 0xFF, ready 0x10 0xFF, ready 0x40 0xFF] stuck",
      THEN conjunct2, THEN conjunct2, THEN conjunct2, THEN conjunct2, THEN conjunct2, THEN conjunct2, THEN conjunct2, THEN conjunct2, THEN conjunct1, THEN spec, THEN mp, OF e]
    have "log t =
       [Prim Start, Check MT_START SUCCESS, Prim (Transmit 0xD0),
        Check MT_SLA_WRITE_ACK SUCCESS, Prim (Transmit 0x00),
        Check MT_DATA_TRANSMITTED_ACK SUCCESS, Prim Start,
        Check MT_REP_START SUCCESS, Prim (Transmit 0xD1),
        Check MT_SLA_READ_ACK SUCCESS, Stop]"
      by (auto simp: I2C_WRITE_def I2C_READ_def MT_defs SUCCESS_def ERROR_def)
    with a e show ?thesis by blast
  qed
  show ?thesis
    by (intro conjI c0 c1 c2 c3)
qed

end
